(* ===== verification/DJV_Prelude.thy ===== *)
theory DJV_Prelude
  imports Main "HOL-Library.Word"
begin

text \<open>
  Shared vocabulary of the DJV development: the error values that stand for the
  exceptions of the C++ code, bytes and machine words, the whitespace class of the
  C++ streams, and models of the standard-library conversions the codecs call
  (\<open>std::to_string\<close> on an unsigned value, decimal parsing of a word, the host's
  little-endian view of a byte buffer as 16-bit samples).  Each model comes with the
  round-trip and length lemmas the component theories share; they are collected in
  the named theorem lists \<open>text_conv\<close> and \<open>byte_conv\<close>.
\<close>

named_theorems text_conv "round-trip and shape facts of the decimal text conversions"
named_theorems byte_conv "round-trip and shape facts of the byte-buffer conversions"

subsection \<open>Errors\<close>

text \<open>
  One constructor per kind of failure the modelled code raises or the spec names
  (section 7 of the spec).  \<open>CannotParse\<close> is the \<open>std::invalid_argument\<close> that
  \<open>fromJSON\<close> throws; \<open>JsonTypeError\<close> is picojson's failed \<open>get<T>\<close> assertion;
  \<open>NullDeref\<close> marks a dereference of an empty shared pointer; \<open>NonFinite\<close>
  marks a \<open>float\<close> computation whose result is infinite or NaN (the model stops
  there rather than carry the non-finite value on).
\<close>

datatype error =
    CannotParse
  | JsonTypeError
  | TruncatedData
  | BufferOverrun
  | UnsupportedFormat
  | NoPluginForExtension string
  | DuplicateExtension string
  | NoPluginNamed string
  | MissingFrame int
  | NullDeref
  | NonFinite

type_synonym byte = "8 word"

subsection \<open>Characters\<close>

text \<open>The characters \<open>std::isspace\<close> accepts in the C locale.\<close>

definition is_space :: "char \<Rightarrow> bool" where
  "is_space c \<longleftrightarrow> c \<in> set [CHR '' '', CHR 0x09, CHR 0x0A, CHR 0x0B, CHR 0x0C, CHR 0x0D]"

definition digit_char :: "nat \<Rightarrow> char" where
  "digit_char d = char_of (48 + d)"

definition digit_value :: "char \<Rightarrow> nat" where
  "digit_value c = of_char c - 48"

definition is_digit :: "char \<Rightarrow> bool" where
  "is_digit c \<longleftrightarrow> (48::nat) \<le> of_char c \<and> of_char c \<le> (57::nat)"

subsection \<open>Decimal text of unsigned values\<close>

text \<open>
  \<open>std::to_string\<close> of an unsigned value: its decimal digits, most significant
  first, without leading zeros (a single \<open>0\<close> for zero).
\<close>

fun dec_string :: "nat \<Rightarrow> string" where
  "dec_string n =
     (if n < 10 then [digit_char n] else dec_string (n div 10) @ [digit_char (n mod 10)])"

declare dec_string.simps [simp del]

text \<open>Decimal value of a run of digits, most significant first.\<close>

definition dec_value :: "string \<Rightarrow> nat" where
  "dec_value s = foldl (\<lambda>acc c. 10 * acc + digit_value c) 0 s"

subsection \<open>Little-endian 16-bit samples\<close>

text \<open>
  A \<open>uint16_t*\<close> view of a byte buffer on a little-endian host: consecutive byte
  pairs, low byte first.  A trailing odd byte is not part of any sample.
\<close>

fun words16_le :: "byte list \<Rightarrow> 16 word list" where
  "words16_le (lo # hi # rest) = of_nat (unat lo + 256 * unat hi) # words16_le rest"
| "words16_le _ = []"

fun bytes16_le :: "16 word list \<Rightarrow> byte list" where
  "bytes16_le [] = []"
| "bytes16_le (w # ws) = of_nat (unat w mod 256) # of_nat (unat w div 256) # bytes16_le ws"

subsection \<open>Signed decimal text\<close>

text \<open>
  \<open>std::ostream << int\<close>: a minus sign for negative values, then the digits of the
  magnitude.
\<close>

definition int_string :: "int \<Rightarrow> string" where
  "int_string i = (if i < 0 then CHR ''-'' # dec_string (nat (- i)) else dec_string (nat i))"

text \<open>
  \<open>std::istream >> int\<close> (C++11 \<open>num_get\<close>): the sentry skips leading whitespace;
  if nothing is left it fails and the \<open>int\<close> keeps its old value.  Otherwise an
  optional sign and the longest run of digits are read.  No digits stores 0; a value
  outside the range of \<open>int\<close> stores the nearest bound.  Neither case throws: the
  stream only sets its fail bit, which no caller here inspects.
\<close>

definition split_sign :: "string \<Rightarrow> bool \<times> string" where
  "split_sign t =
     (case t of
        [] \<Rightarrow> (False, [])
      | c # r \<Rightarrow> if c = CHR ''-'' then (True, r) else if c = CHR ''+'' then (False, r) else (False, t))"

definition istream_int :: "string \<Rightarrow> 32 word \<Rightarrow> 32 word" where
  "istream_int s old =
     (let (neg, u) = split_sign (dropWhile is_space s);
          ds = takeWhile is_digit u;
          v = (if neg then - int (dec_value ds) else int (dec_value ds))
      in if dropWhile is_space s = [] then old
         else if ds = [] then 0
         else if 2 ^ 31 - 1 < v then word_of_int (2 ^ 31 - 1)
         else if v < - (2 ^ 31) then word_of_int (- (2 ^ 31))
         else word_of_int v)"

subsection \<open>Fixed-size character buffers\<close>

text \<open>
  \<open>Core::String::cStringLength\<close>, the size of the \<open>char\<close> buffers the code reads
  words and formats messages into.
\<close>

definition cStringLength :: nat where
  "cStringLength = 4096"

subsection \<open>Sequencing fallible steps\<close>

text \<open>
  A step that may raise, followed by one that uses its result: the exception of the
  first step propagates and the second does not run.
\<close>

definition bind_sum :: "'e + 'a \<Rightarrow> ('a \<Rightarrow> 'e + 'b) \<Rightarrow> 'e + 'b" where
  "bind_sum m f = (case m of Inl e \<Rightarrow> Inl e | Inr a \<Rightarrow> f a)"

subsection \<open>Loops with an \<open>int\<close> counter and a \<open>size_t\<close> bound\<close>

text \<open>
  \<open>for (int i = 0; i < size; ++i)\<close> with a \<open>size_t size\<close>: the comparison converts
  \<open>i\<close> to \<open>size_t\<close> by sign extension (\<open>scast\<close>), and \<open>++i\<close> past
  \<open>INT_MAX\<close> is undefined behaviour, taken here as the two's-complement wrap the
  compilers produce.  \<open>int_loop_trips size i\<close> counts the iterations from \<open>i\<close>.  The
  loop always ends: at \<open>i = -1\<close> the extended counter is \<open>SIZE_MAX\<close>, which no
  \<open>size\<close> exceeds, so the unsigned value of \<open>i\<close> grows until the loop stops.
\<close>

function int_loop_trips :: "64 word \<Rightarrow> 32 word \<Rightarrow> nat" where
  "int_loop_trips sz i = (if (scast i :: 64 word) < sz then Suc (int_loop_trips sz (i + 1)) else 0)"
  by pat_completeness auto

termination
proof (relation "measure (\<lambda>(sz, i). 2 ^ 32 - unat i)")
  fix sz :: "64 word" and i :: "32 word"
  assume c: "(scast i :: 64 word) < sz"
  have "i \<noteq> -1"
  proof
    assume "i = -1"
    then have "(scast i :: 64 word) = -1" by simp
    with c show False by (metis max_word_max not_le)
  qed
  then have "1 + i \<noteq> 0" by (metis add.commute eq_neg_iff_add_eq_0)
  then have "unat (i + 1) = Suc (unat i)" using unatSuc [of i] by (simp add: add.commute)
  moreover have "unat i < 2 ^ 32" using unsigned_less [of i] by simp
  ultimately show "((sz, i + 1), sz, i) \<in> measure (\<lambda>(sz, i). 2 ^ 32 - unat i)" by simp
qed simp

subsection \<open>Conversion lemmas\<close>

lemma bind_sum_simps [simp]:
  "bind_sum (Inl e) f = Inl e"
  "bind_sum (Inr a) f = f a"
  by (simp_all add: bind_sum_def)

lemma bind_sum_eq_Inr:
  "bind_sum m f = Inr b \<longleftrightarrow> (\<exists>a. m = Inr a \<and> f a = Inr b)"
  by (cases m) simp_all

lemma digit_value_digit_char [simp, text_conv]:
  "d < 10 \<Longrightarrow> digit_value (digit_char d) = d"
  by (simp add: digit_value_def digit_char_def)

lemma is_digit_digit_char [simp, text_conv]:
  "d < 10 \<Longrightarrow> is_digit (digit_char d)"
  by (simp add: is_digit_def digit_char_def)

lemma digit_not_space [simp, text_conv]:
  "is_digit c \<Longrightarrow> \<not> is_space c"
  by (auto simp: is_digit_def is_space_def)

lemma dec_value_snoc [simp]:
  "dec_value (s @ [c]) = 10 * dec_value s + digit_value c"
  by (simp add: dec_value_def)

lemma dec_value_dec_string [simp, text_conv]: "dec_value (dec_string n) = n"
proof (induction n rule: dec_string.induct)
  case (1 n)
  show ?case
  proof (cases "n < 10")
    case True
    then show ?thesis by (simp add: dec_string.simps [of n] dec_value_def)
  next
    case False
    with "1.IH" show ?thesis by (simp add: dec_string.simps [of n])
  qed
qed

lemma dec_string_digits [text_conv]: "\<forall>c \<in> set (dec_string n). is_digit c"
proof (induction n rule: dec_string.induct)
  case (1 n)
  then show ?case by (subst dec_string.simps) auto
qed

lemma dec_string_not_space [simp, text_conv]: "c \<in> set (dec_string n) \<Longrightarrow> \<not> is_space c"
  using dec_string_digits [of n] digit_not_space by blast

lemma dec_string_nonempty [simp, text_conv]: "dec_string n \<noteq> []"
  by (subst dec_string.simps) simp

lemma length_dec_string_le [text_conv]:
  "n < 10 ^ k \<Longrightarrow> length (dec_string n) \<le> max 1 k"
proof (induction n arbitrary: k rule: dec_string.induct)
  case (1 n)
  show ?case
  proof (cases "n < 10")
    case True
    then show ?thesis by (simp add: dec_string.simps [of n])
  next
    case False
    then obtain j where k: "k = Suc j"
      using "1.prems" by (cases k) auto
    with "1.prems" have "n div 10 < 10 ^ j"
      by (simp add: less_mult_imp_div_less mult.commute)
    with "1.IH" False have "length (dec_string (n div 10)) \<le> max 1 j"
      by blast
    moreover from False k "1.prems" have "1 \<le> j"
      by (cases j) auto
    ultimately show ?thesis
      using False k by (simp add: dec_string.simps [of n])
  qed
qed

lemma length_bytes16_le [simp, byte_conv]: "length (bytes16_le ws) = 2 * length ws"
  by (induction ws) auto

lemma length_words16_le [simp, byte_conv]: "length (words16_le bs) = length bs div 2"
  by (induction bs rule: words16_le.induct) auto

lemma unat_le16_pair:
  fixes lo hi :: byte
  shows "unat (of_nat (unat lo + 256 * unat hi) :: 16 word) = unat lo + 256 * unat hi"
proof -
  have "unat lo < 256" "unat hi < 256"
    using unsigned_less [of lo] unsigned_less [of hi] by simp_all
  then have "unat lo + 256 * unat hi < 2 ^ LENGTH(16)"
    by simp
  then show ?thesis
    by (simp only: unat_of_nat mod_less)
qed

lemma unat_words16_le_nth [byte_conv]:
  "i < length bs div 2 \<Longrightarrow> unat (words16_le bs ! i) = unat (bs ! (2 * i)) + 256 * unat (bs ! (2 * i + 1))"
proof (induction bs arbitrary: i rule: words16_le.induct)
  case (1 lo hi rest)
  then show ?case
    using unat_le16_pair [of lo hi] by (cases i) simp_all
qed simp_all

lemma bytes16_le_words16_le [simp, byte_conv]:
  "even (length bs) \<Longrightarrow> bytes16_le (words16_le bs) = bs"
proof (induction bs rule: words16_le.induct)
  case (1 lo hi rest)
  define v :: "16 word" where "v = of_nat (unat lo + 256 * unat hi)"
  have u: "unat v = unat lo + 256 * unat hi"
    unfolding v_def by (rule unat_le16_pair)
  have lo: "unat lo < 256"
    using unsigned_less [of lo] by simp
  have m: "(of_nat (unat v mod 256) :: byte) = lo"
    using lo by (simp add: u)
  have d: "(of_nat (unat v div 256) :: byte) = hi"
    using lo by (simp add: u)
  have w: "words16_le (lo # hi # rest) = v # words16_le rest"
    by (simp only: words16_le.simps v_def)
  from "1" have "bytes16_le (words16_le rest) = rest"
    by simp
  then show ?case
    by (simp only: w bytes16_le.simps m d)
qed simp_all

lemma words16_le_bytes16_le [simp, byte_conv]: "words16_le (bytes16_le ws) = ws"
proof (induction ws)
  case (Cons w ws)
  have lt: "unat w < 65536"
    using unsigned_less [of w] by simp
  have "unat (of_nat (unat w mod 256) :: byte) = unat w mod 256"
    by (simp add: unat_of_nat)
  moreover have "unat (of_nat (unat w div 256) :: byte) = unat w div 256"
    using lt by (simp add: unat_of_nat)
  ultimately have "(of_nat (unat (of_nat (unat w mod 256) :: byte)
                   + 256 * unat (of_nat (unat w div 256) :: byte)) :: 16 word) = w"
    by simp
  with Cons show ?case by simp
qed simp

lemma dec_string_hd_digit [text_conv]:
  obtains c r where "dec_string n = c # r" and "is_digit c"
proof -
  obtain c r where cr: "dec_string n = c # r"
    by (cases "dec_string n") auto
  moreover have "is_digit c"
    using dec_string_digits [of n] cr by simp
  ultimately show ?thesis using that by blast
qed

lemma digit_not_sign [simp, text_conv]:
  "is_digit c \<Longrightarrow> c \<noteq> CHR ''-'' \<and> c \<noteq> CHR ''+''"
  by (auto simp: is_digit_def)

lemma set_split_sign [text_conv]: "set (snd (split_sign t)) \<subseteq> set t"
  by (auto simp: split_sign_def split: list.splits)

lemma split_sign_dec_string [simp, text_conv]: "split_sign (dec_string n) = (False, dec_string n)"
  by (rule dec_string_hd_digit [of n]) (simp add: split_sign_def)

lemma dropWhile_space_dec_string [simp, text_conv]: "dropWhile is_space (dec_string n) = dec_string n"
  by (rule dec_string_hd_digit [of n]) simp

lemma takeWhile_digit_dec_string [simp, text_conv]: "takeWhile is_digit (dec_string n) = dec_string n"
  using dec_string_digits [of n] by (simp add: takeWhile_eq_all_conv)

lemma istream_int_int_string [simp, text_conv]: "istream_int (int_string (sint q)) old = q"
proof (cases "sint q < 0")
  case True
  have lo: "- (2 ^ 31) \<le> sint q"
    using sint_ge [of q] by simp
  obtain c r where cr: "dec_string (nat (- sint q)) = c # r" and d: "is_digit c"
    by (rule dec_string_hd_digit)
  have sp: "dropWhile is_space (int_string (sint q)) = int_string (sint q)"
    using True by (simp add: int_string_def is_space_def)
  have ss: "split_sign (int_string (sint q)) = (True, dec_string (nat (- sint q)))"
    using True by (simp add: int_string_def split_sign_def)
  have v: "- int (dec_value (dec_string (nat (- sint q)))) = sint q"
    using True by simp
  show ?thesis
    unfolding istream_int_def Let_def sp ss
    using lo v by (simp add: int_string_def del: dec_value_dec_string)
next
  case False
  have hi: "sint q < 2 ^ 31"
    using sint_lt [of q] by simp
  have e: "int_string (sint q) = dec_string (nat (sint q))"
    using False by (simp add: int_string_def)
  show ?thesis
    unfolding istream_int_def Let_def e
    using False hi by simp
qed

subsection \<open>Loop counter lemmas\<close>


lemma uint32_bounds: "0 \<le> uint (i :: 32 word) \<and> uint i < 2 ^ 32"
  using unsigned_less [of i] by simp

lemma sint32_uint: "sint (i :: 32 word) = (if uint i < 2 ^ 31 then uint i else uint i - 2 ^ 32)"
proof -
  have b: "0 \<le> uint i" "uint i < 2 ^ 32" using uint32_bounds [of i] by simp_all
  have s: "sint i = (uint i + 2 ^ 31) mod 2 ^ 32 - 2 ^ 31"
    by (simp only: sint_uint signed_take_bit_eq_take_bit_shift take_bit_eq_mod) simp
  show ?thesis
  proof (cases "uint i < 2 ^ 31")
    case True
    then have "(uint i + 2 ^ 31) mod 2 ^ 32 = uint i + 2 ^ 31"
      using b by (intro mod_pos_pos_trivial) simp_all
    then show ?thesis using s True by simp
  next
    case False
    have "(uint i + 2 ^ 31) mod 2 ^ 32 = ((uint i + 2 ^ 31 - 2 ^ 32) + 2 ^ 32) mod (2 ^ 32 :: int)" by (simp add: add.commute)
    also have "\<dots> = (uint i + 2 ^ 31 - 2 ^ 32) mod 2 ^ 32" by (rule mod_add_self2)
    also have "\<dots> = uint i + 2 ^ 31 - 2 ^ 32" using b False by (intro mod_pos_pos_trivial) simp_all
    finally show ?thesis using s False by simp
  qed
qed



lemma int_unat32: "int (unat (i::32 word)) = uint i" by simp

lemma unat32_less_iff: "unat (i::32 word) < 2 ^ 31 \<longleftrightarrow> uint i < 2 ^ 31"
proof -
  have "unat i < 2 ^ 31 \<longleftrightarrow> int (unat i) < int (2 ^ 31)" by (rule of_nat_less_iff [symmetric])
  then show ?thesis by (simp only: int_unat32) simp
qed

lemma unat_scast32:
  "unat (scast (i :: 32 word) :: 64 word) = (if unat i < 2 ^ 31 then unat i else unat i + (2 ^ 64 - 2 ^ 32))"
proof -
  have b: "0 \<le> uint i" "uint i < 2 ^ 32" using uint32_bounds [of i] by simp_all
  have u: "unat (scast i :: 64 word) = nat (sint i mod 2 ^ 64)"
    by (simp only: scast_eq unat_eq_nat_uint uint_word_of_int_eq take_bit_eq_mod) simp
  have n: "unat i = nat (uint i)" by (simp only: unat_eq_nat_uint)
  show ?thesis
  proof (cases "uint i < 2 ^ 31")
    case True
    then have "sint i mod 2 ^ 64 = uint i" using b by (simp add: sint32_uint mod_pos_pos_trivial)
    then have "unat (scast i :: 64 word) = unat i" by (simp only: u n)
    moreover have "unat i < 2 ^ 31" using True unat32_less_iff [of i] by (simp only:)
    ultimately show ?thesis by (simp only: if_True)
  next
    case False
    have "sint i mod 2 ^ 64 = ((uint i - 2 ^ 32 + 2 ^ 64) - 2 ^ 64) mod (2 ^ 64 :: int)"
      using False by (simp add: sint32_uint)
    also have "\<dots> = (uint i - 2 ^ 32 + 2 ^ 64) mod 2 ^ 64" by (simp only: minus_mod_self2)
    also have "\<dots> = uint i - 2 ^ 32 + 2 ^ 64" using b by (intro mod_pos_pos_trivial) simp_all
    finally have m: "sint i mod 2 ^ 64 = uint i + int (2 ^ 64 - 2 ^ 32)" by simp
    have "nat (uint i + int (2 ^ 64 - 2 ^ 32)) = nat (uint i) + (2 ^ 64 - 2 ^ 32)"
      using b by (simp only: nat_add_distrib nat_int of_nat_0_le_iff)
    then have "unat (scast i :: 64 word) = unat i + (2 ^ 64 - 2 ^ 32)" by (simp only: u m n)
    moreover have "\<not> unat i < 2 ^ 31" using False unat32_less_iff [of i] by (simp only: not_False_eq_True)
    ultimately show ?thesis by (simp only: if_False)
  qed
qed



declare int_loop_trips.simps [simp del]

lemma scast32_less:
  "((scast (i :: 32 word) :: 64 word) < sz) \<longleftrightarrow> (if unat i < 2 ^ 31 then unat i else unat i + (2 ^ 64 - 2 ^ 32)) < unat sz"
  by (simp only: word_less_nat_alt unat_scast32)

lemma unat_succ32: "(scast (i :: 32 word) :: 64 word) < sz \<Longrightarrow> unat (i + 1) = Suc (unat i)"
proof -
  assume c: "(scast i :: 64 word) < sz"
  have "i \<noteq> -1"
  proof
    assume "i = -1"
    then have "(scast i :: 64 word) = -1" by simp
    with c show False by (metis max_word_max not_le)
  qed
  then have "1 + i \<noteq> 0" by (metis add.commute eq_neg_iff_add_eq_0)
  then show ?thesis using unatSuc [of i] by (simp add: add.commute)
qed

lemma int_loop_trips_upper:
  "2 ^ 31 \<le> unat i \<Longrightarrow> int_loop_trips sz i = unat sz - (unat i + (2 ^ 64 - 2 ^ 32))"
proof (induction sz i rule: int_loop_trips.induct)
  case (1 sz i)
  show ?case
  proof (cases "(scast i :: 64 word) < sz")
    case True
    have s: "unat (i + 1) = Suc (unat i)" using True by (rule unat_succ32)
    have lt: "unat i + (2 ^ 64 - 2 ^ 32) < unat sz" using True "1.prems" by (simp add: scast32_less)
    have "int_loop_trips sz (i + 1) = unat sz - (unat (i + 1) + (2 ^ 64 - 2 ^ 32))"
      using "1.IH" [OF True] "1.prems" s by simp
    then show ?thesis using True s lt by (subst int_loop_trips.simps) simp
  next
    case False
    then have "unat sz \<le> unat i + (2 ^ 64 - 2 ^ 32)" using "1.prems" by (simp add: scast32_less)
    then show ?thesis using False by (subst int_loop_trips.simps) simp
  qed
qed

lemma int_loop_trips_lower:
  "unat i < 2 ^ 31 \<Longrightarrow>
   int_loop_trips sz i = (if unat sz \<le> 2 ^ 31 then unat sz - unat i else 2 ^ 31 - unat i + (unat sz - (2 ^ 64 - 2 ^ 31)))"
proof (induction sz i rule: int_loop_trips.induct)
  case (1 sz i)
  show ?case
  proof (cases "(scast i :: 64 word) < sz")
    case True
    have s: "unat (i + 1) = Suc (unat i)" using True by (rule unat_succ32)
    have lt: "unat i < unat sz" using True "1.prems" by (simp add: scast32_less)
    show ?thesis
    proof (cases "Suc (unat i) < 2 ^ 31")
      case True2: True
      have "int_loop_trips sz (i + 1) =
              (if unat sz \<le> 2 ^ 31 then unat sz - Suc (unat i)
               else 2 ^ 31 - Suc (unat i) + (unat sz - (2 ^ 64 - 2 ^ 31)))"
        using "1.IH" [OF True] True2 s by simp
      then show ?thesis using True lt True2 by (subst int_loop_trips.simps) auto
    next
      case False2: False
      then have e: "unat i = 2 ^ 31 - 1" using "1.prems" by simp
      have "int_loop_trips sz (i + 1) = unat sz - (2 ^ 31 + (2 ^ 64 - 2 ^ 32))"
        using int_loop_trips_upper [of "i + 1" sz] s e by simp
      then show ?thesis using True lt e by (subst int_loop_trips.simps) auto
    qed
  next
    case False
    then have "unat sz \<le> unat i" using "1.prems" by (simp add: scast32_less)
    then show ?thesis using False "1.prems" by (subst int_loop_trips.simps) simp
  qed
qed

lemma int_loop_trips_zero:
  "int_loop_trips sz 0 = (if unat sz \<le> 2 ^ 31 then unat sz else 2 ^ 31 + (unat sz - (2 ^ 64 - 2 ^ 31)))"
  using int_loop_trips_lower [of 0 sz] by simp


end
