(* ===== verification/Json.thy ===== *)
theory Json
  imports DJV_Prelude
begin

text \<open>
  The generic structured value that codec options are persisted in: picojson's
  \<open>picojson::value\<close>, with objects as association lists in the order
  \<open>std::map\<close> iterates them.  The theory also holds the two idioms every
  \<open>fromJSON\<close> of the sources repeats: the loop over an object's members that stops
  at the first exception (leaving the fields already assigned in place), and
  \<open>std::stringstream >> std::string\<close>, which extracts the first
  whitespace-delimited word of a string.
\<close>

datatype json =
    JNull
  | JBool bool
  | JNumber int
  | JString string
  | JArray "json list"
  | JObject "(string \<times> json) list"

text \<open>
  A \<open>picojson::object\<close> is a \<open>std::map\<close>: its keys are distinct.
\<close>

definition object_wf :: "(string \<times> json) list \<Rightarrow> bool" where
  "object_wf kvs \<longleftrightarrow> distinct (map fst kvs)"

text \<open>
  \<open>value.get<std::string>()\<close>: picojson asserts the type, and its assertion throws.
\<close>

fun get_string :: "json \<Rightarrow> error + string" where
  "get_string (JString s) = Inr s"
| "get_string _ = Inl JsonTypeError"

text \<open>
  The member loop of \<open>fromJSON\<close>: \<open>step\<close> handles one member and either updates the
  output value or throws; a throw ends the loop with the value as far as it got.
\<close>

fun fold_members ::
  "('s \<Rightarrow> string \<times> json \<Rightarrow> error + 's) \<Rightarrow> 's \<Rightarrow> (string \<times> json) list \<Rightarrow> 's \<times> error option" where
  "fold_members step s [] = (s, None)"
| "fold_members step s (m # ms) =
     (case step s m of
        Inl e \<Rightarrow> (s, Some e)
      | Inr s' \<Rightarrow> fold_members step s' ms)"

text \<open>
  The shape of every \<open>fromJSON\<close>: an object is folded member by member; any other
  value throws \<open>std::invalid_argument\<close>.
\<close>

definition from_object ::
  "('s \<Rightarrow> string \<times> json \<Rightarrow> error + 's) \<Rightarrow> json \<Rightarrow> 's \<Rightarrow> 's \<times> error option" where
  "from_object step v out =
     (case v of
        JObject kvs \<Rightarrow> fold_members step out kvs
      | _ \<Rightarrow> (out, Some CannotParse))"

text \<open>\<open>std::stringstream(s) >> word\<close> for a \<open>std::string\<close> word.\<close>

definition stream_word :: "string \<Rightarrow> string" where
  "stream_word s = takeWhile (\<lambda>c. \<not> is_space c) (dropWhile is_space s)"

text \<open>
  The JSON conversions of one value type, \<open>toJSON(value)\<close> and
  \<open>fromJSON(value, out)\<close> (which may throw): the interface through which the
  settings and options code of the repository serializes value types declared outside
  \<open>src/\<close>.  A codec round-trips when decoding an encoded value gives it back.
\<close>

record 'v codec =
  enc :: "'v \<Rightarrow> json"
  dec :: "json \<Rightarrow> 'v \<Rightarrow> error + 'v"

definition codec_roundtrip :: "'v codec \<Rightarrow> bool" where
  "codec_roundtrip c \<longleftrightarrow> (\<forall>v w. dec c (enc c v) w = Inr v)"

text \<open>Two sample codecs: a \<open>bool\<close> as a JSON boolean, a \<open>nat\<close> as a JSON number.\<close>

definition bool_codec :: "bool codec" where
  "bool_codec = \<lparr>enc = JBool, dec = (\<lambda>j w. case j of JBool b \<Rightarrow> Inr b | _ \<Rightarrow> Inl JsonTypeError)\<rparr>"

definition nat_codec :: "nat codec" where
  "nat_codec = \<lparr>enc = (\<lambda>v. JNumber (int v)), dec = (\<lambda>j w. case j of JNumber n \<Rightarrow> Inr (nat n) | _ \<Rightarrow> Inl JsonTypeError)\<rparr>"

lemma sample_codecs_roundtrip [simp]:
  "codec_roundtrip bool_codec" "codec_roundtrip nat_codec"
  by (simp_all add: codec_roundtrip_def bool_codec_def nat_codec_def)

lemma fold_members_keep [simp]:
  "(\<And>s m. m \<in> set kvs \<Longrightarrow> step s m = Inr s) \<Longrightarrow> fold_members step s kvs = (s, None)"
  by (induction kvs arbitrary: s) auto

lemma fold_members_single [simp]:
  "fold_members step s [m] = (case step s m of Inl e \<Rightarrow> (s, Some e) | Inr s' \<Rightarrow> (s', None))"
  by (simp split: sum.split)

lemma from_object_not_object [simp]:
  "(\<And>kvs. v \<noteq> JObject kvs) \<Longrightarrow> from_object step v out = (out, Some CannotParse)"
  by (cases v) (auto simp: from_object_def)

lemma from_object_object [simp]:
  "from_object step (JObject kvs) out = fold_members step out kvs"
  by (simp add: from_object_def)

lemma stream_word_dec_string [simp, text_conv]: "stream_word (dec_string n) = dec_string n"
proof -
  obtain c s where cs: "dec_string n = c # s"
    by (cases "dec_string n") auto
  then have "\<not> is_space c"
    using dec_string_not_space [of c n] by simp
  then have "dropWhile is_space (dec_string n) = dec_string n"
    by (simp add: cs)
  moreover have "takeWhile (\<lambda>c. \<not> is_space c) (dec_string n) = dec_string n"
    by simp
  ultimately show ?thesis
    by (simp add: stream_word_def)
qed

lemma stream_word_plain:
  "s \<noteq> [] \<Longrightarrow> \<forall>c \<in> set s. \<not> is_space c \<Longrightarrow> stream_word s = s"
  by (cases s) (simp_all add: stream_word_def)

end
