(* ===== verification/PPM.thy ===== *)
theory PPM
  imports Json
begin

text \<open>
  The NetPBM codec of \<open>src/lib/djvAV/PPM.cpp\<close>: the size of one ASCII scanline,
  the ASCII sample reader and writer (templates over the sample type, dispatched on
  the bit depth), the codec options with their JSON serialization, and the plugin's
  \<open>getOptions\<close>/\<open>setOptions\<close>.  The file-handle collaborator's \<open>readWord\<close> and
  the string-to-integer conversion it feeds are not under \<open>src/\<close>; they are modelled
  from the spec's description of a word-tokenized text read.
\<close>

subsection \<open>Scanline size\<close>

text \<open>
  \<open>getScanlineByteCount(int width, size_t channelCount, size_t bitDepth)\<close>: the
  product is computed in \<open>size_t\<close> (64 bits), \<open>width\<close> converted from \<open>int\<close>.
\<close>

definition getScanlineByteCount :: "int \<Rightarrow> 64 word \<Rightarrow> 64 word \<Rightarrow> 64 word" where
  "getScanlineByteCount width channelCount bitDepth =
     (let chars = (if bitDepth = 8 then 3 else if bitDepth = 16 then 5 else 0)
      in (chars + 1) * word_of_int width * channelCount + 1)"

subsection \<open>The file-handle collaborator\<close>

text \<open>
  \<open>FileIO::readWord(io, out, maxLen)\<close>: skips whitespace, then reads the word up to
  the next whitespace character, which it consumes; at most \<open>maxLen - 1\<close> characters
  are kept.  A stream that ends before a word starts is truncated data.
  The stream is the list of characters not yet read.  NetPBM \<open>#\<close> comments are
  not modelled: the spec does not describe them, and the writer below never emits
  them, so the round trips are unaffected.
\<close>

definition readWord :: "string \<Rightarrow> nat \<Rightarrow> error + (string \<times> string)" where
  "readWord io maxLen =
     (let s = dropWhile is_space io
      in if s = [] then Inl TruncatedData
         else Inr (take (maxLen - 1) (takeWhile (\<lambda>c. \<not> is_space c) s),
                   drop 1 (dropWhile (\<lambda>c. \<not> is_space c) s)))"

text \<open>\<open>String::fromString(s, len, int&)\<close>: an optional sign, then decimal digits.\<close>

fun fromString :: "string \<Rightarrow> int" where
  "fromString [] = 0"
| "fromString (c # s) =
     (if c = CHR ''-'' then - int (dec_value s)
      else if c = CHR ''+'' then int (dec_value s)
      else int (dec_value (c # s)))"

subsection \<open>ASCII samples\<close>

text \<open>
  \<open>_readASCII<T>(io, out, size)\<close>: \<open>size\<close> words are read and each is stored,
  through an \<open>int\<close>, into a sample of type \<open>T\<close>; the store keeps the value modulo
  \<open>2^bits(T)\<close>.  The result is the samples stored and the unread stream.
\<close>

fun readASCII_tmpl :: "string \<Rightarrow> nat \<Rightarrow> error + ('a::len word list \<times> string)" where
  "readASCII_tmpl io 0 = Inr ([], io)"
| "readASCII_tmpl io (Suc n) =
     (case readWord io cStringLength of
        Inl e \<Rightarrow> Inl e
      | Inr (tmp, io') \<Rightarrow>
          (case readASCII_tmpl io' n of
             Inl e \<Rightarrow> Inl e
           | Inr (vs, io'') \<Rightarrow> Inr (word_of_int (fromString tmp) # vs, io'')))"

text \<open>
  The loop of \<open>_readASCII<T>\<close> (lines 41--47) as written: an \<open>int\<close> counter compared
  with the \<open>size_t\<close> size (see \<open>int_loop_trips\<close> in the prelude).
  \<open>readASCII_tmpl\<close> above counts the samples with a \<open>nat\<close> instead; theorem
  \<open>readASCII_loop_trips\<close> says when the two agree.
\<close>

function readASCII_loop :: "string \<Rightarrow> 64 word \<Rightarrow> 32 word \<Rightarrow> error + ('a::len word list \<times> string)" where
  "readASCII_loop io sz i =
     (if (scast i :: 64 word) < sz then
        (case readWord io cStringLength of
           Inl e \<Rightarrow> Inl e
         | Inr (tmp, io') \<Rightarrow>
             (case readASCII_loop io' sz (i + 1) of
                Inl e \<Rightarrow> Inl e
              | Inr (vs, io'') \<Rightarrow> Inr (word_of_int (fromString tmp) # vs, io'')))
      else Inr ([], io))"
  by pat_completeness auto

termination
proof (relation "measure (\<lambda>(io, sz, i). 2 ^ 32 - unat i)")
  fix io :: string and sz :: "64 word" and i :: "32 word"
  assume "(scast i :: 64 word) < sz"
  then have "unat (i + 1) = Suc (unat i)" by (rule unat_succ32)
  moreover have "unat i < 2 ^ 32" using unsigned_less [of i] by simp
  ultimately show "((io', sz, i + 1), io, sz, i) \<in> measure (\<lambda>(io, sz, i). 2 ^ 32 - unat i)" for io' by simp
qed simp

declare readASCII_loop.simps [simp del]

text \<open>
  \<open>readASCII(io, out, size, bitDepth)\<close> (lines 53--61): the bytes written to
  \<open>out\<close>, by the loop above with \<open>size\<close> a \<open>size_t\<close> and the counter starting at 0.
  16-bit samples land in the buffer in the host's (little-endian) byte order; any
  other bit depth reads and writes nothing.
\<close>

definition readASCII :: "string \<Rightarrow> 64 word \<Rightarrow> nat \<Rightarrow> error + (byte list \<times> string)" where
  "readASCII io sz bitDepth =
     (if bitDepth = 8 then readASCII_loop io sz 0
      else if bitDepth = 16 then
        (case readASCII_loop io sz 0 of
           Inl e \<Rightarrow> Inl e
         | Inr (vs, io') \<Rightarrow> Inr (bytes16_le vs, io'))
      else Inr ([], io))"

text \<open>
  \<open>_writeASCII<T>(in, out, size)\<close>: each sample as \<open>std::to_string\<close> of its
  unsigned value followed by a space, then one newline.
\<close>

definition writeASCII_tmpl :: "'a::len word list \<Rightarrow> string" where
  "writeASCII_tmpl xs = concat (map (\<lambda>v. dec_string (unat v) @ '' '') xs) @ [CHR 0x0A]"

text \<open>
  \<open>writeASCII(in, out, size, bitDepth)\<close>: the characters written and the count
  returned (\<open>outP - out\<close>).  The input buffer is viewed as \<open>size\<close> samples of the
  bit depth; a buffer too short for them is an overrun.  Other bit depths write
  nothing and return 0.
\<close>

definition writeASCII :: "byte list \<Rightarrow> nat \<Rightarrow> nat \<Rightarrow> error + (string \<times> nat)" where
  "writeASCII inp sz bitDepth =
     (if bitDepth = 8 then
        (if sz \<le> length inp
         then let s = writeASCII_tmpl (take sz inp) in Inr (s, length s)
         else Inl BufferOverrun)
      else if bitDepth = 16 then
        (if 2 * sz \<le> length inp
         then let s = writeASCII_tmpl (take sz (words16_le inp)) in Inr (s, length s)
         else Inl BufferOverrun)
      else Inr ([], 0))"

subsection \<open>Options\<close>

text \<open>\<open>PPM::Data\<close>, the ASCII or binary sample encoding, and its labels.\<close>

datatype Data = ASCII | Binary

definition Data_labels :: "string list" where
  "Data_labels = [''ppm_type_ascii'', ''ppm_type_binary'']"

text \<open>\<open>operator <<\<close> of the enum serialization helpers: the label.\<close>

fun Data_label :: "Data \<Rightarrow> string" where
  "Data_label ASCII = Data_labels ! 0"
| "Data_label Binary = Data_labels ! 1"

text \<open>\<open>operator >>\<close>: the first word of the stream, which must be a label.\<close>

definition Data_of_stream :: "string \<Rightarrow> error + Data" where
  "Data_of_stream s =
     (let w = stream_word s
      in if w = Data_labels ! 0 then Inr ASCII
         else if w = Data_labels ! 1 then Inr Binary
         else Inl CannotParse)"

record Options =
  data :: Data

definition toJSON_PPM_Options :: "Options \<Rightarrow> json" where
  "toJSON_PPM_Options value = JObject [(''Data'', JString (Data_label (data value)))]"

text \<open>One member of the \<open>fromJSON\<close> loop: only \<open>Data\<close> is read; others are ignored.\<close>

definition PPM_Options_member :: "Options \<Rightarrow> string \<times> json \<Rightarrow> error + Options" where
  "PPM_Options_member out m =
     (if fst m = ''Data'' then
        (case get_string (snd m) of
           Inl e \<Rightarrow> Inl e
         | Inr s \<Rightarrow> (case Data_of_stream s of
                      Inl e \<Rightarrow> Inl e
                    | Inr d \<Rightarrow> Inr (out\<lparr>data := d\<rparr>)))
      else Inr out)"

definition fromJSON_PPM_Options :: "json \<Rightarrow> Options \<Rightarrow> Options \<times> error option" where
  "fromJSON_PPM_Options value out = from_object PPM_Options_member value out"

subsection \<open>The plugin\<close>

text \<open>\<open>PPM::Plugin::Private\<close>: the options the plugin owns.\<close>

record PPM_Plugin =
  ppm_options :: Options

definition PPM_getOptions :: "PPM_Plugin \<Rightarrow> json" where
  "PPM_getOptions p = toJSON_PPM_Options (ppm_options p)"

text \<open>
  \<open>setOptions\<close> passes the plugin's own options to \<open>fromJSON\<close> by reference: what
  the loop assigned before a throw stays assigned, and the exception propagates.
\<close>

definition PPM_setOptions :: "json \<Rightarrow> PPM_Plugin \<Rightarrow> PPM_Plugin \<times> error option" where
  "PPM_setOptions value p =
     (let (opts, err) = fromJSON_PPM_Options value (ppm_options p)
      in (p\<lparr>ppm_options := opts\<rparr>, err))"

text \<open>
  \<open>Plugin::read\<close> and \<open>Plugin::write\<close> (lines 127--135): a reader gets the file and
  the read options; a writer also gets a copy of the plugin's options as they are
  when it is created (\<open>Write::create\<close> takes them by value).  The file, image
  information and read/write options are types of \<open>djvAV\<close> outside \<open>src/\<close>.
\<close>

record ('f, 'r) PPM_Read =
  pr_file :: 'f
  pr_readOptions :: 'r

record ('f, 'i, 'w) PPM_Write =
  pw_file :: 'f
  pw_info :: 'i
  pw_writeOptions :: 'w
  pw_options :: Options

definition PPM_Plugin_read :: "'f \<Rightarrow> 'r \<Rightarrow> PPM_Plugin \<Rightarrow> ('f, 'r) PPM_Read" where
  "PPM_Plugin_read fileInfo options p = \<lparr>pr_file = fileInfo, pr_readOptions = options\<rparr>"

definition PPM_Plugin_write :: "'f \<Rightarrow> 'i \<Rightarrow> 'w \<Rightarrow> PPM_Plugin \<Rightarrow> ('f, 'i, 'w) PPM_Write" where
  "PPM_Plugin_write fileInfo info options p =
     \<lparr>pw_file = fileInfo, pw_info = info, pw_writeOptions = options, pw_options = ppm_options p\<rparr>"

subsection \<open>ASCII reader and writer\<close>

lemma readWord_token:
  assumes "w \<noteq> []" "\<forall>c \<in> set w. \<not> is_space c" "length w < maxLen" "is_space sp"
  shows "readWord (w @ sp # rest) maxLen = Inr (w, rest)"
proof -
  obtain c w' where cw: "w = c # w'" using assms(1) by (cases w) auto
  have "dropWhile is_space (w @ sp # rest) = w @ sp # rest"
    using assms(2) cw by simp
  moreover have "takeWhile (\<lambda>c. \<not> is_space c) (w @ sp # rest) = w"
    using assms(2,4) by (simp add: takeWhile_append2)
  moreover have "dropWhile (\<lambda>c. \<not> is_space c) (w @ sp # rest) = sp # rest"
    using assms(2,4) by (simp add: dropWhile_append2)
  ultimately show ?thesis
    using assms(1,3) by (simp add: readWord_def Let_def)
qed

lemma fromString_dec_string: "fromString (dec_string n) = int n"
proof -
  obtain c s where cs: "dec_string n = c # s"
    by (cases "dec_string n") auto
  then have "is_digit c"
    using dec_string_digits [of n] by simp
  then have "c \<noteq> CHR ''-''" "c \<noteq> CHR ''+''"
    by (auto simp: is_digit_def)
  then show ?thesis
    using dec_value_dec_string [of n] by (simp add: cs)
qed

lemma readASCII_tmpl_tokens:
  fixes xs :: "'a::len word list"
  assumes "\<forall>v \<in> set xs. length (dec_string (unat v)) < cStringLength"
  shows "readASCII_tmpl (concat (map (\<lambda>v. dec_string (unat v) @ '' '') xs) @ rest) (length xs + m)
           = (case readASCII_tmpl rest m of
                Inl e \<Rightarrow> Inl e
              | Inr (vs, r) \<Rightarrow> Inr (xs @ vs, r))"
  using assms
proof (induction xs)
  case Nil
  then show ?case by (simp split: sum.split)
next
  case (Cons v xs)
  have sp: "is_space (CHR '' '')" by (simp add: is_space_def)
  have rw: "readWord (dec_string (unat v) @ CHR '' '' #
              (concat (map (\<lambda>v. dec_string (unat v) @ '' '') xs) @ rest)) cStringLength
            = Inr (dec_string (unat v), concat (map (\<lambda>v. dec_string (unat v) @ '' '') xs) @ rest)"
    using Cons.prems sp by (intro readWord_token) auto
  have "word_of_int (fromString (dec_string (unat v))) = v"
    by (simp add: fromString_dec_string)
  with Cons rw show ?case by (simp split: sum.split)
qed

lemma dec_string_len_byte: "length (dec_string (unat (v::8 word))) \<le> 3"
proof -
  have "unat v < 2 ^ LENGTH(8)" by (rule unsigned_less)
  then have "unat v < 10 ^ 3" by simp
  then show ?thesis using length_dec_string_le [of "unat v" 3] by simp
qed

lemma dec_string_len_u16: "length (dec_string (unat (v::16 word))) \<le> 5"
proof -
  have "unat v < 2 ^ LENGTH(16)" by (rule unsigned_less)
  then have "unat v < 10 ^ 5" by simp
  then show ?thesis using length_dec_string_le [of "unat v" 5] by simp
qed

lemma length_writeASCII_tmpl:
  fixes xs :: "'a::len word list"
  assumes "\<forall>v \<in> set xs. length (dec_string (unat v)) \<le> k"
  shows "length (writeASCII_tmpl xs) \<le> (k + 1) * length xs + 1"
proof -
  have "length (concat (map (\<lambda>v. dec_string (unat v) @ '' '') xs)) \<le> (k + 1) * length xs"
    using assms by (induction xs) auto
  then show ?thesis by (simp add: writeASCII_tmpl_def)
qed

lemma readASCII_tmpl_spaces:
  "\<forall>c \<in> set ws. is_space c \<Longrightarrow> readASCII_tmpl ws (Suc m) = Inl TruncatedData"
  by (simp add: readWord_def)

lemma small_samples_byte: "\<forall>v \<in> set (xs :: byte list). length (dec_string (unat v)) < cStringLength"
proof
  fix v :: "byte" assume "v \<in> set xs"
  have "length (dec_string (unat v)) \<le> 3" by (rule dec_string_len_byte)
  then show "length (dec_string (unat v)) < cStringLength" by (simp add: cStringLength_def)
qed

lemma small_samples_u16: "\<forall>v \<in> set (xs :: 16 word list). length (dec_string (unat v)) < cStringLength"
proof
  fix v :: "16 word" assume "v \<in> set xs"
  have "length (dec_string (unat v)) \<le> 5" by (rule dec_string_len_u16)
  then show "length (dec_string (unat v)) < cStringLength" by (simp add: cStringLength_def)
qed

lemma readASCII_loop_tmpl:
  "readASCII_loop io sz i = readASCII_tmpl io (int_loop_trips sz i)"
proof (induction io sz i rule: readASCII_loop.induct)
  case (1 io sz i)
  show ?case
  proof (cases "(scast i :: 64 word) < sz")
    case True
    then show ?thesis using 1
      by (subst readASCII_loop.simps, subst int_loop_trips.simps) (simp split: sum.split prod.split)
  next
    case False
    then show ?thesis
      by (subst readASCII_loop.simps, subst int_loop_trips.simps) simp
  qed
qed

lemma readASCII_loop_small:
  "unat sz \<le> 2 ^ 31 \<Longrightarrow> readASCII_loop io sz 0 = readASCII_tmpl io (unat sz)"
  by (simp only: readASCII_loop_tmpl int_loop_trips_zero if_True)

lemma readASCII_loop_of_nat:
  "n \<le> 2 ^ 31 \<Longrightarrow> readASCII_loop io (of_nat n) 0 = readASCII_tmpl io n"
  by (rule trans [OF readASCII_loop_small]) (simp_all add: unat_of_nat)

lemma readASCII_tmpl_writeASCII_tmpl:
  fixes xs :: "'a::len word list"
  assumes "\<forall>v \<in> set xs. length (dec_string (unat v)) < cStringLength"
  shows "readASCII_tmpl (writeASCII_tmpl xs @ rest) (length xs) = Inr (xs, CHR 0x0A # rest)"
  using readASCII_tmpl_tokens [OF assms, of "CHR 0x0A # rest" 0]
  by (simp add: writeASCII_tmpl_def)

text \<open>
  C1. Writing samples of a supported bit depth as ASCII and reading the text back
  yields the original bytes and leaves the stream at the writer's closing newline.
\<close>

theorem ascii_roundtrip:
  assumes "bitDepth = 8 \<or> bitDepth = 16" and "length bs = sz * (bitDepth div 8)"
    and "sz \<le> 2 ^ 31"
  shows "(case writeASCII bs sz bitDepth of
            Inl e \<Rightarrow> Inl e
          | Inr (s, n) \<Rightarrow> readASCII (s @ rest) (of_nat sz) bitDepth) = Inr (bs, CHR 0x0A # rest)"
  using assms(1)
proof
  assume d: "bitDepth = 8"
  with assms(2) have "length bs = sz" by simp
  then show ?thesis
    using d readASCII_tmpl_writeASCII_tmpl [OF small_samples_byte, of bs rest]
    by (simp add: writeASCII_def readASCII_def Let_def readASCII_loop_of_nat [OF assms(3)])
next
  assume d: "bitDepth = 16"
  with assms(2) have len: "length (words16_le bs) = sz" "even (length bs)" by simp_all
  then show ?thesis
    using d readASCII_tmpl_writeASCII_tmpl [OF small_samples_u16, of "words16_le bs" rest]
    by (simp add: writeASCII_def readASCII_def Let_def readASCII_loop_of_nat [OF assms(3)])
qed

theorem ascii_roundtrip_witness:
  "2 \<le> (2::nat) ^ 31 \<and>
   (case writeASCII [1, 0, 255, 255] 2 16 of
      Inl e \<Rightarrow> Inl e
    | Inr (s, n) \<Rightarrow> readASCII (s @ ''P'') 2 16) = Inr ([1, 0, 255, 255], CHR 0x0A # ''P'')"
proof -
  have e: "(of_nat 2 :: 64 word) = 2" by simp
  show ?thesis
    using ascii_roundtrip [of 16 "[1, 0, 255, 255]" 2 "''P''"] unfolding e by simp
qed

subsection \<open>Scanline size and buffer bounds, options\<close>

lemma getScanlineByteCount_of_nat:
  assumes "0 \<le> width"
  shows "getScanlineByteCount width channelCount bitDepth
           = of_nat ((if bitDepth = 8 then 4 else if bitDepth = 16 then 6 else 1)
                     * nat width * unat channelCount + 1)"
proof -
  have w: "(word_of_int width :: 64 word) = of_nat (nat width)"
    using assms by (metis of_int_of_nat_eq int_nat_eq)
  show ?thesis
    by (simp add: getScanlineByteCount_def w)
qed

lemma unat_getScanlineByteCount:
  assumes "0 \<le> width"
    and "K = (if bitDepth = 8 then 4 else if bitDepth = 16 then 6 else 1)"
    and "K * nat width * unat channelCount + 1 < 2 ^ 64"
  shows "unat (getScanlineByteCount width channelCount bitDepth) = K * nat width * unat channelCount + 1"
proof -
  have "unat (getScanlineByteCount width channelCount bitDepth)
          = unat (of_nat (K * nat width * unat channelCount + 1) :: 64 word)"
    using assms(2) by (simp only: getScanlineByteCount_of_nat [OF assms(1)])
  also have "\<dots> = (K * nat width * unat channelCount + 1) mod 2 ^ LENGTH(64)"
    by (rule unat_of_nat)
  also have "\<dots> = K * nat width * unat channelCount + 1"
    using assms(3) by simp
  finally show ?thesis .
qed

text \<open>
  C2. When the width is non-negative and the 64-bit size does not overflow, the
  characters writeASCII produces for one scanline (width times channels samples of
  8 or 16 bits) fit in getScanlineByteCount bytes, and the count it returns is the
  number of characters written.
\<close>

theorem writeASCII_fits_scanline:
  assumes "bitDepth = 8 \<or> bitDepth = 16" and "0 \<le> width"
    and "sz = nat width * unat channelCount"
    and "(if bitDepth = 8 then 4 else 6) * sz + 1 < 2 ^ 64"
    and "writeASCII inp sz bitDepth = Inr (s, n)"
  shows "n = length s \<and> n \<le> unat (getScanlineByteCount width channelCount (of_nat bitDepth))"
proof -
  let ?K = "if bitDepth = 8 then 4 else 6 :: nat"
  have K: "?K = (if (of_nat bitDepth :: 64 word) = 8 then 4 else if (of_nat bitDepth :: 64 word) = 16 then 6 else 1)"
    using assms(1) by auto
  have ovf: "?K * nat width * unat channelCount + 1 < 2 ^ 64"
    using assms(3,4) by (simp add: mult.assoc)
  have "n = length s \<and> n \<le> ?K * sz + 1"
    using assms(1)
  proof
    assume d: "bitDepth = 8"
    with assms(5) have s: "s = writeASCII_tmpl (take sz inp)" and n: "n = length s"
      by (auto simp: writeASCII_def Let_def split: if_splits)
    have "length (writeASCII_tmpl (take sz inp)) \<le> (3 + 1) * length (take sz inp) + 1"
      by (rule length_writeASCII_tmpl) (simp add: dec_string_len_byte)
    then show ?thesis using d s n by simp
  next
    assume d: "bitDepth = 16"
    with assms(5) have s: "s = writeASCII_tmpl (take sz (words16_le inp))" and n: "n = length s"
      by (auto simp: writeASCII_def Let_def split: if_splits)
    have "length (writeASCII_tmpl (take sz (words16_le inp)))
            \<le> (5 + 1) * length (take sz (words16_le inp)) + 1"
      by (rule length_writeASCII_tmpl) (simp add: dec_string_len_u16)
    then show ?thesis using d s n by simp
  qed
  then show ?thesis
    using unat_getScanlineByteCount [OF assms(2) K ovf] assms(3) by (simp add: mult.assoc)
qed

theorem writeASCII_fits_scanline_witness:
  "writeASCII [1, 2, 3, 4, 5, 6] 6 8 = Inr (''1 2 3 4 5 6 '' @ [CHR 0x0A], 13) \<and>
   13 \<le> unat (getScanlineByteCount 2 3 (of_nat 8))"
proof -
  have w: "writeASCII [1, 2, 3, 4, 5, 6] 6 8 = Inr (''1 2 3 4 5 6 '' @ [CHR 0x0A], 13)"
    by (simp add: writeASCII_def writeASCII_tmpl_def dec_string.simps digit_char_def char_of_eq_iff)
  have "(13::nat) = length (''1 2 3 4 5 6 '' @ [CHR 0x0A]) \<and>
        13 \<le> unat (getScanlineByteCount 2 3 (of_nat 8))"
    by (rule writeASCII_fits_scanline [OF _ _ _ _ w]) simp_all
  with w show ?thesis by simp
qed

text \<open>
  C10. For a bit depth other than 8 and 16, getScanlineByteCount returns
  width * channelCount + 1 (one character per sample), not 0 and not an error.
\<close>

theorem getScanlineByteCount_unsupported_depth:
  "bitDepth \<noteq> 8 \<Longrightarrow> bitDepth \<noteq> 16 \<Longrightarrow>
   getScanlineByteCount width channelCount bitDepth = word_of_int width * channelCount + 1"
  by (simp add: getScanlineByteCount_def)

theorem getScanlineByteCount_unsupported_depth_witness:
  "getScanlineByteCount 4 3 10 = 13"
proof -
  have "getScanlineByteCount 4 3 10 = word_of_int 4 * 3 + 1"
    by (rule getScanlineByteCount_unsupported_depth) simp_all
  then show ?thesis by simp
qed

text \<open>
  A negative width is not rejected: with width -1, three channels and 8 bits
  the 64-bit size wraps to 2^64 - 11.
\<close>

theorem getScanlineByteCount_negative_width:
  "getScanlineByteCount (-1) 3 8 = 18446744073709551605"
  by (simp add: getScanlineByteCount_def)

text \<open>
  C11. With 16 bits per sample, writeASCII reads sample i from bytes 2i (low) and
  2i+1 (high) of the buffer, writes its unsigned decimal value followed by a space,
  ends with one newline, and returns the number of characters: one more than each
  sample's digits, plus one.
\<close>

theorem writeASCII_16_tokens:
  assumes "2 * sz \<le> length bs"
  shows "writeASCII bs sz 16 =
           Inr (concat (map (\<lambda>i. dec_string (unat (bs ! (2 * i)) + 256 * unat (bs ! (2 * i + 1))) @ '' '') [0..<sz])
                  @ [CHR 0x0A],
                (\<Sum>i\<leftarrow>[0..<sz]. length (dec_string (unat (bs ! (2 * i)) + 256 * unat (bs ! (2 * i + 1)))) + 1) + 1)"
proof -
  have t: "take sz (words16_le bs) = map (\<lambda>i. words16_le bs ! i) [0..<sz]"
    using assms by (intro nth_equalityI) simp_all
  have "map (\<lambda>v. dec_string (unat v) @ '' '') (take sz (words16_le bs))
          = map (\<lambda>i. dec_string (unat (bs ! (2 * i)) + 256 * unat (bs ! (2 * i + 1))) @ '' '') [0..<sz]"
    using assms by (simp add: t unat_words16_le_nth)
  then show ?thesis
    using assms by (simp add: writeASCII_def writeASCII_tmpl_def length_concat comp_def)
qed

theorem writeASCII_16_tokens_witness:
  "2 * 3 \<le> length [0, 0, 255, 0, 255, 255 :: byte] \<and>
   writeASCII [0, 0, 255, 0, 255, 255] 3 16 = Inr (''0 255 65535 '' @ [CHR 0x0A], 13)"
  using writeASCII_16_tokens [of 3 "[0, 0, 255, 0, 255, 255]"]
  by (simp add: upt_rec dec_string.simps digit_char_def char_of_eq_iff)


text \<open>
  C9. An 8-bit ASCII sample is stored modulo 256: readASCII does not reject a value
  above the 8-bit range but wraps it.
\<close>

theorem readASCII_stores_modulo:
  assumes "length (dec_string n) < cStringLength" and "is_space sp"
  shows "readASCII (dec_string n @ sp # rest) 1 8 = Inr ([of_nat (n mod 256)], rest)"
proof -
  have "readWord (dec_string n @ sp # rest) cStringLength = Inr (dec_string n, rest)"
    using assms by (intro readWord_token) (auto simp: dec_string_not_space)
  moreover have "(word_of_int (int n) :: byte) = of_nat (n mod 256)"
    by (simp only: of_int_of_nat_eq) (simp add: word_of_nat_eq_iff take_bit_eq_mod)
  ultimately show ?thesis
    by (simp add: readASCII_def readASCII_loop_small [of 1] fromString_dec_string)
qed

theorem readASCII_stores_modulo_witness:
  "readASCII (''256'' @ CHR '' '' # ''x'') 1 8 = Inr ([0], ''x'')"
proof -
  have "readASCII (dec_string 256 @ CHR '' '' # ''x'') 1 8 = Inr ([of_nat (256 mod 256)], ''x'')"
    by (rule readASCII_stores_modulo) (simp_all add: dec_string.simps digit_char_def cStringLength_def is_space_def)
  moreover have "dec_string 256 = ''256''"
    by (simp add: dec_string.simps digit_char_def char_of_eq_iff)
  ultimately show ?thesis by simp
qed

text \<open>
  C5. Asking readASCII for one sample more than the text holds (the writer's output
  followed only by whitespace) fails with TruncatedData.
\<close>

theorem readASCII_truncated:
  assumes "bitDepth = 8 \<or> bitDepth = 16" and "length bs = sz * (bitDepth div 8)"
    and "\<forall>c \<in> set ws. is_space c"
    and "writeASCII bs sz bitDepth = Inr (s, n)" and "Suc sz \<le> 2 ^ 31"
  shows "readASCII (s @ ws) (of_nat (Suc sz)) bitDepth = Inl TruncatedData"
  using assms(1)
proof
  assume d: "bitDepth = 8"
  with assms(2,4) have s: "s = writeASCII_tmpl bs" and len: "length bs = sz"
    by (auto simp: writeASCII_def Let_def split: if_splits)
  have sp: "\<forall>c \<in> set (CHR 0x0A # ws). is_space c"
    using assms(3) by (simp add: is_space_def)
  have t: "readASCII_tmpl (CHR 0x0A # ws) (Suc 0) = (Inl TruncatedData :: error + (byte list \<times> string))"
    by (rule readASCII_tmpl_spaces [OF sp])
  have "readASCII_tmpl (concat (map (\<lambda>v. dec_string (unat v) @ '' '') bs) @ CHR 0x0A # ws)
          (length bs + Suc 0) = (Inl TruncatedData :: error + (byte list \<times> string))"
    using readASCII_tmpl_tokens [OF small_samples_byte, of bs "CHR 0x0A # ws" "Suc 0"]
    by (simp only: t sum.case)
  then show ?thesis
    using d s len by (simp add: readASCII_def writeASCII_tmpl_def readASCII_loop_of_nat [OF assms(5), unfolded of_nat_Suc] del: readASCII_tmpl.simps)
next
  assume d: "bitDepth = 16"
  with assms(2,4) have s: "s = writeASCII_tmpl (words16_le bs)" and len: "length (words16_le bs) = sz"
    by (auto simp: writeASCII_def Let_def split: if_splits)
  have sp: "\<forall>c \<in> set (CHR 0x0A # ws). is_space c"
    using assms(3) by (simp add: is_space_def)
  have t: "readASCII_tmpl (CHR 0x0A # ws) (Suc 0) = (Inl TruncatedData :: error + (16 word list \<times> string))"
    by (rule readASCII_tmpl_spaces [OF sp])
  have "readASCII_tmpl (concat (map (\<lambda>v. dec_string (unat v) @ '' '') (words16_le bs)) @ CHR 0x0A # ws)
          (length (words16_le bs) + Suc 0) = (Inl TruncatedData :: error + (16 word list \<times> string))"
    using readASCII_tmpl_tokens [OF small_samples_u16, of "words16_le bs" "CHR 0x0A # ws" "Suc 0"]
    by (simp only: t sum.case)
  then show ?thesis
    using d s len by (simp add: readASCII_def writeASCII_tmpl_def readASCII_loop_of_nat [OF assms(5), unfolded of_nat_Suc] del: readASCII_tmpl.simps)
qed

theorem readASCII_truncated_witness:
  "Suc 1 \<le> (2::nat) ^ 31 \<and> readASCII (''7 '' @ [CHR 0x0A] @ '' '') 2 8 = Inl TruncatedData"
proof -
  have w: "writeASCII [7] 1 8 = Inr (''7 '' @ [CHR 0x0A], 3)"
    by (simp add: writeASCII_def writeASCII_tmpl_def dec_string.simps digit_char_def char_of_eq_iff)
  have "readASCII ((''7 '' @ [CHR 0x0A]) @ '' '') (of_nat (Suc 1)) 8 = Inl TruncatedData"
    by (rule readASCII_truncated [OF _ _ _ w]) (simp_all add: is_space_def)
  moreover have "(of_nat (Suc 1) :: 64 word) = 2" by simp
  ultimately show ?thesis by simp
qed

lemma Data_of_stream_label [simp]: "Data_of_stream (Data_label d) = Inr d"
  by (cases d) (simp_all add: Data_of_stream_def Data_labels_def stream_word_def is_space_def)

text \<open>
  C3. Deserializing the JSON that toJSON produces restores the PPM options exactly,
  whatever options the target held, and raises nothing.
\<close>

theorem PPM_Options_json_roundtrip:
  "fromJSON_PPM_Options (toJSON_PPM_Options x) y = (x, None)"
  by (simp add: fromJSON_PPM_Options_def toJSON_PPM_Options_def PPM_Options_member_def)

text \<open>A writer created after \<open>setOptions\<close> of serialized options writes with those
  options.\<close>

lemma PPM_write_after_setOptions:
  "pw_options (PPM_Plugin_write f i w (fst (PPM_setOptions (toJSON_PPM_Options opts) p))) = opts"
  by (simp add: PPM_Plugin_write_def PPM_setOptions_def fromJSON_PPM_Options_def toJSON_PPM_Options_def
      PPM_Options_member_def)

text \<open>
  C6. The sample loop of _readASCII, an int counter compared with a size_t size, ends
  for every size: it reads exactly size samples when size is at most 2^31, which is
  what readASCII_tmpl reads; above that the counter overflows, and with the
  two's-complement wrap the loop stops after 2^31 samples unless size is within 2^31
  of SIZE_MAX.
\<close>

theorem readASCII_loop_trips:
  "readASCII_loop io sz 0 =
     readASCII_tmpl io (if unat sz \<le> 2 ^ 31 then unat sz else 2 ^ 31 + (unat sz - (2 ^ 64 - 2 ^ 31)))"
  by (simp only: readASCII_loop_tmpl int_loop_trips_zero)


lemma PPM_Options_member_other [simp]:
  "fst m \<noteq> ''Data'' \<Longrightarrow> PPM_Options_member out m = Inr out"
  by (simp add: PPM_Options_member_def)

lemma PPM_Options_member_error:
  "PPM_Options_member out m = Inl e \<Longrightarrow> fst m = ''Data''"
  by (auto simp: PPM_Options_member_def split: if_splits)

lemma fold_PPM_Options_error_unchanged:
  "distinct (map fst kvs) \<Longrightarrow> fold_members PPM_Options_member out kvs = (out', Some e) \<Longrightarrow> out' = out"
proof (induction kvs arbitrary: out)
  case Nil
  then show ?case by simp
next
  case (Cons m kvs)
  show ?case
  proof (cases "fst m = ''Data''")
    case True
    with Cons.prems(1) have "\<forall>m' \<in> set kvs. fst m' \<noteq> ''Data''"
      by force
    then have rest: "\<And>o'. fold_members PPM_Options_member o' kvs = (o', None)"
      by (intro fold_members_keep) simp
    from Cons.prems(2) rest show ?thesis
      by (auto split: sum.splits)
  next
    case False
    with Cons show ?thesis by simp
  qed
qed

lemma fromJSON_PPM_Options_atomic:
  assumes "\<forall>kvs. v = JObject kvs \<longrightarrow> object_wf kvs"
    and "fromJSON_PPM_Options v out = (out', Some e)"
  shows "out' = out"
proof (cases v)
  case (JObject kvs)
  with assms show ?thesis
    by (auto simp: fromJSON_PPM_Options_def object_wf_def intro: fold_PPM_Options_error_unchanged)
qed (use assms in \<open>simp_all add: fromJSON_PPM_Options_def from_object_def\<close>)


text \<open>
  C4. Passing one plugin's getOptions to another plugin's setOptions copies the
  options and changes nothing else.
\<close>

theorem PPM_setOptions_getOptions:
  "PPM_setOptions (PPM_getOptions p) q = (q\<lparr>ppm_options := ppm_options p\<rparr>, None)"
  by (simp add: PPM_setOptions_def PPM_getOptions_def fromJSON_PPM_Options_def
      toJSON_PPM_Options_def PPM_Options_member_def)

text \<open>
  C7. On a well-formed JSON value (an object has distinct keys, as a std::map does)
  a setOptions that raises leaves the plugin's options unchanged.
\<close>

theorem PPM_setOptions_atomic:
  assumes "\<forall>kvs. v = JObject kvs \<longrightarrow> object_wf kvs"
    and "PPM_setOptions v p = (p', Some e)"
  shows "p' = p"
proof -
  obtain opts err where f: "fromJSON_PPM_Options v (ppm_options p) = (opts, err)"
    by (cases "fromJSON_PPM_Options v (ppm_options p)")
  with assms(2) have "p' = p\<lparr>ppm_options := opts\<rparr>" and "err = Some e"
    by (simp_all add: PPM_setOptions_def)
  moreover from f \<open>err = Some e\<close> have "opts = ppm_options p"
    using fromJSON_PPM_Options_atomic [OF assms(1)] by simp
  ultimately show ?thesis by simp
qed

theorem PPM_setOptions_atomic_witness:
  "PPM_setOptions (JObject [(''Alpha'', JNull), (''Data'', JNumber 3)]) \<lparr>ppm_options = \<lparr>data = ASCII\<rparr>\<rparr>
     = (\<lparr>ppm_options = \<lparr>data = ASCII\<rparr>\<rparr>, Some JsonTypeError)"
proof -
  have r: "PPM_setOptions (JObject [(''Alpha'', JNull), (''Data'', JNumber 3)]) \<lparr>ppm_options = \<lparr>data = ASCII\<rparr>\<rparr>
     = (\<lparr>ppm_options = \<lparr>data = ASCII\<rparr>\<rparr>, Some JsonTypeError)"
    by (simp add: PPM_setOptions_def fromJSON_PPM_Options_def PPM_Options_member_def)
  have "\<lparr>ppm_options = \<lparr>data = ASCII\<rparr>\<rparr> = (\<lparr>ppm_options = \<lparr>data = ASCII\<rparr>\<rparr> :: PPM_Plugin)"
    by (rule PPM_setOptions_atomic [OF _ r]) (simp add: object_wf_def)
  with r show ?thesis by simp
qed

text \<open>
  C8. fromJSON raises CannotParse for a value that is not an object, JsonTypeError
  when Data is not a string, and CannotParse when its first word is not a Data
  label; each time the options are left as they were.
\<close>

theorem fromJSON_PPM_Options_errors:
  "((\<forall>kvs. v \<noteq> JObject kvs) \<longrightarrow> fromJSON_PPM_Options v out = (out, Some CannotParse)) \<and>
   ((\<forall>s. j \<noteq> JString s) \<longrightarrow>
      fromJSON_PPM_Options (JObject [(''Data'', j)]) out = (out, Some JsonTypeError)) \<and>
   (stream_word s \<notin> set Data_labels \<longrightarrow>
      fromJSON_PPM_Options (JObject [(''Data'', JString s)]) out = (out, Some CannotParse))"
proof (intro conjI impI)
  assume "\<forall>kvs. v \<noteq> JObject kvs"
  then show "fromJSON_PPM_Options v out = (out, Some CannotParse)"
    by (simp add: fromJSON_PPM_Options_def)
next
  assume "\<forall>s. j \<noteq> JString s"
  then have "get_string j = Inl JsonTypeError"
    by (cases j) auto
  then show "fromJSON_PPM_Options (JObject [(''Data'', j)]) out = (out, Some JsonTypeError)"
    by (simp add: fromJSON_PPM_Options_def PPM_Options_member_def)
next
  assume "stream_word s \<notin> set Data_labels"
  then have "Data_of_stream s = Inl CannotParse"
    by (simp add: Data_of_stream_def Data_labels_def)
  then show "fromJSON_PPM_Options (JObject [(''Data'', JString s)]) out = (out, Some CannotParse)"
    by (simp add: fromJSON_PPM_Options_def PPM_Options_member_def)
qed

theorem fromJSON_PPM_Options_errors_witness:
  "fromJSON_PPM_Options (JBool True) \<lparr>data = Binary\<rparr> = (\<lparr>data = Binary\<rparr>, Some CannotParse) \<and>
   fromJSON_PPM_Options (JObject [(''Data'', JNumber 1)]) \<lparr>data = Binary\<rparr>
     = (\<lparr>data = Binary\<rparr>, Some JsonTypeError) \<and>
   fromJSON_PPM_Options (JObject [(''Data'', JString ''ascii'')]) \<lparr>data = Binary\<rparr>
     = (\<lparr>data = Binary\<rparr>, Some CannotParse)"
  using fromJSON_PPM_Options_errors [of "JBool True" "\<lparr>data = Binary\<rparr>" "JNumber 1" "''ascii''"]
  by (simp add: Data_labels_def stream_word_def is_space_def)

text \<open>
  Members other than Data are ignored: an object without a Data member leaves
  the options unchanged and raises nothing.
\<close>

theorem PPM_Options_unknown_keys:
  "\<forall>m \<in> set kvs. fst m \<noteq> ''Data'' \<Longrightarrow> fromJSON_PPM_Options (JObject kvs) out = (out, None)"
  by (simp add: fromJSON_PPM_Options_def)

theorem PPM_Options_unknown_keys_witness:
  "fromJSON_PPM_Options (JObject [(''Quality'', JString ''90'')]) \<lparr>data = ASCII\<rparr> = (\<lparr>data = ASCII\<rparr>, None)"
  by (rule PPM_Options_unknown_keys) simp

text \<open>
  Only the first whitespace-delimited word of the Data string is read: leading
  spaces and trailing words are accepted without error.
\<close>

theorem fromJSON_PPM_Options_first_word:
  "fromJSON_PPM_Options (JObject [(''Data'', JString '' ppm_type_ascii trailing'')]) \<lparr>data = Binary\<rparr>
     = (\<lparr>data = ASCII\<rparr>, None)"
  by (simp add: fromJSON_PPM_Options_def PPM_Options_member_def Data_of_stream_def Data_labels_def
      stream_word_def is_space_def)
end
