(* ===== verification/JPEG.thy ===== *)
theory JPEG
  imports Json
begin

text \<open>
  The JPEG settings serialization of \<open>src/lib/djvAV/JPEGJSONInline.h\<close>: the
  quality (a C++ \<open>int\<close>, here \<open>32 word\<close> read as signed) is written through a
  \<open>std::stringstream\<close> as a decimal string under the key \<open>Quality\<close>, and read back
  with \<open>operator >>\<close>, whose failures do not throw.
\<close>

text \<open>\<open>JPEG::Settings\<close>: the quality is a signed 32-bit \<open>int\<close>.\<close>

record Settings =
  quality :: "32 word"

definition toJSON_JPEG_Settings :: "Settings \<Rightarrow> json" where
  "toJSON_JPEG_Settings value = JObject [(''Quality'', JString (int_string (sint (quality value))))]"

text \<open>
  One member of the loop: a \<open>Quality\<close> member must hold a string; its content is
  extracted with \<open>ss >> out.quality\<close>.
\<close>

definition JPEG_Settings_member :: "Settings \<Rightarrow> string \<times> json \<Rightarrow> error + Settings" where
  "JPEG_Settings_member out m =
     (if fst m = ''Quality'' then
        (case get_string (snd m) of
           Inl e \<Rightarrow> Inl e
         | Inr s \<Rightarrow> Inr (out\<lparr>quality := istream_int s (quality out)\<rparr>))
      else Inr out)"

definition fromJSON_JPEG_Settings :: "json \<Rightarrow> Settings \<Rightarrow> Settings \<times> error option" where
  "fromJSON_JPEG_Settings value out = from_object JPEG_Settings_member value out"

text \<open>
  C12. Deserializing the JSON that toJSON writes restores every 32-bit quality,
  negative values and both bounds included.
\<close>

theorem JPEG_Settings_json_roundtrip:
  "fromJSON_JPEG_Settings (toJSON_JPEG_Settings x) y = (x, None)"
  by (simp add: fromJSON_JPEG_Settings_def toJSON_JPEG_Settings_def JPEG_Settings_member_def)

text \<open>
  C13. A Quality string with no digit does not raise: the stream extraction fails
  silently.  If the string holds anything but whitespace the quality becomes 0; if it
  is empty or all whitespace the sentry fails and the quality keeps its old value.
\<close>

theorem JPEG_quality_no_digits:
  assumes "\<forall>c \<in> set s. \<not> is_digit c"
  shows "fromJSON_JPEG_Settings (JObject [(''Quality'', JString s)]) out
           = (out\<lparr>quality := if \<forall>c \<in> set s. is_space c then quality out else 0\<rparr>, None)"
proof -
  have "takeWhile is_digit (snd (split_sign (dropWhile is_space s))) = []"
  proof -
    have "set (snd (split_sign (dropWhile is_space s))) \<subseteq> set s"
      using set_split_sign [of "dropWhile is_space s"] by (auto dest: set_dropWhileD)
    with assms show ?thesis
      by (cases "snd (split_sign (dropWhile is_space s))") auto
  qed
  moreover have "(dropWhile is_space s = []) = (\<forall>c \<in> set s. is_space c)"
    by simp
  ultimately have "istream_int s (quality out) = (if \<forall>c \<in> set s. is_space c then quality out else 0)"
    by (simp add: istream_int_def split_def Let_def)
  then show ?thesis
    by (simp add: fromJSON_JPEG_Settings_def JPEG_Settings_member_def)
qed

theorem JPEG_quality_no_digits_witness:
  "fromJSON_JPEG_Settings (JObject [(''Quality'', JString ''high'')]) \<lparr>quality = 90\<rparr>
     = (\<lparr>quality = 0\<rparr>, None) \<and>
   fromJSON_JPEG_Settings (JObject [(''Quality'', JString ''  '')]) \<lparr>quality = 90\<rparr>
     = (\<lparr>quality = 90\<rparr>, None)"
proof
  show "fromJSON_JPEG_Settings (JObject [(''Quality'', JString ''high'')]) \<lparr>quality = 90\<rparr>
          = (\<lparr>quality = 0\<rparr>, None)"
    using JPEG_quality_no_digits [of "''high''" "\<lparr>quality = 90\<rparr>"]
    by (simp add: is_digit_def is_space_def)
  show "fromJSON_JPEG_Settings (JObject [(''Quality'', JString ''  '')]) \<lparr>quality = 90\<rparr>
          = (\<lparr>quality = 90\<rparr>, None)"
    using JPEG_quality_no_digits [of "''  ''" "\<lparr>quality = 90\<rparr>"]
    by (simp add: is_digit_def is_space_def)
qed

text \<open>
  A Quality above the range of int is clamped to INT_MAX without raising.
\<close>

theorem JPEG_quality_clamped:
  assumes "2 ^ 31 \<le> n"
  shows "fromJSON_JPEG_Settings (JObject [(''Quality'', JString (dec_string n))]) out
           = (out\<lparr>quality := word_of_int (2 ^ 31 - 1)\<rparr>, None)"
proof -
  have "istream_int (dec_string n) (quality out) = word_of_int (2 ^ 31 - 1)"
    using assms by (simp add: istream_int_def Let_def)
  then show ?thesis
    by (simp add: fromJSON_JPEG_Settings_def JPEG_Settings_member_def)
qed

theorem JPEG_quality_clamped_witness:
  "fromJSON_JPEG_Settings (JObject [(''Quality'', JString (dec_string 4294967296))]) \<lparr>quality = 90\<rparr>
     = (\<lparr>quality = 2147483647\<rparr>, None)"
  using JPEG_quality_clamped [of 4294967296 "\<lparr>quality = 90\<rparr>"] by simp

end
