(* ===== verification/Geometry.thy ===== *)
theory Geometry
  imports Complex_Main DJV_Prelude
begin

text \<open>
  The two-dimensional vectors and boxes of \<open>djvCore\<close> (\<open>glm::vec2\<close> and
  \<open>Core::BBox2f\<close>), which the layout and view code of the repository compute with.
  Their definitions are not under \<open>src/\<close>; the operations the repository calls
  (construction, width, height, centre, intersection, area) are modelled from their
  use.  Coordinates are \<open>float\<close> in the code; here they range over any ordered
  field \<open>'a\<close> (rounding is not modelled), so witnesses compute in \<open>rat\<close>.
\<close>

subsection \<open>Vectors and boxes\<close>

record 'a vec2 =
  vx :: 'a
  vy :: 'a

record 'a bbox2 =
  bmin :: "'a vec2"
  bmax :: "'a vec2"

definition vec :: "'a \<Rightarrow> 'a \<Rightarrow> 'a vec2" where
  "vec a b = \<lparr>vx = a, vy = b\<rparr>"

text \<open>\<open>BBox2f(min, max)\<close> stores its corners as given.\<close>

definition bbox :: "'a vec2 \<Rightarrow> 'a vec2 \<Rightarrow> 'a bbox2" where
  "bbox a b = \<lparr>bmin = a, bmax = b\<rparr>"

definition bw :: "'a::linordered_field bbox2 \<Rightarrow> 'a" where
  "bw b = vx (bmax b) - vx (bmin b)"

definition bh :: "'a::linordered_field bbox2 \<Rightarrow> 'a" where
  "bh b = vy (bmax b) - vy (bmin b)"

text \<open>\<open>BBox2f::intersect\<close>: the larger minimum and the smaller maximum per axis.\<close>

definition intersect :: "'a::linordered_field bbox2 \<Rightarrow> 'a bbox2 \<Rightarrow> 'a bbox2" where
  "intersect b c =
     bbox (vec (max (vx (bmin b)) (vx (bmin c))) (max (vy (bmin b)) (vy (bmin c))))
          (vec (min (vx (bmax b)) (vx (bmax c))) (min (vy (bmax b)) (vy (bmax c))))"

definition getArea :: "'a::linordered_field bbox2 \<Rightarrow> 'a" where
  "getArea b = bw b * bh b"

text \<open>\<open>BBox2f::getCenter\<close>: the midpoint of the corners.\<close>

definition getCenter :: "'a::linordered_field bbox2 \<Rightarrow> 'a vec2" where
  "getCenter b = vec ((vx (bmin b) + vx (bmax b)) / 2) ((vy (bmin b) + vy (bmax b)) / 2)"

lemma vec2_eq_iff: "(vec a b = v) \<longleftrightarrow> vx v = a \<and> vy v = b"
  by (cases v) (auto simp: vec_def)

lemma vec_inject [simp]: "vec a b = vec c d \<longleftrightarrow> a = c \<and> b = d"
  by (simp add: vec_def)

lemma vec_sel [simp]: "vx (vec a b) = a" "vy (vec a b) = b"
  by (simp_all add: vec_def)

lemma bbox_sel [simp]: "bmin (bbox a b) = a" "bmax (bbox a b) = b"
  by (simp_all add: bbox_def)

end
