(* ===== verification/Popup_Layout.thy ===== *)
theory Popup_Layout
  imports Geometry
begin

text \<open>
  Popup placement of \<open>src/lib/djvUI/LayoutUtil.cpp\<close>: the geometry of a popup for
  each of the four placements, next to a point or next to a button, and
  \<open>getPopup\<close>, which tries the requested placement first and the others after it.
  Coordinates are \<open>float\<close> in the code; here they range over any ordered field
  \<open>'a\<close> (rounding is not modelled), so the witnesses compute in \<open>rat\<close>.  The
  \<open>std::map<float, Popup>\<close> of clipped areas is an association list with distinct
  keys; \<open>rbegin()\<close> is its entry with the greatest key.
\<close>

subsection \<open>Placements\<close>

datatype Popup = BelowRight | BelowLeft | AboveRight | AboveLeft

text \<open>\<open>getPopupEnums()\<close>: the placements in declaration order.\<close>

definition getPopupEnums :: "Popup list" where
  "getPopupEnums = [BelowRight, BelowLeft, AboveRight, AboveLeft]"

text \<open>\<open>getPopupGeometry(Popup, const glm::vec2& pos, const glm::vec2& minimumSize)\<close>.\<close>

fun getPopupGeometry_pos :: "Popup \<Rightarrow> 'a::linordered_field vec2 \<Rightarrow> 'a vec2 \<Rightarrow> 'a bbox2" where
  "getPopupGeometry_pos BelowRight pos sz =
     bbox (vec (vx pos) (vy pos)) (vec (vx pos + vx sz) (vy pos + vy sz))"
| "getPopupGeometry_pos BelowLeft pos sz =
     bbox (vec (vx pos - vx sz) (vy pos)) (vec (vx pos) (vy pos + vy sz))"
| "getPopupGeometry_pos AboveRight pos sz =
     bbox (vec (vx pos) (vy pos - vy sz)) (vec (vx pos + vx sz) (vy pos))"
| "getPopupGeometry_pos AboveLeft pos sz =
     bbox (vec (vx pos - vx sz) (vy pos - vy sz)) (vec (vx pos) (vy pos))"

text \<open>\<open>getPopupGeometry(Popup, const BBox2f& button, const glm::vec2& minimumSize)\<close>.\<close>

fun getPopupGeometry_button :: "Popup \<Rightarrow> 'a::linordered_field bbox2 \<Rightarrow> 'a vec2 \<Rightarrow> 'a bbox2" where
  "getPopupGeometry_button BelowLeft button sz =
     bbox (vec (min (vx (bmax button) - vx sz) (vx (bmin button))) (vy (bmax button)))
          (vec (vx (bmax button)) (vy (bmax button) + vy sz))"
| "getPopupGeometry_button BelowRight button sz =
     bbox (vec (vx (bmin button)) (vy (bmax button)))
          (vec (max (vx (bmin button) + vx sz) (vx (bmax button))) (vy (bmax button) + vy sz))"
| "getPopupGeometry_button AboveRight button sz =
     bbox (vec (vx (bmin button)) (vy (bmin button) - vy sz))
          (vec (max (vx (bmin button) + vx sz) (vx (bmax button))) (vy (bmin button)))"
| "getPopupGeometry_button AboveLeft button sz =
     bbox (vec (min (vx (bmax button) - vx sz) (vx (bmin button))) (vy (bmin button) - vy sz))
          (vec (vx (bmax button)) (vy (bmin button)))"

text \<open>
  The list of placements to try: the requested one, then the others in declaration
  order (\<open>std::find\<close> and \<open>erase\<close> remove its first occurrence).
\<close>

definition popupList :: "Popup \<Rightarrow> Popup list" where
  "popupList value = value # remove1 value getPopupEnums"

subsection \<open>The map of clipped areas\<close>

type_synonym 'a area_map = "('a \<times> Popup) list"

text \<open>\<open>popupAreas[a] = p\<close>: insert or overwrite.\<close>

definition map_assign :: "'a \<Rightarrow> Popup \<Rightarrow> 'a area_map \<Rightarrow> 'a area_map" where
  "map_assign k p m = (k, p) # filter (\<lambda>e. fst e \<noteq> k) m"

text \<open>\<open>popupAreas.rbegin()\<close>: the entry with the greatest key, none for an empty map.\<close>

fun map_rbegin :: "'a::linorder area_map \<Rightarrow> ('a \<times> Popup) option" where
  "map_rbegin [] = None"
| "map_rbegin (e # m) =
     (case map_rbegin m of
        None \<Rightarrow> Some e
      | Some b \<Rightarrow> if fst b < fst e then Some e else Some b)"

subsection \<open>Choosing a placement\<close>

text \<open>
  The loop of the first \<open>getPopup\<close> (lines 121--132): a placement whose geometry is
  unchanged by clipping to the area is taken at once; otherwise its clipped area is
  recorded, overwriting an earlier placement with the same area.  When no placement
  fits, the recorded placement of greatest area is taken; \<open>None\<close> stands for
  \<open>rbegin()\<close> of an empty map, which is undefined in C++.
\<close>

fun getPopup_pos_loop ::
  "'a::linordered_field bbox2 \<Rightarrow> 'a vec2 \<Rightarrow> 'a vec2 \<Rightarrow> Popup list \<Rightarrow> 'a area_map \<Rightarrow> Popup option" where
  "getPopup_pos_loop area pos sz [] m = map_option snd (map_rbegin m)"
| "getPopup_pos_loop area pos sz (p # ps) m =
     (let g = getPopupGeometry_pos p pos sz;
          clipped = intersect g area
      in if g = clipped then Some p
         else getPopup_pos_loop area pos sz ps (map_assign (getArea clipped) p m))"

definition getPopup_pos ::
  "Popup \<Rightarrow> 'a::linordered_field bbox2 \<Rightarrow> 'a vec2 \<Rightarrow> 'a vec2 \<Rightarrow> Popup option" where
  "getPopup_pos value area pos sz = getPopup_pos_loop area pos sz (popupList value) []"

text \<open>
  The loop of the second \<open>getPopup\<close> (lines 164--174): every placement's clipped
  area is recorded unless a placement earlier in the list already has that area.
\<close>

fun getPopup_button_loop ::
  "'a::linordered_field bbox2 \<Rightarrow> 'a bbox2 \<Rightarrow> 'a vec2 \<Rightarrow> Popup list \<Rightarrow> 'a area_map \<Rightarrow> 'a area_map" where
  "getPopup_button_loop area button sz [] m = m"
| "getPopup_button_loop area button sz (p # ps) m =
     (let a = getArea (intersect (getPopupGeometry_button p button sz) area)
      in getPopup_button_loop area button sz ps
           (if map_of m a = None then map_assign a p m else m))"

definition getPopup_button ::
  "Popup \<Rightarrow> 'a::linordered_field bbox2 \<Rightarrow> 'a bbox2 \<Rightarrow> 'a vec2 \<Rightarrow> Popup" where
  "getPopup_button value area button sz =
     (case map_rbegin (getPopup_button_loop area button sz (popupList value) []) of
        None \<Rightarrow> BelowRight
      | Some e \<Rightarrow> snd e)"

subsection \<open>Properties\<close>

lemma map_rbegin_Some:
  "map_rbegin m = Some e \<Longrightarrow> e \<in> set m \<and> (\<forall>e' \<in> set m. fst e' \<le> fst e)"
proof (induction m arbitrary: e)
  case Nil
  then show ?case by simp
next
  case (Cons x m)
  show ?case
  proof (cases "map_rbegin m")
    case None
    then have "m = []"
      by (cases m) (auto split: option.splits if_splits)
    with Cons.prems None show ?thesis by simp
  next
    case (Some b)
    with Cons.IH have b: "b \<in> set m" "\<forall>e' \<in> set m. fst e' \<le> fst b" by auto
    show ?thesis
    proof (cases "fst b < fst x")
      case True
      with Cons.prems Some b show ?thesis by force
    next
      case False
      with Cons.prems Some b show ?thesis by force
    qed
  qed
qed

lemma map_rbegin_nonempty: "m \<noteq> [] \<Longrightarrow> map_rbegin m \<noteq> None"
  by (cases m) (auto split: option.splits)

lemma set_map_assign: "set (map_assign k p m) = insert (k, p) {e \<in> set m. fst e \<noteq> k}"
  by (auto simp: map_assign_def)

lemma set_getPopupEnums [simp]: "set getPopupEnums = UNIV"
proof -
  have "p \<in> set getPopupEnums" for p
    by (cases p) (simp_all add: getPopupEnums_def)
  then show ?thesis by blast
qed

lemma set_popupList [simp]: "set (popupList v) = UNIV"
proof -
  have "p \<in> set (popupList v)" for p
    by (cases p; cases v) (simp_all add: popupList_def getPopupEnums_def)
  then show ?thesis by blast
qed

lemma getPopup_pos_loop_total:
  "ps \<noteq> [] \<or> m \<noteq> [] \<Longrightarrow> getPopup_pos_loop area pos sz ps m \<noteq> None"
proof (induction ps arbitrary: m)
  case Nil
  then show ?case by (simp add: map_rbegin_nonempty)
next
  case (Cons p ps)
  have "map_assign k p m \<noteq> []" for k
    by (simp add: map_assign_def)
  with Cons.IH show ?case by (simp add: Let_def)
qed

lemma getPopup_pos_loop_fits:
  "\<exists>p \<in> set ps. intersect (getPopupGeometry_pos p pos sz) area = getPopupGeometry_pos p pos sz \<Longrightarrow>
   \<exists>q. getPopup_pos_loop area pos sz ps m = Some q \<and>
       intersect (getPopupGeometry_pos q pos sz) area = getPopupGeometry_pos q pos sz"
proof (induction ps arbitrary: m)
  case Nil
  then show ?case by simp
next
  case (Cons p ps)
  then show ?case by (auto simp: Let_def)
qed

lemma getPopup_pos_loop_max:
  assumes "\<forall>p \<in> set ps. intersect (getPopupGeometry_pos p pos sz) area \<noteq> getPopupGeometry_pos p pos sz"
    and "\<forall>e \<in> set m. fst e = getArea (intersect (getPopupGeometry_pos (snd e) pos sz) area)"
    and "getPopup_pos_loop area pos sz ps m = Some q"
  shows "(\<forall>p \<in> set ps. getArea (intersect (getPopupGeometry_pos p pos sz) area)
                        \<le> getArea (intersect (getPopupGeometry_pos q pos sz) area)) \<and>
         (\<forall>e \<in> set m. fst e \<le> getArea (intersect (getPopupGeometry_pos q pos sz) area))"
  using assms
proof (induction ps arbitrary: m)
  case Nil
  then obtain e where e: "map_rbegin m = Some e" "snd e = q"
    by auto
  with map_rbegin_Some [OF e(1)] Nil.prems(2) show ?case
    by auto
next
  case (Cons p ps)
  let ?A = "\<lambda>p. getArea (intersect (getPopupGeometry_pos p pos sz) area)"
  let ?m = "map_assign (?A p) p m"
  have ne: "getPopupGeometry_pos p pos sz \<noteq> intersect (getPopupGeometry_pos p pos sz) area"
    using Cons.prems(1) by (metis list.set_intros(1))
  have step: "getPopup_pos_loop area pos sz ps ?m = Some q"
    using Cons.prems(3) ne by (simp add: Let_def)
  have inv: "\<forall>e \<in> set ?m. fst e = ?A (snd e)"
    using Cons.prems(2) by (auto simp: set_map_assign)
  from Cons.IH [OF _ inv step] Cons.prems(1)
  have ih: "\<forall>p' \<in> set ps. ?A p' \<le> ?A q" "\<forall>e \<in> set ?m. fst e \<le> ?A q"
    by auto
  then have "?A p \<le> ?A q"
    by (auto simp: set_map_assign)
  moreover have "\<forall>e \<in> set m. fst e \<le> ?A q"
    using ih(2) \<open>?A p \<le> ?A q\<close> by (force simp: set_map_assign)
  ultimately show ?case
    using ih(1) by simp
qed

lemma getPopup_button_loop_inv:
  assumes "\<forall>e \<in> set m. fst e = getArea (intersect (getPopupGeometry_button (snd e) button sz) area)"
  shows "(\<forall>e \<in> set (getPopup_button_loop area button sz ps m).
            fst e = getArea (intersect (getPopupGeometry_button (snd e) button sz) area)) \<and>
         (\<forall>p \<in> set ps. \<exists>e \<in> set (getPopup_button_loop area button sz ps m).
            fst e = getArea (intersect (getPopupGeometry_button p button sz) area)) \<and>
         (\<forall>e \<in> set m. \<exists>e' \<in> set (getPopup_button_loop area button sz ps m). fst e' = fst e)"
  using assms
proof (induction ps arbitrary: m)
  case Nil
  then show ?case by auto
next
  case (Cons p ps)
  let ?A = "\<lambda>p. getArea (intersect (getPopupGeometry_button p button sz) area)"
  let ?m = "if map_of m (?A p) = None then map_assign (?A p) p m else m"
  let ?L = "getPopup_button_loop area button sz ps ?m"
  have inv: "\<forall>e \<in> set ?m. fst e = ?A (snd e)"
    using Cons.prems by (simp add: set_map_assign)
  have L: "getPopup_button_loop area button sz (p # ps) m = ?L"
    by (simp add: Let_def)
  note ih = Cons.IH [OF inv]
  note ih1 = ih [THEN conjunct1]
  note ih2 = ih [THEN conjunct2, THEN conjunct1]
  note ih3 = ih [THEN conjunct2, THEN conjunct2]
  have keys: "\<forall>e \<in> set m. \<exists>e' \<in> set ?m. fst e' = fst e"
  proof
    fix e assume e: "e \<in> set m"
    show "\<exists>e' \<in> set ?m. fst e' = fst e"
    proof (cases "map_of m (?A p) = None")
      case True
      then have m: "?m = map_assign (?A p) p m" by simp
      show ?thesis
      proof (cases "fst e = ?A p")
        case True
        then show ?thesis unfolding m by (simp add: set_map_assign)
      next
        case False
        then show ?thesis unfolding m using e by (auto simp: set_map_assign intro: exI [of _ "snd e"])
      qed
    next
      case False
      then show ?thesis using e by auto
    qed
  qed
  have here: "\<exists>e \<in> set ?m. fst e = ?A p"
  proof (cases "map_of m (?A p)")
    case None
    then show ?thesis by (simp add: set_map_assign)
  next
    case (Some y)
    then have "(?A p, y) \<in> set m" by (rule map_of_SomeD)
    with Some show ?thesis by force
  qed
  have new: "\<exists>e \<in> set ?L. fst e = ?A p"
  proof -
    from here obtain e0 where e0: "e0 \<in> set ?m" "fst e0 = ?A p" by blast
    from ih3 e0(1) have "\<exists>e' \<in> set ?L. fst e' = fst e0" by (rule bspec)
    with e0(2) show ?thesis by simp
  qed
  have old: "\<forall>e \<in> set m. \<exists>e' \<in> set ?L. fst e' = fst e"
  proof
    fix e assume "e \<in> set m"
    with keys obtain e1 where e1: "e1 \<in> set ?m" "fst e1 = fst e" by blast
    from ih3 e1(1) have "\<exists>e' \<in> set ?L. fst e' = fst e1" by (rule bspec)
    with e1(2) show "\<exists>e' \<in> set ?L. fst e' = fst e" by simp
  qed
  show ?case
    unfolding L using ih1 ih2 new old by simp
qed


lemma getPopup_pos_loop_tie:
  assumes "ps \<noteq> []"
    and "\<forall>p \<in> set ps. intersect (getPopupGeometry_pos p pos sz) area \<noteq> getPopupGeometry_pos p pos sz"
    and "\<forall>p \<in> set ps. getArea (intersect (getPopupGeometry_pos p pos sz) area) = a"
    and "\<forall>e \<in> set m. fst e = a"
  shows "getPopup_pos_loop area pos sz ps m = Some (last ps)"
  using assms
proof (induction ps arbitrary: m)
  case Nil
  then show ?case by simp
next
  case (Cons p ps)
  have m: "map_assign (getArea (intersect (getPopupGeometry_pos p pos sz) area)) p m = [(a, p)]"
    using Cons.prems(3,4) by (simp add: map_assign_def filter_empty_conv)
  have ne: "getPopupGeometry_pos p pos sz \<noteq> intersect (getPopupGeometry_pos p pos sz) area"
    using Cons.prems(2) by auto
  show ?case
  proof (cases "ps = []")
    case True
    then show ?thesis
      using ne m by (simp add: Let_def)
  next
    case False
    then show ?thesis
      using ne Cons.prems(2,3) Cons.IH [of "[(a, p)]"] m by (simp add: Let_def)
  qed
qed

lemma getPopup_button_loop_tie:
  assumes "\<forall>p \<in> set ps. getArea (intersect (getPopupGeometry_button p button sz) area) = a"
  shows "getPopup_button_loop area button sz ps [(a, v)] = [(a, v)]"
  using assms by (induction ps) (simp_all add: Let_def)


text \<open>
  C14. When the requested placement next to a point lies inside the area, getPopup
  returns it.
\<close>

theorem getPopup_pos_requested_fits:
  assumes "intersect (getPopupGeometry_pos value pos sz) area = getPopupGeometry_pos value pos sz"
  shows "getPopup_pos value area pos sz = Some value"
  using assms by (simp add: getPopup_pos_def popupList_def Let_def)

theorem getPopup_pos_requested_fits_witness:
  "getPopup_pos AboveLeft (bbox (vec 0 0) (vec 100 100)) (vec 50 50) (vec (10::rat) 20) = Some AboveLeft"
  by (rule getPopup_pos_requested_fits)
    (simp add: intersect_def bbox_def vec_def)

text \<open>
  C16. getPopup next to a point never reads rbegin() of an empty map: it always
  returns a placement.
\<close>

theorem getPopup_pos_defined: "getPopup_pos value area pos sz \<noteq> None"
  unfolding getPopup_pos_def popupList_def
  by (rule getPopup_pos_loop_total) simp

text \<open>
  C15. When some placement next to a point lies inside the area, getPopup returns a
  placement that lies inside the area.
\<close>

theorem getPopup_pos_fits:
  assumes "intersect (getPopupGeometry_pos p pos sz) area = getPopupGeometry_pos p pos sz"
  shows "\<exists>q. getPopup_pos value area pos sz = Some q \<and>
             intersect (getPopupGeometry_pos q pos sz) area = getPopupGeometry_pos q pos sz"
  unfolding getPopup_pos_def
  by (rule getPopup_pos_loop_fits) (use assms in auto)

theorem getPopup_pos_fits_witness:
  "getPopup_pos BelowRight (bbox (vec 0 0) (vec 100 100)) (vec 95 95) (vec (10::rat) 10) = Some AboveLeft"
proof -
  have "\<exists>q. getPopup_pos BelowRight (bbox (vec 0 0) (vec 100 100)) (vec 95 95) (vec (10::rat) 10) = Some q \<and>
          intersect (getPopupGeometry_pos q (vec 95 95) (vec 10 10)) (bbox (vec 0 0) (vec (100::rat) 100))
            = getPopupGeometry_pos q (vec 95 95) (vec 10 10)"
    by (rule getPopup_pos_fits [of AboveLeft]) (simp add: intersect_def bbox_def vec_def)
  then show ?thesis
    by (simp add: getPopup_pos_def popupList_def getPopupEnums_def intersect_def bbox_def vec_def
        getArea_def bw_def bh_def map_assign_def)
qed

text \<open>
  C17. When no placement next to a point fits, getPopup returns one whose clipped
  area is the largest.
\<close>

theorem getPopup_pos_largest_area:
  assumes "\<forall>p. intersect (getPopupGeometry_pos p pos sz) area \<noteq> getPopupGeometry_pos p pos sz"
    and "getPopup_pos value area pos sz = Some q"
  shows "getArea (intersect (getPopupGeometry_pos p pos sz) area)
           \<le> getArea (intersect (getPopupGeometry_pos q pos sz) area)"
proof -
  have "\<forall>p \<in> set (popupList value). getArea (intersect (getPopupGeometry_pos p pos sz) area)
           \<le> getArea (intersect (getPopupGeometry_pos q pos sz) area)"
    using getPopup_pos_loop_max [of "popupList value" pos sz area "[]" q] assms
    by (simp add: getPopup_pos_def)
  then show ?thesis by simp
qed

theorem getPopup_pos_largest_area_witness:
  "getPopup_pos BelowRight (bbox (vec 0 0) (vec 10 10)) (vec 5 5) (vec (10::rat) 10) = Some AboveLeft \<and>
   getArea (intersect (getPopupGeometry_pos BelowRight (vec 5 5) (vec 10 10)) (bbox (vec 0 0) (vec (10::rat) 10)))
     \<le> getArea (intersect (getPopupGeometry_pos AboveLeft (vec 5 5) (vec 10 10)) (bbox (vec 0 0) (vec 10 10)))"
proof -
  have r: "getPopup_pos BelowRight (bbox (vec 0 0) (vec 10 10)) (vec 5 5) (vec (10::rat) 10) = Some AboveLeft"
    by (simp add: getPopup_pos_def popupList_def getPopupEnums_def intersect_def bbox_def vec_def
        getArea_def bw_def bh_def map_assign_def)
  have nf: "\<forall>p. intersect (getPopupGeometry_pos p (vec 5 5) (vec 10 10)) (bbox (vec 0 0) (vec (10::rat) 10))
               \<noteq> getPopupGeometry_pos p (vec 5 5) (vec 10 10)"
  proof
    fix p show "intersect (getPopupGeometry_pos p (vec 5 5) (vec 10 10)) (bbox (vec 0 0) (vec (10::rat) 10))
               \<noteq> getPopupGeometry_pos p (vec 5 5) (vec 10 10)"
      by (cases p) (simp_all add: intersect_def bbox_def vec_def)
  qed
  show ?thesis
    using r getPopup_pos_largest_area [OF nf r, of BelowRight] by simp
qed

text \<open>
  GetPopup next to a button returns a placement whose clipped area is the
  largest of the four.
\<close>

theorem getPopup_button_largest_area:
  "getArea (intersect (getPopupGeometry_button p button sz) area)
     \<le> getArea (intersect (getPopupGeometry_button (getPopup_button value area button sz) button sz) area)"
proof -
  let ?L = "getPopup_button_loop area button sz (popupList value) []"
  have li: "(\<forall>e \<in> set ?L. fst e = getArea (intersect (getPopupGeometry_button (snd e) button sz) area)) \<and>
             (\<forall>p \<in> set (popupList value). \<exists>e \<in> set ?L.
                fst e = getArea (intersect (getPopupGeometry_button p button sz) area)) \<and>
             (\<forall>e \<in> set ([] :: ('a \<times> Popup) list). \<exists>e' \<in> set ?L. fst e' = fst e)"
    by (rule getPopup_button_loop_inv) simp
  note inv = li [THEN conjunct1]
  have "\<exists>e \<in> set ?L. fst e = getArea (intersect (getPopupGeometry_button p button sz) area)"
    using li [THEN conjunct2, THEN conjunct1] by simp
  then obtain e where e: "e \<in> set ?L" "fst e = getArea (intersect (getPopupGeometry_button p button sz) area)"
    by blast
  then have "?L \<noteq> []" by auto
  then obtain b where b: "map_rbegin ?L = Some b"
    using map_rbegin_nonempty by blast
  have "b \<in> set ?L" "fst e \<le> fst b"
    using map_rbegin_Some [OF b] e(1) by auto
  moreover have "getPopup_button value area button sz = snd b"
    using b by (simp add: getPopup_button_def)
  ultimately show ?thesis
    using inv e(2) by fastforce
qed

text \<open>
  C18. The two getPopup overloads break ties differently.  When no placement next
  to the point fits and all four clipped areas are equal, the point overload returns
  the last placement it tried (AboveLeft, or AboveRight when AboveLeft was asked
  for): each later placement overwrites the map entry of the same area.  When all
  four clipped areas next to the button are equal, the button overload returns the
  requested placement, the first one tried, since it only records new areas.
\<close>

theorem getPopup_overloads_break_ties_differently:
  assumes "\<forall>p. intersect (getPopupGeometry_pos p pos sz) area \<noteq> getPopupGeometry_pos p pos sz"
    and "\<forall>p. getArea (intersect (getPopupGeometry_pos p pos sz) area) = a"
    and "\<forall>p. getArea (intersect (getPopupGeometry_button p button sz') area) = b"
  shows "getPopup_pos value area pos sz = Some (if value = AboveLeft then AboveRight else AboveLeft) \<and>
         getPopup_button value area button sz' = value"
proof
  have "getPopup_pos_loop area pos sz (popupList value) [] = Some (last (popupList value))"
    by (rule getPopup_pos_loop_tie [where a = a]) (use assms(1,2) in \<open>simp_all add: popupList_def\<close>)
  moreover have "last (popupList value) = (if value = AboveLeft then AboveRight else AboveLeft)"
    by (cases "value") (simp_all add: popupList_def getPopupEnums_def)
  ultimately show "getPopup_pos value area pos sz = Some (if value = AboveLeft then AboveRight else AboveLeft)"
    by (simp add: getPopup_pos_def)
next
  have "getPopup_button_loop area button sz' (remove1 value getPopupEnums) [(b, value)] = [(b, value)]"
    by (rule getPopup_button_loop_tie) (use assms(3) in simp)
  then show "getPopup_button value area button sz' = value"
    using assms(3) by (simp add: getPopup_button_def popupList_def Let_def map_assign_def)
qed

theorem getPopup_overloads_break_ties_differently_witness:
  "(\<forall>p. intersect (getPopupGeometry_pos p (vec 5 5) (vec 10 10)) (bbox (vec 0 0) (vec (10::rat) 10))
          \<noteq> getPopupGeometry_pos p (vec 5 5) (vec 10 10)) \<and>
   getPopup_pos BelowRight (bbox (vec 0 0) (vec 10 10)) (vec 5 5) (vec (10::rat) 10) = Some AboveLeft \<and>
   getPopup_button BelowRight (bbox (vec 0 0) (vec 10 10)) (bbox (vec 5 5) (vec 5 5)) (vec (10::rat) 10)
     = BelowRight"
proof -
  let ?area = "bbox (vec 0 0) (vec (10::rat) 10)"
  have nf: "\<forall>p. intersect (getPopupGeometry_pos p (vec 5 5) (vec 10 10)) ?area
               \<noteq> getPopupGeometry_pos p (vec 5 5) (vec 10 10)"
  proof
    fix p show "intersect (getPopupGeometry_pos p (vec 5 5) (vec 10 10)) ?area
               \<noteq> getPopupGeometry_pos p (vec 5 5) (vec 10 10)"
      by (cases p) (simp_all add: intersect_def bbox_def vec_def)
  qed
  have a: "\<forall>p. getArea (intersect (getPopupGeometry_pos p (vec 5 5) (vec 10 10)) ?area) = 25"
  proof
    fix p show "getArea (intersect (getPopupGeometry_pos p (vec 5 5) (vec 10 10)) ?area) = 25"
      by (cases p) (simp_all add: intersect_def bbox_def vec_def getArea_def bw_def bh_def)
  qed
  have b: "\<forall>p. getArea (intersect (getPopupGeometry_button p (bbox (vec 5 5) (vec 5 5)) (vec 10 10)) ?area) = 25"
  proof
    fix p show "getArea (intersect (getPopupGeometry_button p (bbox (vec 5 5) (vec 5 5)) (vec 10 10)) ?area) = 25"
      by (cases p) (simp_all add: intersect_def bbox_def vec_def getArea_def bw_def bh_def)
  qed
  show ?thesis
    using nf getPopup_overloads_break_ties_differently [OF nf a b, of BelowRight] by simp
qed

text \<open>
  Every placement next to a point has exactly the minimum size; every placement
  next to a button has the minimum height and the larger of the minimum width and
  the button width.
\<close>

theorem getPopupGeometry_sizes:
  "bw (getPopupGeometry_pos p pos sz) = vx sz \<and> bh (getPopupGeometry_pos p pos sz) = vy sz \<and>
   bw (getPopupGeometry_button p button sz) = max (vx sz) (bw button) \<and>
   bh (getPopupGeometry_button p button sz) = vy sz"
  by (cases p) (auto simp: bw_def bh_def bbox_def vec_def max_def min_def)

end
