(* ===== verification/ImageView.thy ===== *)
theory ImageView
  imports Geometry
begin

text \<open>
  The pan/zoom state of the image view, \<open>src/lib/djvViewApp/ImageView.cpp\<close>: the
  observable position and zoom of the image, the lock mode, the lock frame and the
  first-layout flag, the grid overlay that mirrors them, and the zoom animation.
  Every public setter and the layout event are one function each, composed as the
  code composes them (\<open>setImageZoom\<close> calls \<open>setImagePosAndZoom\<close>, which starts
  the animation or calls \<open>_setPosAndZoom\<close>), and \<open>ImageView_step\<close> dispatches
  them, so that reachability from \<open>_init\<close> is an inductive relation.

  Arithmetic is over an ordered field; the few divisions whose divisor can be zero
  are computed on the IEEE extended line (\<open>fl\<close>), and an infinite or NaN result
  that would be stored ends the run with \<open>NonFinite\<close>.  The rendering-only members
  (image options, background colour, annotations, colour configuration) are not
  modelled: their setters store the value and request a redraw.
\<close>

subsection \<open>Float division on the extended line\<close>

text \<open>
  An IEEE \<open>float\<close> beyond the finite values: \<open>x / 0\<close> is an infinity of the sign of
  \<open>x\<close> (the divisors here are differences of equal coordinates, i.e. \<open>+0\<close>) and
  \<open>0 / 0\<close> is NaN; an infinity times zero is NaN; every comparison with NaN is false.
\<close>

datatype 'a fl = Fin 'a | PInf | NInf | NaN

definition fdiv :: "'a::linordered_field \<Rightarrow> 'a \<Rightarrow> 'a fl" where
  "fdiv x y = (if y \<noteq> 0 then Fin (x / y) else if 0 < x then PInf else if x < 0 then NInf else NaN)"

fun fmul :: "'a::linordered_field fl \<Rightarrow> 'a \<Rightarrow> 'a fl" where
  "fmul (Fin a) b = Fin (a * b)"
| "fmul PInf b = (if 0 < b then PInf else if b < 0 then NInf else NaN)"
| "fmul NInf b = (if 0 < b then NInf else if b < 0 then PInf else NaN)"
| "fmul NaN b = NaN"

fun fgreater :: "'a::linordered_field fl \<Rightarrow> 'a \<Rightarrow> bool" where
  "fgreater (Fin a) b = (b < a)"
| "fgreater PInf b = True"
| "fgreater NInf b = False"
| "fgreater NaN b = False"

text \<open>Storing a \<open>float\<close> into the view state: only a finite value continues.\<close>

fun finite_fl :: "'a fl \<Rightarrow> error + 'a" where
  "finite_fl (Fin a) = Inr a"
| "finite_fl _ = Inl NonFinite"

text \<open>\<open>Math::lerp(value, min, max)\<close> of \<open>djvCore\<close>.\<close>

definition lerp :: "'a::linordered_field \<Rightarrow> 'a \<Rightarrow> 'a \<Rightarrow> 'a" where
  "lerp v a b = a + (b - a) * v"

subsection \<open>The view's data\<close>

text \<open>
  \<open>UI::ImageRotate\<close>, \<open>UI::ImageAspectRatio\<close> and \<open>ImageViewLock\<close>, declared in
  headers that are not under \<open>src/\<close>.  \<open>ImageViewLock::None\<close> is \<open>LockNone\<close>.
\<close>

datatype ImageRotate = Rotate_0 | Rotate_90 | Rotate_180 | Rotate_270

datatype ImageAspectRatio =
    Unscaled | FromSource | Ratio_16_9 | Ratio_1_85 | Ratio_2_35 | Ratio_2_39

datatype ImageViewLock = LockNone | LockFill | LockFrame | LockCenter

text \<open>
  What the view reads of an \<open>AV::Image::Image\<close>: its size in pixels, its aspect
  ratio and its pixel aspect ratio, and the address the \<open>std::shared_ptr\<close> holds
  (\<open>image_ptr\<close>), which is what \<open>setImage\<close> compares.
\<close>

record 'a Image =
  image_ptr :: nat
  size_w :: nat
  size_h :: nat
  aspectRatio :: 'a
  pixelAspectRatio :: 'a

text \<open>
  \<open>UI::ImageWidget::getXForm(image, rotate, scale, aspectRatio)\<close> at scale 1 (the
  call of \<open>_getImagePoints\<close>) is a function of \<open>djvUI\<close> that is not under
  \<open>src/\<close>; the view state carries it as a parameter fixed at construction.
\<close>

type_synonym 'a xform = "'a Image \<Rightarrow> ImageRotate \<Rightarrow> ImageAspectRatio \<Rightarrow> 'a vec2 \<Rightarrow> 'a vec2"

text \<open>
  The grid overlay (\<open>ImageViewGridOverlay\<close>, declared in \<open>ImageViewPrivate.h\<close>)
  as the view drives it: the setters store what they are given.
\<close>

record 'a GridOverlay =
  ov_pos :: "'a vec2"
  ov_zoom :: 'a
  ov_rotate :: ImageRotate
  ov_aspect :: "ImageAspectRatio \<times> 'a \<times> 'a"
  ov_bbox :: "'a bbox2"
  ov_frame :: "'a bbox2"
  ov_geometry :: "'a bbox2"

text \<open>
  The two lambdas \<open>_animatePosAndZoom\<close> hands to \<open>Animation::start\<close> capture the
  previous and the target position and zoom; an active animation is those four values.
\<close>

record 'a ZoomAnim =
  posPrev :: "'a vec2"
  zoomPrev :: 'a
  posTo :: "'a vec2"
  zoomTo :: 'a

text \<open>
  \<open>ImageView::Private\<close> (lines 53--74) without the rendering-only members, plus
  the widget's geometry and its pending \<open>_resize()\<close> request.  The subjects
  \<open>p.image\<close>, \<open>p.imagePos\<close>, ... hold the fields' values; \<open>viewImage\<close> is
  the value of \<open>p.image\<close>, \<open>None\<close> for an empty \<open>std::shared_ptr<Image>\<close>.
\<close>

record 'a ImageView =
  viewImage :: "'a Image option"
  imagePos :: "'a vec2"
  imageZoom :: 'a
  imageRotate :: ImageRotate
  imageAspectRatio :: ImageAspectRatio
  lock :: ImageViewLock
  lockFrame :: "'a bbox2"
  viewInit :: bool
  gridOverlay :: "'a GridOverlay"
  zoomAnimation :: "'a ZoomAnim option"
  geometry :: "'a bbox2"
  resized :: bool
  getXForm :: "'a xform"

subsection \<open>Image points, centre and bounding box\<close>

text \<open>
  \<open>_getImagePoints()\<close> (lines 476--504): no points without an image, else the
  four corners of the image transformed by \<open>getXForm\<close>.
\<close>

definition getImagePoints :: "'a::linordered_field ImageView \<Rightarrow> 'a vec2 list" where
  "getImagePoints s =
     (case viewImage s of
        None \<Rightarrow> []
      | Some img \<Rightarrow>
          (let w = of_nat (size_w img); h = of_nat (size_h img)
           in map (getXForm s img (imageRotate s) (imageAspectRatio s))
                  [vec 0 0, vec w 0, vec w h, vec 0 h]))"

text \<open>\<open>_getCenter(value)\<close> (lines 506--520): the mean of the points, or the origin.\<close>

definition getCenter_pts :: "'a::linordered_field vec2 list \<Rightarrow> 'a vec2" where
  "getCenter_pts value =
     (if value = [] then vec 0 0
      else
        (let out = foldl (\<lambda>out i. vec (vx out + vx i) (vy out + vy i)) (vec 0 0) value
         in vec (vx out / of_nat (length value)) (vy out / of_nat (length value))))"

text \<open>
  \<open>_getBBox(value)\<close> (lines 522--537): starts from \<open>value[0]\<close> and reads
  \<open>value[1]\<close> to \<open>value[3]\<close> whatever the size of the vector, so a vector of one to
  three points is read out of bounds.
\<close>

definition getBBox_pts :: "'a::linordered_field vec2 list \<Rightarrow> error + 'a bbox2" where
  "getBBox_pts value =
     (if value = [] then Inr (bbox (vec 0 0) (vec 0 0))
      else if length value < 4 then Inl BufferOverrun
      else Inr (foldl (\<lambda>out i.
                  bbox (vec (min (vx (bmin out)) (vx (value ! i))) (min (vy (bmin out)) (vy (value ! i))))
                       (vec (max (vx (bmax out)) (vx (value ! i))) (max (vy (bmax out)) (vy (value ! i)))))
                (bbox (value ! 0) (value ! 0)) [1..<4]))"

text \<open>
  The reference bounding box of a non-empty list of points: the smallest box that
  holds them, by the least and greatest coordinates.
\<close>

definition points_bbox :: "'a::linordered_field vec2 list \<Rightarrow> 'a bbox2" where
  "points_bbox ps =
     bbox (vec (Min (vx ` set ps)) (Min (vy ` set ps))) (vec (Max (vx ` set ps)) (Max (vy ` set ps)))"

text \<open>\<open>getImageBBox()\<close> (lines 219--222).\<close>

definition getImageBBox :: "'a::linordered_field ImageView \<Rightarrow> error + 'a bbox2" where
  "getImageBBox s = getBBox_pts (getImagePoints s)"

subsection \<open>Position and zoom\<close>

text \<open>
  \<open>_setPosAndZoom(pos, zoom)\<close> (lines 569--583): each subject requests a resize only
  when its value changes; the zoom is clamped with \<open>std::max(0.F, zoom)\<close>; the
  overlay then receives the stored position and zoom, the bounding box and the frame.
\<close>

definition setPosAndZoom ::
  "'a::linordered_field vec2 \<Rightarrow> 'a \<Rightarrow> 'a ImageView \<Rightarrow> error + 'a ImageView" where
  "setPosAndZoom pos zoom s =
     (let s1 = (if imagePos s \<noteq> pos then s\<lparr>imagePos := pos, resized := True\<rparr> else s);
          z = max 0 zoom;
          s2 = (if imageZoom s1 \<noteq> z then s1\<lparr>imageZoom := z, resized := True\<rparr> else s1)
      in bind_sum (getImageBBox s2) (\<lambda>b.
           Inr (s2\<lparr>gridOverlay := (gridOverlay s2)\<lparr>ov_pos := imagePos s2, ov_zoom := imageZoom s2,
                                                    ov_bbox := b, ov_frame := lockFrame s2\<rparr>\<rparr>)))"

text \<open>
  \<open>_animatePosAndZoom(pos, zoom)\<close> (lines 539--567): \<open>Animation::start\<close> replaces
  the callbacks of the view's single animation with ones capturing the current and
  the target position and zoom.
\<close>

definition animatePosAndZoom ::
  "'a vec2 \<Rightarrow> 'a \<Rightarrow> 'a ImageView \<Rightarrow> error + 'a ImageView" where
  "animatePosAndZoom pos zoom s =
     Inr (s\<lparr>zoomAnimation :=
            Some \<lparr>posPrev = imagePos s, zoomPrev = imageZoom s, posTo = pos, zoomTo = zoom\<rparr>\<rparr>)"

text \<open>
  A tick of the animation with the eased value \<open>v\<close> runs the first lambda
  (lines 549--559): position and zoom interpolated between the captured values.
\<close>

definition animationTick :: "'a::linordered_field \<Rightarrow> 'a ImageView \<Rightarrow> error + 'a ImageView" where
  "animationTick v s =
     (case zoomAnimation s of
        None \<Rightarrow> Inr s
      | Some a \<Rightarrow>
          setPosAndZoom (vec (lerp v (vx (posPrev a)) (vx (posTo a))) (lerp v (vy (posPrev a)) (vy (posTo a))))
                        (lerp v (zoomPrev a) (zoomTo a)) s)"

text \<open>The end of the animation runs the second lambda (lines 560--566).\<close>

definition animationEnd :: "'a::linordered_field ImageView \<Rightarrow> error + 'a ImageView" where
  "animationEnd s =
     (case zoomAnimation s of
        None \<Rightarrow> Inr s
      | Some a \<Rightarrow> setPosAndZoom (posTo a) (zoomTo a) (s\<lparr>zoomAnimation := None\<rparr>))"

text \<open>\<open>setImagePosAndZoom(pos, zoom, animate)\<close> (lines 252--262).\<close>

definition setImagePosAndZoom ::
  "'a::linordered_field vec2 \<Rightarrow> 'a \<Rightarrow> bool \<Rightarrow> 'a ImageView \<Rightarrow> error + 'a ImageView" where
  "setImagePosAndZoom pos zoom animate s =
     (if animate then animatePosAndZoom pos zoom s else setPosAndZoom pos zoom s)"

text \<open>\<open>setImagePos\<close> and \<open>setImageZoom\<close> (lines 224--234).\<close>

definition setImagePos ::
  "'a::linordered_field vec2 \<Rightarrow> bool \<Rightarrow> 'a ImageView \<Rightarrow> error + 'a ImageView" where
  "setImagePos value animate s = setImagePosAndZoom value (imageZoom s) animate s"

definition setImageZoom ::
  "'a::linordered_field \<Rightarrow> bool \<Rightarrow> 'a ImageView \<Rightarrow> error + 'a ImageView" where
  "setImageZoom value animate s = setImagePosAndZoom (imagePos s) value animate s"

text \<open>
  \<open>setImageZoomFocus(value, mouse, animate)\<close> (lines 236--243): the new position
  is \<open>mouse + (imagePos - mouse) * (value / imageZoom)\<close>; with a zero zoom the ratio
  is infinite or NaN, and so is the position.
\<close>

definition setImageZoomFocusAt ::
  "'a::linordered_field \<Rightarrow> 'a vec2 \<Rightarrow> bool \<Rightarrow> 'a ImageView \<Rightarrow> error + 'a ImageView" where
  "setImageZoomFocusAt value mouse animate s =
     bind_sum (finite_fl (fdiv value (imageZoom s))) (\<lambda>k.
       setImagePosAndZoom
         (vec (vx mouse + (vx (imagePos s) - vx mouse) * k) (vy mouse + (vy (imagePos s) - vy mouse) * k))
         value animate s)"

text \<open>\<open>setImageZoomFocus(value, animate)\<close> (lines 245--250): the focus is the centre
  of the widget's geometry.\<close>

definition setImageZoomFocus ::
  "'a::linordered_field \<Rightarrow> bool \<Rightarrow> 'a ImageView \<Rightarrow> error + 'a ImageView" where
  "setImageZoomFocus value animate s = setImageZoomFocusAt value (getCenter (geometry s)) animate s"

subsection \<open>The view transform\<close>

text \<open>
  The transform \<open>_paintEvent\<close> draws the annotations with (lines 463--467):
  translate by the widget's corner plus \<open>imagePos\<close>, then scale by the zoom.  It maps a
  point of the zoomed image plane to the window point where it is shown (the style's
  margin, line 428, is taken as zero).
\<close>

definition paintXForm :: "'a::linordered_field ImageView \<Rightarrow> 'a vec2 \<Rightarrow> 'a vec2" where
  "paintXForm s q =
     vec (vx (bmin (geometry s)) + vx (imagePos s) + imageZoom s * vx q)
         (vy (bmin (geometry s)) + vy (imagePos s) + imageZoom s * vy q)"

subsection \<open>Image, rotation and aspect ratio\<close>

text \<open>
  The refresh that \<open>setImage\<close>, \<open>setImageRotate\<close> and \<open>setImageAspectRatio\<close> end
  with: the overlay gets the image's bounding box and the lock frame, and a resize
  is requested.
\<close>

definition refreshOverlay :: "'a::linordered_field ImageView \<Rightarrow> error + 'a ImageView" where
  "refreshOverlay s =
     bind_sum (getImageBBox s) (\<lambda>b.
       Inr (s\<lparr>gridOverlay := (gridOverlay s)\<lparr>ov_bbox := b, ov_frame := lockFrame s\<rparr>,
              resized := True\<rparr>))"

text \<open>
  \<open>setImage(value)\<close> (lines 166--180): \<open>p.image->setIfChanged(value)\<close> compares
  the two \<open>std::shared_ptr\<close>s, i.e. the addresses they hold, not the images; the
  overlay's aspect ratios come from the new image, or 1 without one.
\<close>

definition setImage ::
  "'a::linordered_field Image option \<Rightarrow> 'a ImageView \<Rightarrow> error + 'a ImageView" where
  "setImage value s =
     (if map_option image_ptr (viewImage s) \<noteq> map_option image_ptr value then
        (let s1 = s\<lparr>viewImage := value\<rparr>;
             ar = (case value of None \<Rightarrow> (1, 1) | Some i \<Rightarrow> (aspectRatio i, pixelAspectRatio i))
         in refreshOverlay
              (s1\<lparr>gridOverlay := (gridOverlay s1)\<lparr>ov_aspect := (imageAspectRatio s1, fst ar, snd ar)\<rparr>\<rparr>))
      else Inr s)"

text \<open>\<open>setImageRotate(value)\<close> (lines 264--274).\<close>

definition setImageRotate ::
  "ImageRotate \<Rightarrow> 'a::linordered_field ImageView \<Rightarrow> error + 'a ImageView" where
  "setImageRotate value s =
     (if imageRotate s \<noteq> value then
        refreshOverlay (s\<lparr>imageRotate := value, gridOverlay := (gridOverlay s)\<lparr>ov_rotate := value\<rparr>\<rparr>)
      else Inr s)"

text \<open>
  \<open>setImageAspectRatio(value)\<close> (lines 276--289).  The test \<open>p.image ? ... : 1.F\<close>
  is on the subject \<open>p.image\<close>, which is never empty, so \<open>p.image->get()\<close> is
  dereferenced whether or not the view holds an image.
\<close>

definition setImageAspectRatio ::
  "ImageAspectRatio \<Rightarrow> 'a::linordered_field ImageView \<Rightarrow> error + 'a ImageView" where
  "setImageAspectRatio value s =
     (if imageAspectRatio s \<noteq> value then
        (case viewImage s of
           None \<Rightarrow> Inl NullDeref
         | Some i \<Rightarrow>
             refreshOverlay (s\<lparr>imageAspectRatio := value,
               gridOverlay := (gridOverlay s)\<lparr>ov_aspect := (value, aspectRatio i, pixelAspectRatio i)\<rparr>\<rparr>))
      else Inr s)"

subsection \<open>Fill, frame and centre\<close>

text \<open>
  The zoom of \<open>imageFill\<close> and \<open>imageFrame\<close> (lines 300--304 and 328--332): the
  ratio of the widths, replaced by the ratio of the heights when the image would be
  too tall, in \<open>float\<close> arithmetic.
\<close>

definition fill_zoom :: "'a::linordered_field \<Rightarrow> 'a \<Rightarrow> 'a \<Rightarrow> 'a \<Rightarrow> 'a fl" where
  "fill_zoom gw gh w h =
     (let zoom = fdiv gw w in if fgreater (fmul zoom h) gh then fdiv gh h else zoom)"

text \<open>\<open>imageFill(animate)\<close> (lines 291--312): fit the image to the widget, centred.\<close>

definition imageFill :: "bool \<Rightarrow> 'a::linordered_field ImageView \<Rightarrow> error + 'a ImageView" where
  "imageFill animate s =
     (case viewImage s of
        None \<Rightarrow> Inr s
      | Some _ \<Rightarrow>
          (let g = geometry s; pts = getImagePoints s; c = getCenter_pts pts
           in bind_sum (getBBox_pts pts) (\<lambda>bb.
                bind_sum (finite_fl (fill_zoom (bw g) (bh g) (bw bb) (bh bb))) (\<lambda>zoom.
                  setImagePosAndZoom (vec (bw g / 2 - vx c * zoom) (bh g / 2 - vy c * zoom))
                    zoom animate s))))"

text \<open>\<open>setImageFrame(value)\<close> (lines 314--317).\<close>

definition setImageFrame :: "'a bbox2 \<Rightarrow> 'a ImageView \<Rightarrow> error + 'a ImageView" where
  "setImageFrame value s = Inr (s\<lparr>lockFrame := value\<rparr>)"

text \<open>
  \<open>imageFrame(animate)\<close> (lines 319--340): fit the image to the lock frame, which
  is in window coordinates, centred on it.
\<close>

definition imageFrame :: "bool \<Rightarrow> 'a::linordered_field ImageView \<Rightarrow> error + 'a ImageView" where
  "imageFrame animate s =
     (case viewImage s of
        None \<Rightarrow> Inr s
      | Some _ \<Rightarrow>
          (let g = geometry s; f = lockFrame s; pts = getImagePoints s; c = getCenter_pts pts
           in bind_sum (getBBox_pts pts) (\<lambda>bb.
                bind_sum (finite_fl (fill_zoom (bw f) (bh f) (bw bb) (bh bb))) (\<lambda>zoom.
                  setImagePosAndZoom
                    (vec ((vx (bmin f) - vx (bmin g)) + bw f / 2 - vx c * zoom)
                         ((vy (bmin f) - vy (bmin g)) + bh f / 2 - vy c * zoom))
                    zoom animate s))))"

text \<open>\<open>imageCenter(animate)\<close> (lines 342--356): zoom 1, centred.\<close>

definition imageCenter :: "bool \<Rightarrow> 'a::linordered_field ImageView \<Rightarrow> error + 'a ImageView" where
  "imageCenter animate s =
     (case viewImage s of
        None \<Rightarrow> Inr s
      | Some _ \<Rightarrow>
          (let g = geometry s; c = getCenter_pts (getImagePoints s)
           in setImagePosAndZoom (vec (bw g / 2 - vx c) (bh g / 2 - vy c)) 1 animate s))"

subsection \<open>Layout, lock and geometry\<close>

text \<open>
  \<open>_layoutEvent\<close> (lines 399--421).  The lock decides the fit; without a lock the
  image is filled on the first layout.  The tests \<open>p.image && p.viewInit\<close> are on
  the subject \<open>p.image\<close>, which is never empty, so they reduce to \<open>p.viewInit\<close>:
  the first layout clears the flag whether or not an image is shown.
\<close>

definition layoutEvent :: "'a::linordered_field ImageView \<Rightarrow> error + 'a ImageView" where
  "layoutEvent s =
     bind_sum
       (case lock s of
          LockFill \<Rightarrow> imageFill False s
        | LockFrame \<Rightarrow> imageFrame False s
        | LockCenter \<Rightarrow> imageCenter False s
        | LockNone \<Rightarrow> (if viewInit s then imageFill False s else Inr s))
       (\<lambda>s1.
          (let s2 = (if viewInit s1 then s1\<lparr>viewInit := False\<rparr> else s1)
           in bind_sum (getImageBBox s2) (\<lambda>b.
                Inr (s2\<lparr>gridOverlay := (gridOverlay s2)\<lparr>ov_geometry := geometry s2, ov_bbox := b,
                                                         ov_frame := lockFrame s2\<rparr>\<rparr>))))"

text \<open>
  The lock observer (lines 111--123): store the lock, and request a resize when the
  widget is visible and not clipped.
\<close>

definition setLock ::
  "ImageViewLock \<Rightarrow> bool \<Rightarrow> 'a ImageView \<Rightarrow> error + 'a ImageView" where
  "setLock value visible s = Inr (s\<lparr>lock := value, resized := (resized s \<or> visible)\<rparr>)"

text \<open>\<open>Widget::setGeometry\<close>, called by the parent layout (not under \<open>src/\<close>).\<close>

definition setGeometry :: "'a bbox2 \<Rightarrow> 'a ImageView \<Rightarrow> error + 'a ImageView" where
  "setGeometry value s = Inr (s\<lparr>geometry := value\<rparr>)"

subsection \<open>Construction and the step relation\<close>

text \<open>
  \<open>_init\<close> (lines 76--145): no image, position at the origin, zoom 1, rotation and
  aspect ratio from the image settings, an empty lock frame, the first-layout flag
  set, and the overlay initialised from these values.  The lock member starts as
  \<open>ImageViewLock::None\<close> (line 63), but the lock observer created at lines 111--123
  is called at once with the view settings' current lock \<open>lk\<close>, which it stores.
  Whether that call also requests a resize depends on the widget's visibility and
  clipping, which \<open>djvUI\<close> (not under \<open>src/\<close>) sets; the model starts with no
  pending request.
\<close>

definition ImageView_init ::
  "'a::linordered_field xform \<Rightarrow> ImageRotate \<Rightarrow> ImageAspectRatio \<Rightarrow> ImageViewLock \<Rightarrow> 'a ImageView" where
  "ImageView_init xf rot ar lk =
     \<lparr>viewImage = None, imagePos = vec 0 0, imageZoom = 1, imageRotate = rot,
      imageAspectRatio = ar, lock = lk, lockFrame = bbox (vec 0 0) (vec 0 0),
      viewInit = True,
      gridOverlay = \<lparr>ov_pos = vec 0 0, ov_zoom = 1, ov_rotate = rot, ov_aspect = (ar, 1, 1),
                     ov_bbox = bbox (vec 0 0) (vec 0 0), ov_frame = bbox (vec 0 0) (vec 0 0),
                     ov_geometry = bbox (vec 0 0) (vec 0 0)\<rparr>,
      zoomAnimation = None, geometry = bbox (vec 0 0) (vec 0 0), resized = False,
      getXForm = xf\<rparr>"

text \<open>The calls the view receives: its public setters, its events and the animation's.\<close>

datatype 'a ImageView_op =
    SetImage "'a Image option"
  | SetImagePos "'a vec2" bool
  | SetImageZoom 'a bool
  | SetImageZoomFocusAt 'a "'a vec2" bool
  | SetImageZoomFocus 'a bool
  | SetImageRotate ImageRotate
  | SetImageAspectRatio ImageAspectRatio
  | ImageFill bool
  | SetImageFrame "'a bbox2"
  | ImageFrame bool
  | ImageCenter bool
  | SetLock ImageViewLock bool
  | SetGeometry "'a bbox2"
  | LayoutEvent
  | AnimationTick 'a
  | AnimationEnd

fun ImageView_step :: "'a::linordered_field ImageView_op \<Rightarrow> 'a ImageView \<Rightarrow> error + 'a ImageView" where
  "ImageView_step (SetImage v) s = setImage v s"
| "ImageView_step (SetImagePos p a) s = setImagePos p a s"
| "ImageView_step (SetImageZoom z a) s = setImageZoom z a s"
| "ImageView_step (SetImageZoomFocusAt z m a) s = setImageZoomFocusAt z m a s"
| "ImageView_step (SetImageZoomFocus z a) s = setImageZoomFocus z a s"
| "ImageView_step (SetImageRotate r) s = setImageRotate r s"
| "ImageView_step (SetImageAspectRatio r) s = setImageAspectRatio r s"
| "ImageView_step (ImageFill a) s = imageFill a s"
| "ImageView_step (SetImageFrame b) s = setImageFrame b s"
| "ImageView_step (ImageFrame a) s = imageFrame a s"
| "ImageView_step (ImageCenter a) s = imageCenter a s"
| "ImageView_step (SetLock l v) s = setLock l v s"
| "ImageView_step (SetGeometry g) s = setGeometry g s"
| "ImageView_step LayoutEvent s = layoutEvent s"
| "ImageView_step (AnimationTick v) s = animationTick v s"
| "ImageView_step AnimationEnd s = animationEnd s"

text \<open>A run: the calls in order, the first exception ending it.\<close>

fun ImageView_run :: "'a::linordered_field ImageView_op list \<Rightarrow> 'a ImageView \<Rightarrow> error + 'a ImageView" where
  "ImageView_run [] s = Inr s"
| "ImageView_run (op # ops) s = bind_sum (ImageView_step op s) (ImageView_run ops)"

text \<open>The states a view reaches from construction.\<close>

inductive ImageView_reachable :: "'a::linordered_field ImageView \<Rightarrow> bool" where
  init: "ImageView_reachable (ImageView_init xf rot ar lk)"
| step: "ImageView_reachable s \<Longrightarrow> ImageView_step op s = Inr s' \<Longrightarrow> ImageView_reachable s'"

subsection \<open>Invariant of the view state\<close>

text \<open>
  The zoom is never negative, and the overlay shows the view's position and zoom.
\<close>

definition ImageView_inv :: "'a::linordered_field ImageView \<Rightarrow> bool" where
  "ImageView_inv s \<longleftrightarrow>
     0 \<le> imageZoom s \<and> ov_pos (gridOverlay s) = imagePos s \<and> ov_zoom (gridOverlay s) = imageZoom s"

lemma length_getImagePoints: "getImagePoints s = [] \<or> length (getImagePoints s) = 4"
  by (simp add: getImagePoints_def Let_def split: option.split)

text \<open>The image points depend only on the image, its transform and orientation.\<close>

lemma getImagePoints_cong:
  "viewImage t = viewImage s \<Longrightarrow> getXForm t = getXForm s \<Longrightarrow> imageRotate t = imageRotate s \<Longrightarrow>
   imageAspectRatio t = imageAspectRatio s \<Longrightarrow> getImagePoints t = getImagePoints s"
  by (simp add: getImagePoints_def split: option.split)

lemma getImageBBox_cong:
  "viewImage t = viewImage s \<Longrightarrow> getXForm t = getXForm s \<Longrightarrow> imageRotate t = imageRotate s \<Longrightarrow>
   imageAspectRatio t = imageAspectRatio s \<Longrightarrow> getImageBBox t = getImageBBox s"
  by (simp add: getImageBBox_def getImagePoints_def split: option.split)

lemma getImageBBox_Inr: "\<exists>b. getImageBBox s = Inr b"
  using length_getImagePoints [of s] by (auto simp: getImageBBox_def getBBox_pts_def)

text \<open>Updates of the other fields leave the image points and their box alone.\<close>

lemma getImagePoints_upd [simp]:
  "getImagePoints (s\<lparr>imagePos := p\<rparr>) = getImagePoints s"
  "getImagePoints (s\<lparr>imageZoom := z\<rparr>) = getImagePoints s"
  "getImagePoints (s\<lparr>resized := r\<rparr>) = getImagePoints s"
  "getImagePoints (s\<lparr>gridOverlay := ov\<rparr>) = getImagePoints s"
  "getImagePoints (s\<lparr>zoomAnimation := an\<rparr>) = getImagePoints s"
  "getImagePoints (s\<lparr>lock := l\<rparr>) = getImagePoints s"
  "getImagePoints (s\<lparr>lockFrame := f\<rparr>) = getImagePoints s"
  "getImagePoints (s\<lparr>viewInit := vi\<rparr>) = getImagePoints s"
  "getImagePoints (s\<lparr>geometry := g\<rparr>) = getImagePoints s"
  by (simp_all add: getImagePoints_def split: option.split)

lemma getImageBBox_upd [simp]:
  "getImageBBox (s\<lparr>imagePos := p\<rparr>) = getImageBBox s"
  "getImageBBox (s\<lparr>imageZoom := z\<rparr>) = getImageBBox s"
  "getImageBBox (s\<lparr>resized := r\<rparr>) = getImageBBox s"
  "getImageBBox (s\<lparr>gridOverlay := ov\<rparr>) = getImageBBox s"
  "getImageBBox (s\<lparr>zoomAnimation := an\<rparr>) = getImageBBox s"
  "getImageBBox (s\<lparr>lock := l\<rparr>) = getImageBBox s"
  "getImageBBox (s\<lparr>lockFrame := f\<rparr>) = getImageBBox s"
  "getImageBBox (s\<lparr>viewInit := vi\<rparr>) = getImageBBox s"
  "getImageBBox (s\<lparr>geometry := g\<rparr>) = getImageBBox s"
  by (simp_all add: getImageBBox_def)

lemma setPosAndZoom_eq:
  "\<exists>b. setPosAndZoom pos zoom s =
     Inr (s\<lparr>imagePos := pos, imageZoom := max 0 zoom,
            resized := (resized s \<or> imagePos s \<noteq> pos \<or> imageZoom s \<noteq> max 0 zoom),
            gridOverlay := (gridOverlay s)\<lparr>ov_pos := pos, ov_zoom := max 0 zoom,
                                          ov_bbox := b, ov_frame := lockFrame s\<rparr>\<rparr>)"
proof -
  obtain b where b: "getImageBBox s = Inr b"
    using getImageBBox_Inr by blast
  consider "imagePos s = pos" "imageZoom s = max 0 zoom" | "imagePos s = pos" "imageZoom s \<noteq> max 0 zoom"
    | "imagePos s \<noteq> pos" "imageZoom s = max 0 zoom" | "imagePos s \<noteq> pos" "imageZoom s \<noteq> max 0 zoom"
    by blast
  then show ?thesis
  proof cases
    case 1
    show ?thesis
      using b 1 [symmetric] by (auto simp: setPosAndZoom_def Let_def)
  next
    case 2
    show ?thesis
      using b 2(1) [symmetric] 2(2) by (auto simp: setPosAndZoom_def Let_def)
  next
    case 3
    show ?thesis
      using b 3(1) 3(2) [symmetric] by (auto simp: setPosAndZoom_def Let_def)
  next
    case 4
    then show ?thesis
      using b by (auto simp: setPosAndZoom_def Let_def)
  qed
qed

lemma setPosAndZoom_inv: "setPosAndZoom pos zoom s = Inr s' \<Longrightarrow> ImageView_inv s'"
  using setPosAndZoom_eq [of pos zoom s] by (auto simp: ImageView_inv_def)

lemma setImagePosAndZoom_inv:
  "ImageView_inv s'" if "ImageView_inv s" "setImagePosAndZoom pos zoom animate s = Inr s'"
proof (cases animate)
  case True
  then show ?thesis
    using that by (auto simp: setImagePosAndZoom_def animatePosAndZoom_def ImageView_inv_def)
next
  case False
  then show ?thesis
    using that by (simp add: setImagePosAndZoom_def setPosAndZoom_inv)
qed

lemma refreshOverlay_inv:
  "ImageView_inv s \<Longrightarrow> refreshOverlay s = Inr s' \<Longrightarrow> ImageView_inv s'"
  by (auto simp: refreshOverlay_def bind_sum_eq_Inr ImageView_inv_def)

lemma imageFill_inv:
  "ImageView_inv s \<Longrightarrow> imageFill a s = Inr s' \<Longrightarrow> ImageView_inv s'"
  by (auto simp: imageFill_def Let_def bind_sum_eq_Inr intro: setImagePosAndZoom_inv
           split: option.splits)

lemma imageFrame_inv:
  "ImageView_inv s \<Longrightarrow> imageFrame a s = Inr s' \<Longrightarrow> ImageView_inv s'"
  by (auto simp: imageFrame_def Let_def bind_sum_eq_Inr intro: setImagePosAndZoom_inv
           split: option.splits)

lemma imageCenter_inv:
  "ImageView_inv s \<Longrightarrow> imageCenter a s = Inr s' \<Longrightarrow> ImageView_inv s'"
  by (auto simp: imageCenter_def Let_def intro: setImagePosAndZoom_inv split: option.splits)

lemma layoutEvent_inv:
  assumes "ImageView_inv s" and "layoutEvent s = Inr s'"
  shows "ImageView_inv s'"
proof -
  obtain s1 where s1: "(case lock s of
          LockFill \<Rightarrow> imageFill False s
        | LockFrame \<Rightarrow> imageFrame False s
        | LockCenter \<Rightarrow> imageCenter False s
        | LockNone \<Rightarrow> (if viewInit s then imageFill False s else Inr s)) = Inr s1"
    and rest: "(let s2 = (if viewInit s1 then s1\<lparr>viewInit := False\<rparr> else s1)
           in bind_sum (getImageBBox s2) (\<lambda>b.
                Inr (s2\<lparr>gridOverlay := (gridOverlay s2)\<lparr>ov_geometry := geometry s2, ov_bbox := b,
                                                         ov_frame := lockFrame s2\<rparr>\<rparr>))) = Inr s'"
    using assms(2) unfolding layoutEvent_def bind_sum_eq_Inr by blast
  have "ImageView_inv s1"
    using s1 assms(1) by (cases "lock s") (auto intro: imageFill_inv imageFrame_inv imageCenter_inv
      split: if_splits)
  then show ?thesis
    using rest by (auto simp: Let_def bind_sum_eq_Inr ImageView_inv_def split: if_splits)
qed

lemma ImageView_inv_step:
  assumes "ImageView_inv s" and "ImageView_step op s = Inr s'"
  shows "ImageView_inv s'"
  using assms
proof (cases op)
  case (SetImage v)
  with assms show ?thesis
    by (auto simp: setImage_def Let_def ImageView_inv_def refreshOverlay_def bind_sum_eq_Inr
             split: if_splits)
next
  case (SetImagePos p a)
  with assms show ?thesis
    by (auto simp: setImagePos_def intro: setImagePosAndZoom_inv)
next
  case (SetImageZoom z a)
  with assms show ?thesis
    by (auto simp: setImageZoom_def intro: setImagePosAndZoom_inv)
next
  case (SetImageZoomFocusAt z m a)
  with assms show ?thesis
    by (auto simp: setImageZoomFocusAt_def bind_sum_eq_Inr intro: setImagePosAndZoom_inv)
next
  case (SetImageZoomFocus z a)
  with assms show ?thesis
    by (auto simp: setImageZoomFocus_def setImageZoomFocusAt_def bind_sum_eq_Inr
             intro: setImagePosAndZoom_inv)
next
  case (SetImageRotate r)
  with assms show ?thesis
    by (auto simp: setImageRotate_def ImageView_inv_def refreshOverlay_def bind_sum_eq_Inr
             split: if_splits)
next
  case (SetImageAspectRatio r)
  with assms show ?thesis
    by (auto simp: setImageAspectRatio_def ImageView_inv_def refreshOverlay_def bind_sum_eq_Inr
             split: if_splits option.splits)
next
  case (ImageFill a)
  with assms show ?thesis
    by (simp add: imageFill_inv)
next
  case (SetImageFrame b)
  with assms show ?thesis
    by (auto simp: setImageFrame_def ImageView_inv_def)
next
  case (ImageFrame a)
  with assms show ?thesis
    by (simp add: imageFrame_inv)
next
  case (ImageCenter a)
  with assms show ?thesis
    by (simp add: imageCenter_inv)
next
  case (SetLock l v)
  with assms show ?thesis
    by (auto simp: setLock_def ImageView_inv_def)
next
  case (SetGeometry g)
  with assms show ?thesis
    by (auto simp: setGeometry_def ImageView_inv_def)
next
  case LayoutEvent
  with assms show ?thesis
    by (simp add: layoutEvent_inv)
next
  case (AnimationTick v)
  with assms show ?thesis
    by (auto simp: animationTick_def intro: setPosAndZoom_inv split: option.splits)
next
  case AnimationEnd
  with assms show ?thesis
    by (auto simp: animationEnd_def intro: setPosAndZoom_inv split: option.splits)
qed

text \<open>
  C19. In every state the view reaches from construction, through any sequence of
  setters, layouts and animation ticks, the zoom is not negative and the grid overlay
  shows the view's position and zoom.
\<close>

theorem ImageView_reachable_inv: "ImageView_reachable s \<Longrightarrow> ImageView_inv s"
proof (induction rule: ImageView_reachable.induct)
  case (init xf rot ar)
  then show ?case
    by (simp add: ImageView_inv_def ImageView_init_def)
next
  case (step s op s')
  then show ?case
    using ImageView_inv_step by blast
qed

theorem ImageView_reachable_inv_witness:
  "ImageView_reachable (ImageView_init (\<lambda>i r a v. v) Rotate_0 Unscaled LockNone :: rat ImageView) \<and> ImageView_inv (ImageView_init (\<lambda>i r a v. v) Rotate_0 Unscaled LockNone :: rat ImageView)"
  using ImageView_reachable_inv [OF ImageView_reachable.init [of "\<lambda>i r a v. v" Rotate_0 Unscaled LockNone]]
  by (simp add: ImageView_reachable.init)

lemma ImageView_run_reachable:
  "ImageView_reachable s \<Longrightarrow> ImageView_run ops s = Inr s' \<Longrightarrow> ImageView_reachable s'"
  by (induction ops arbitrary: s) (auto simp: bind_sum_eq_Inr intro: ImageView_reachable.step)

lemma fill_zoom_fits:
  assumes "0 < gw" "0 < gh" "0 < w" "0 < h"
  shows "\<exists>z. fill_zoom gw gh w h = Fin z \<and> 0 < z \<and> z * w \<le> gw \<and> z * h \<le> gh \<and> (z * w = gw \<or> z * h = gh)"
proof (cases "gh < gw / w * h")
  case True
  have "gh / h * w < gw"
    using True assms by (simp add: field_simps)
  with True assms show ?thesis
    by (auto simp: fill_zoom_def fdiv_def Let_def less_imp_le)
next
  case False
  with assms show ?thesis
    by (auto simp: fill_zoom_def fdiv_def Let_def not_less)
qed

lemma setPosAndZoom_pos_zoom:
  "\<exists>s'. setPosAndZoom pos zoom s = Inr s' \<and> imagePos s' = pos \<and> imageZoom s' = max 0 zoom"
  using setPosAndZoom_eq [of pos zoom s] by auto

lemma animationTick_keeps:
  "zoomAnimation s = Some a \<Longrightarrow> \<exists>s'. animationTick v s = Inr s' \<and> zoomAnimation s' = Some a"
  using setPosAndZoom_eq by (fastforce simp: animationTick_def)

lemma run_ticks_end:
  assumes "zoomAnimation s = Some a"
  shows "\<exists>s'. ImageView_run (map AnimationTick ts @ [AnimationEnd]) s = Inr s' \<and>
           imagePos s' = posTo a \<and> imageZoom s' = max 0 (zoomTo a) \<and> zoomAnimation s' = None"
  using assms
proof (induction ts arbitrary: s)
  case Nil
  then show ?case
    using setPosAndZoom_eq [of "posTo a" "zoomTo a" "s\<lparr>zoomAnimation := None\<rparr>"]
    by (auto simp: animationEnd_def)
next
  case (Cons t ts)
  obtain s1 where "animationTick t s = Inr s1" "zoomAnimation s1 = Some a"
    using animationTick_keeps [OF Cons.prems] by blast
  with Cons.IH show ?case
    by simp
qed

lemma refreshOverlay_keeps:
  "\<exists>s'. refreshOverlay s = Inr s' \<and> imagePos s' = imagePos s \<and> imageZoom s' = imageZoom s \<and>
        viewInit s' = viewInit s \<and> lock s' = lock s \<and> viewImage s' = viewImage s"
  using getImageBBox_Inr [of s] by (auto simp: refreshOverlay_def)

lemma setImage_keeps:
  "\<exists>s'. setImage img s = Inr s' \<and> imagePos s' = imagePos s \<and> imageZoom s' = imageZoom s \<and>
        viewInit s' = viewInit s \<and> lock s' = lock s \<and>
        (viewImage s = None \<longrightarrow> viewImage s' = img)"
proof (cases "map_option image_ptr (viewImage s) \<noteq> map_option image_ptr img")
  case True
  let ?ar = "case img of None \<Rightarrow> (1, 1) | Some i \<Rightarrow> (aspectRatio i, pixelAspectRatio i)"
  let ?s1 = "s\<lparr>viewImage := img, gridOverlay := (gridOverlay s)\<lparr>ov_aspect := (imageAspectRatio s, fst ?ar, snd ?ar)\<rparr>\<rparr>"
  obtain s' where "refreshOverlay ?s1 = Inr s'" "imagePos s' = imagePos s" "imageZoom s' = imageZoom s"
    "viewInit s' = viewInit s" "lock s' = lock s" "viewImage s' = img"
    using refreshOverlay_keeps [of ?s1] by auto
  with True show ?thesis
    by (auto simp: setImage_def Let_def)
next
  case False
  then show ?thesis
    by (cases img) (auto simp: setImage_def)
qed

lemma layoutEvent_no_image:
  "viewImage s = None \<Longrightarrow>
   \<exists>s'. layoutEvent s = Inr s' \<and> imagePos s' = imagePos s \<and> imageZoom s' = imageZoom s \<and>
        \<not> viewInit s' \<and> lock s' = lock s \<and> viewImage s' = None"
  using getImageBBox_Inr [of s]
  by (auto simp: layoutEvent_def imageFill_def imageFrame_def imageCenter_def split: ImageViewLock.split)

lemma layoutEvent_unlocked_after_init:
  "lock s = LockNone \<Longrightarrow> \<not> viewInit s \<Longrightarrow>
   \<exists>s'. layoutEvent s = Inr s' \<and> imagePos s' = imagePos s \<and> imageZoom s' = imageZoom s \<and>
        \<not> viewInit s' \<and> viewImage s' = viewImage s"
  using getImageBBox_Inr [of s] by (auto simp: layoutEvent_def)

lemma setImagePos_keeps_animation:
  "\<exists>s'. setImagePos p False s = Inr s' \<and> zoomAnimation s' = zoomAnimation s"
  using setPosAndZoom_eq [of p "imageZoom s" s] by (auto simp: setImagePos_def setImagePosAndZoom_def)

text \<open>
  C20. Zooming about a point (setImageZoomFocus with a mouse position in widget
  coordinates) from a positive zoom to a positive zoom keeps the image point under that
  position where it is, and sets the zoom asked for.
\<close>

theorem setImageZoomFocusAt_keeps_point:
  assumes "0 < imageZoom s" "0 < zv"
    and "paintXForm s q = vec (vx (bmin (geometry s)) + vx mouse) (vy (bmin (geometry s)) + vy mouse)"
  shows "\<exists>s'. setImageZoomFocusAt zv mouse False s = Inr s' \<and> imageZoom s' = zv \<and>
              paintXForm s' q = paintXForm s q"
proof -
  let ?k = "zv / imageZoom s"
  let ?p = "vec (vx mouse + (vx (imagePos s) - vx mouse) * ?k) (vy mouse + (vy (imagePos s) - vy mouse) * ?k)"
  obtain s' where s': "setPosAndZoom ?p zv s = Inr s'" "imagePos s' = ?p" "imageZoom s' = zv"
    using setPosAndZoom_pos_zoom [of ?p zv s] assms(2) by auto
  have g: "geometry s' = geometry s"
    using setPosAndZoom_eq [of ?p zv s] s'(1) by auto
  have qx: "imageZoom s * vx q = vx mouse - vx (imagePos s)" and qy: "imageZoom s * vy q = vy mouse - vy (imagePos s)"
    using assms(3) by (simp_all add: paintXForm_def algebra_simps)
  have "vx (imagePos s) - vx mouse = - (imageZoom s * vx q)" "vy (imagePos s) - vy mouse = - (imageZoom s * vy q)"
    using qx qy by simp_all
  then have "(vx (imagePos s) - vx mouse) * ?k = - (zv * vx q)" "(vy (imagePos s) - vy mouse) * ?k = - (zv * vy q)"
    using assms(1) by simp_all
  then have "vx mouse + (vx (imagePos s) - vx mouse) * ?k + zv * vx q = vx mouse"
    "vy mouse + (vy (imagePos s) - vy mouse) * ?k + zv * vy q = vy mouse"
    by simp_all
  then have "paintXForm s' q = paintXForm s q"
    using assms(3) s'(2,3) g by (simp add: paintXForm_def add.assoc)
  moreover have "setImageZoomFocusAt zv mouse False s = Inr s'"
    using assms(1) s'(1) by (simp add: setImageZoomFocusAt_def fdiv_def setImagePosAndZoom_def)
  ultimately show ?thesis
    using s'(3) by blast
qed

theorem setImageZoomFocusAt_keeps_point_witness:
  "\<exists>s'. setImageZoomFocusAt (2::rat) (vec 10 20) False (ImageView_init (\<lambda>i r a v. v) Rotate_0 Unscaled LockNone) = Inr s' \<and>
        imageZoom s' = 2 \<and>
        paintXForm s' (vec 10 20) = paintXForm (ImageView_init (\<lambda>i r a v. v) Rotate_0 Unscaled LockNone) (vec 10 20)"
  by (rule setImageZoomFocusAt_keeps_point) (simp_all add: ImageView_init_def paintXForm_def)

text \<open>
  C21. Zooming about the widget centre (setImageZoomFocus without a position) passes the
  centre in window coordinates, while the focus is taken relative to the widget: from a
  positive zoom z to a positive zoom z', the image point shown at the widget's centre c
  moves to c + (1 - z'/z) * corner, where corner is the widget's top-left corner in the
  window.  It stays at the centre only when the zoom is unchanged or the widget sits
  at the window origin.
\<close>

theorem setImageZoomFocus_widget_offset:
  assumes "0 < imageZoom s" "0 < zv" and "paintXForm s q = getCenter (geometry s)"
  shows "\<exists>s'. setImageZoomFocus zv False s = Inr s' \<and>
              paintXForm s' q = vec (vx (getCenter (geometry s)) + (1 - zv / imageZoom s) * vx (bmin (geometry s)))
                                    (vy (getCenter (geometry s)) + (1 - zv / imageZoom s) * vy (bmin (geometry s)))"
proof -
  let ?c = "getCenter (geometry s)" and ?b = "bmin (geometry s)" and ?k = "zv / imageZoom s"
  let ?p = "vec (vx ?c + (vx (imagePos s) - vx ?c) * ?k) (vy ?c + (vy (imagePos s) - vy ?c) * ?k)"
  obtain s' where s': "setPosAndZoom ?p zv s = Inr s'" "imagePos s' = ?p" "imageZoom s' = zv"
    using setPosAndZoom_pos_zoom [of ?p zv s] assms(2) by auto
  have g: "geometry s' = geometry s"
    using setPosAndZoom_eq [of ?p zv s] s'(1) by auto
  have run: "setImageZoomFocus zv False s = Inr s'"
    using assms(1) s'(1) by (simp add: setImageZoomFocus_def setImageZoomFocusAt_def fdiv_def setImagePosAndZoom_def)
  have qx: "imageZoom s * vx q = vx ?c - vx ?b - vx (imagePos s)"
    and qy: "imageZoom s * vy q = vy ?c - vy ?b - vy (imagePos s)"
    using arg_cong [OF assms(3), of vx] arg_cong [OF assms(3), of vy]
    by (simp_all add: paintXForm_def algebra_simps)
  have "zv * vx q = ?k * (vx ?c - vx ?b - vx (imagePos s))" "zv * vy q = ?k * (vy ?c - vy ?b - vy (imagePos s))"
    using assms(1) by (simp_all add: qx [symmetric] qy [symmetric])
  then have "paintXForm s' q = vec (vx ?c + (1 - ?k) * vx ?b) (vy ?c + (1 - ?k) * vy ?b)"
    using s'(2,3) g by (simp add: paintXForm_def algebra_simps)
  with run show ?thesis
    by blast
qed

theorem setImageZoomFocus_widget_offset_witness:
  "0 < imageZoom ((ImageView_init (\<lambda>i r a v. v) Rotate_0 Unscaled LockNone :: rat ImageView)\<lparr>geometry := bbox (vec 100 0) (vec 300 200)\<rparr>) \<and> paintXForm ((ImageView_init (\<lambda>i r a v. v) Rotate_0 Unscaled LockNone :: rat ImageView)\<lparr>geometry := bbox (vec 100 0) (vec 300 200)\<rparr>) (vec 100 100) = getCenter (geometry ((ImageView_init (\<lambda>i r a v. v) Rotate_0 Unscaled LockNone :: rat ImageView)\<lparr>geometry := bbox (vec 100 0) (vec 300 200)\<rparr>)) \<and>
   (\<exists>s'. setImageZoomFocus 2 False ((ImageView_init (\<lambda>i r a v. v) Rotate_0 Unscaled LockNone :: rat ImageView)\<lparr>geometry := bbox (vec 100 0) (vec 300 200)\<rparr>) = Inr s' \<and> paintXForm s' (vec 100 100) = vec 100 100)"
proof -
  have h: "0 < imageZoom ((ImageView_init (\<lambda>i r a v. v) Rotate_0 Unscaled LockNone :: rat ImageView)\<lparr>geometry := bbox (vec 100 0) (vec 300 200)\<rparr>)" "paintXForm ((ImageView_init (\<lambda>i r a v. v) Rotate_0 Unscaled LockNone :: rat ImageView)\<lparr>geometry := bbox (vec 100 0) (vec 300 200)\<rparr>) (vec 100 100) = getCenter (geometry ((ImageView_init (\<lambda>i r a v. v) Rotate_0 Unscaled LockNone :: rat ImageView)\<lparr>geometry := bbox (vec 100 0) (vec 300 200)\<rparr>))"
    by (simp_all add: ImageView_init_def paintXForm_def getCenter_def)
  have "\<exists>s'. setImageZoomFocus 2 False ((ImageView_init (\<lambda>i r a v. v) Rotate_0 Unscaled LockNone :: rat ImageView)\<lparr>geometry := bbox (vec 100 0) (vec 300 200)\<rparr>) = Inr s' \<and>
          paintXForm s' (vec 100 100) = vec (vx (getCenter (geometry ((ImageView_init (\<lambda>i r a v. v) Rotate_0 Unscaled LockNone :: rat ImageView)\<lparr>geometry := bbox (vec 100 0) (vec 300 200)\<rparr>))) + (1 - 2 / imageZoom ((ImageView_init (\<lambda>i r a v. v) Rotate_0 Unscaled LockNone :: rat ImageView)\<lparr>geometry := bbox (vec 100 0) (vec 300 200)\<rparr>)) * vx (bmin (geometry ((ImageView_init (\<lambda>i r a v. v) Rotate_0 Unscaled LockNone :: rat ImageView)\<lparr>geometry := bbox (vec 100 0) (vec 300 200)\<rparr>))))
                                         (vy (getCenter (geometry ((ImageView_init (\<lambda>i r a v. v) Rotate_0 Unscaled LockNone :: rat ImageView)\<lparr>geometry := bbox (vec 100 0) (vec 300 200)\<rparr>))) + (1 - 2 / imageZoom ((ImageView_init (\<lambda>i r a v. v) Rotate_0 Unscaled LockNone :: rat ImageView)\<lparr>geometry := bbox (vec 100 0) (vec 300 200)\<rparr>)) * vy (bmin (geometry ((ImageView_init (\<lambda>i r a v. v) Rotate_0 Unscaled LockNone :: rat ImageView)\<lparr>geometry := bbox (vec 100 0) (vec 300 200)\<rparr>))))"
    by (rule setImageZoomFocus_widget_offset [OF h(1) _ h(2)]) simp
  then show ?thesis
    using h by (simp add: ImageView_init_def getCenter_def)
qed

text \<open>
  C22. The zoom is clamped at 0, not above it; from a zero zoom, zooming about a point
  divides by zero and the new position is not finite.
\<close>

theorem setImageZoomFocusAt_zero_zoom:
  "imageZoom s = 0 \<Longrightarrow> setImageZoomFocusAt zv mouse animate s = Inl NonFinite"
  by (simp add: setImageZoomFocusAt_def fdiv_def)

theorem setImageZoomFocusAt_zero_zoom_witness:
  "imageZoom ((ImageView_init (\<lambda>i r a v. v) Rotate_0 Unscaled LockNone :: rat ImageView)\<lparr>imageZoom := 0\<rparr>) = 0 \<and>
   setImageZoomFocusAt 2 (vec 10 10) False ((ImageView_init (\<lambda>i r a v. v) Rotate_0 Unscaled LockNone :: rat ImageView)\<lparr>imageZoom := 0\<rparr>) = Inl NonFinite"
  using setImageZoomFocusAt_zero_zoom [of "(ImageView_init (\<lambda>i r a v. v) Rotate_0 Unscaled LockNone :: rat ImageView)\<lparr>imageZoom := 0\<rparr>" 2 "vec 10 10" False] by simp

text \<open>A zero zoom is reachable: \<open>setImageZoom(-1)\<close> stores 0.\<close>

lemma zero_zoom_reachable:
  "ImageView_run [SetImageZoom (-1) False, SetImageZoomFocusAt 2 (vec 10 10) False]
     (ImageView_init (\<lambda>i r a v. v) Rotate_0 Unscaled LockNone :: rat ImageView) = Inl NonFinite"
  by (simp add: setImageZoom_def setImagePosAndZoom_def setPosAndZoom_def getImageBBox_def
      getImagePoints_def getBBox_pts_def ImageView_init_def setImageZoomFocusAt_def fdiv_def)

text \<open>
  C23. imageFill on an image with a non-degenerate bounding box, in a widget of positive
  size, chooses a zoom at which the box fits the widget and touches it on one axis, and
  puts the image centre at the widget centre.
\<close>

theorem imageFill_fits:
  assumes "viewImage s = Some img" and "getBBox_pts (getImagePoints s) = Inr bb"
    and "0 < bw bb" "0 < bh bb" "0 < bw (geometry s)" "0 < bh (geometry s)"
  shows "\<exists>s'. imageFill False s = Inr s' \<and>
           imageZoom s' * bw bb \<le> bw (geometry s) \<and> imageZoom s' * bh bb \<le> bh (geometry s) \<and>
           (imageZoom s' * bw bb = bw (geometry s) \<or> imageZoom s' * bh bb = bh (geometry s)) \<and>
           vx (imagePos s') + imageZoom s' * vx (getCenter_pts (getImagePoints s)) = bw (geometry s) / 2 \<and>
           vy (imagePos s') + imageZoom s' * vy (getCenter_pts (getImagePoints s)) = bh (geometry s) / 2"
proof -
  let ?g = "geometry s" and ?c = "getCenter_pts (getImagePoints s)"
  obtain z where z: "fill_zoom (bw ?g) (bh ?g) (bw bb) (bh bb) = Fin z" "0 < z"
    "z * bw bb \<le> bw ?g" "z * bh bb \<le> bh ?g" "z * bw bb = bw ?g \<or> z * bh bb = bh ?g"
    using fill_zoom_fits [OF assms(5,6,3,4)] by blast
  let ?p = "vec (bw ?g / 2 - vx ?c * z) (bh ?g / 2 - vy ?c * z)"
  obtain s' where s': "setPosAndZoom ?p z s = Inr s'" "imagePos s' = ?p" "imageZoom s' = z"
    using setPosAndZoom_pos_zoom [of ?p z s] z(2) by auto
  have "imageFill False s = Inr s'"
    using assms(1,2) z(1) s'(1) by (simp add: imageFill_def Let_def setImagePosAndZoom_def)
  then show ?thesis
    using z s'(2,3) by (auto simp: mult.commute)
qed

text \<open>
  C24. imageFrame fits the image box into the lock frame and shows the image centre at
  the centre of the frame, whatever the widget's own position.
\<close>

theorem imageFrame_centres:
  assumes "viewImage s = Some img" and "getBBox_pts (getImagePoints s) = Inr bb"
    and "0 < bw bb" "0 < bh bb" "0 < bw (lockFrame s)" "0 < bh (lockFrame s)"
  shows "\<exists>s'. imageFrame False s = Inr s' \<and>
           imageZoom s' * bw bb \<le> bw (lockFrame s) \<and> imageZoom s' * bh bb \<le> bh (lockFrame s) \<and>
           paintXForm s' (getCenter_pts (getImagePoints s)) = getCenter (lockFrame s)"
proof -
  let ?g = "geometry s" and ?f = "lockFrame s" and ?c = "getCenter_pts (getImagePoints s)"
  obtain z where z: "fill_zoom (bw ?f) (bh ?f) (bw bb) (bh bb) = Fin z" "0 < z"
    "z * bw bb \<le> bw ?f" "z * bh bb \<le> bh ?f"
    using fill_zoom_fits [OF assms(5,6,3,4)] by blast
  let ?p = "vec ((vx (bmin ?f) - vx (bmin ?g)) + bw ?f / 2 - vx ?c * z)
                 ((vy (bmin ?f) - vy (bmin ?g)) + bh ?f / 2 - vy ?c * z)"
  obtain s' where s': "setPosAndZoom ?p z s = Inr s'" "imagePos s' = ?p" "imageZoom s' = z"
    using setPosAndZoom_pos_zoom [of ?p z s] z(2) by auto
  have g: "geometry s' = geometry s"
    using setPosAndZoom_eq [of ?p z s] s'(1) by auto
  have "imageFrame False s = Inr s'"
    using assms(1,2) z(1) s'(1) by (simp add: imageFrame_def Let_def setImagePosAndZoom_def)
  moreover have "paintXForm s' ?c = getCenter ?f"
    using s'(2,3) g by (simp add: paintXForm_def getCenter_def bw_def bh_def field_simps)
  ultimately show ?thesis
    using z s'(3) by (auto simp: mult.commute)
qed

lemma getBBox_pts_Nil: "getBBox_pts [] = Inr (bbox (vec 0 0) (vec 0 0))"
  by (simp add: getBBox_pts_def)

lemma length_four_cases:
  assumes "length ps = 4" obtains a b c d where "ps = [a, b, c, d]"
  using assms by (auto simp: length_Suc_conv eval_nat_numeral)

lemma getBBox_pts_four:
  "getBBox_pts [a, b, c, d] =
     Inr (bbox (vec (min (min (min (vx a) (vx b)) (vx c)) (vx d)) (min (min (min (vy a) (vy b)) (vy c)) (vy d)))
               (vec (max (max (max (vx a) (vx b)) (vx c)) (vx d)) (max (max (max (vy a) (vy b)) (vy c)) (vy d))))"
  by (simp add: getBBox_pts_def upt_rec)

text \<open>
  C25. getImageBBox, whose loop reads exactly four points, computes the reference
  bounding box of the image points: the smallest box holding the four transformed
  corners, or the empty box at the origin when there is no image.
\<close>

theorem getImageBBox_reference:
  "getImageBBox s = (if getImagePoints s = [] then Inr (bbox (vec 0 0) (vec 0 0)) else Inr (points_bbox (getImagePoints s)))"
proof (cases "getImagePoints s = []")
  case True
  then show ?thesis by (simp add: getImageBBox_def getBBox_pts_Nil)
next
  case False
  then have "length (getImagePoints s) = 4" using length_getImagePoints by blast
  then obtain a b c d where ps: "getImagePoints s = [a, b, c, d]" by (rule length_four_cases)
  show ?thesis
    by (simp add: getImageBBox_def ps getBBox_pts_four points_bbox_def min.assoc max.assoc)
qed

theorem imageFill_fits_witness:
  "\<exists>s'. imageFill False ((ImageView_init (\<lambda>i r a v. v) Rotate_0 Unscaled LockNone :: rat ImageView)\<lparr>viewImage := Some \<lparr>image_ptr = 1, size_w = 4, size_h = 2, aspectRatio = 2, pixelAspectRatio = 1\<rparr>, geometry := bbox (vec 0 0) (vec 100 100), lockFrame := bbox (vec 10 10) (vec 50 30)\<rparr>) = Inr s' \<and>
     imageZoom s' * bw (bbox (vec 0 0) (vec 4 2)) \<le> bw (geometry ((ImageView_init (\<lambda>i r a v. v) Rotate_0 Unscaled LockNone :: rat ImageView)\<lparr>viewImage := Some \<lparr>image_ptr = 1, size_w = 4, size_h = 2, aspectRatio = 2, pixelAspectRatio = 1\<rparr>, geometry := bbox (vec 0 0) (vec 100 100), lockFrame := bbox (vec 10 10) (vec 50 30)\<rparr>)) \<and>
     imageZoom s' * bh (bbox (vec 0 0) (vec 4 2)) \<le> bh (geometry ((ImageView_init (\<lambda>i r a v. v) Rotate_0 Unscaled LockNone :: rat ImageView)\<lparr>viewImage := Some \<lparr>image_ptr = 1, size_w = 4, size_h = 2, aspectRatio = 2, pixelAspectRatio = 1\<rparr>, geometry := bbox (vec 0 0) (vec 100 100), lockFrame := bbox (vec 10 10) (vec 50 30)\<rparr>)) \<and>
     (imageZoom s' * bw (bbox (vec 0 0) (vec 4 2)) = bw (geometry ((ImageView_init (\<lambda>i r a v. v) Rotate_0 Unscaled LockNone :: rat ImageView)\<lparr>viewImage := Some \<lparr>image_ptr = 1, size_w = 4, size_h = 2, aspectRatio = 2, pixelAspectRatio = 1\<rparr>, geometry := bbox (vec 0 0) (vec 100 100), lockFrame := bbox (vec 10 10) (vec 50 30)\<rparr>)) \<or>
      imageZoom s' * bh (bbox (vec 0 0) (vec 4 2)) = bh (geometry ((ImageView_init (\<lambda>i r a v. v) Rotate_0 Unscaled LockNone :: rat ImageView)\<lparr>viewImage := Some \<lparr>image_ptr = 1, size_w = 4, size_h = 2, aspectRatio = 2, pixelAspectRatio = 1\<rparr>, geometry := bbox (vec 0 0) (vec 100 100), lockFrame := bbox (vec 10 10) (vec 50 30)\<rparr>))) \<and>
     vx (imagePos s') + imageZoom s' * vx (getCenter_pts (getImagePoints ((ImageView_init (\<lambda>i r a v. v) Rotate_0 Unscaled LockNone :: rat ImageView)\<lparr>viewImage := Some \<lparr>image_ptr = 1, size_w = 4, size_h = 2, aspectRatio = 2, pixelAspectRatio = 1\<rparr>, geometry := bbox (vec 0 0) (vec 100 100), lockFrame := bbox (vec 10 10) (vec 50 30)\<rparr>))) = bw (geometry ((ImageView_init (\<lambda>i r a v. v) Rotate_0 Unscaled LockNone :: rat ImageView)\<lparr>viewImage := Some \<lparr>image_ptr = 1, size_w = 4, size_h = 2, aspectRatio = 2, pixelAspectRatio = 1\<rparr>, geometry := bbox (vec 0 0) (vec 100 100), lockFrame := bbox (vec 10 10) (vec 50 30)\<rparr>)) / 2 \<and>
     vy (imagePos s') + imageZoom s' * vy (getCenter_pts (getImagePoints ((ImageView_init (\<lambda>i r a v. v) Rotate_0 Unscaled LockNone :: rat ImageView)\<lparr>viewImage := Some \<lparr>image_ptr = 1, size_w = 4, size_h = 2, aspectRatio = 2, pixelAspectRatio = 1\<rparr>, geometry := bbox (vec 0 0) (vec 100 100), lockFrame := bbox (vec 10 10) (vec 50 30)\<rparr>))) = bh (geometry ((ImageView_init (\<lambda>i r a v. v) Rotate_0 Unscaled LockNone :: rat ImageView)\<lparr>viewImage := Some \<lparr>image_ptr = 1, size_w = 4, size_h = 2, aspectRatio = 2, pixelAspectRatio = 1\<rparr>, geometry := bbox (vec 0 0) (vec 100 100), lockFrame := bbox (vec 10 10) (vec 50 30)\<rparr>)) / 2"
  by (rule imageFill_fits [of _ "\<lparr>image_ptr = 1, size_w = 4, size_h = 2, aspectRatio = 2, pixelAspectRatio = 1\<rparr>"])
     (simp_all add: ImageView_init_def getImagePoints_def getBBox_pts_four bw_def bh_def)

theorem imageFrame_centres_witness:
  "\<exists>s'. imageFrame False ((ImageView_init (\<lambda>i r a v. v) Rotate_0 Unscaled LockNone :: rat ImageView)\<lparr>viewImage := Some \<lparr>image_ptr = 1, size_w = 4, size_h = 2, aspectRatio = 2, pixelAspectRatio = 1\<rparr>, geometry := bbox (vec 0 0) (vec 100 100), lockFrame := bbox (vec 10 10) (vec 50 30)\<rparr>) = Inr s' \<and>
     imageZoom s' * bw (bbox (vec 0 0) (vec 4 2)) \<le> bw (lockFrame ((ImageView_init (\<lambda>i r a v. v) Rotate_0 Unscaled LockNone :: rat ImageView)\<lparr>viewImage := Some \<lparr>image_ptr = 1, size_w = 4, size_h = 2, aspectRatio = 2, pixelAspectRatio = 1\<rparr>, geometry := bbox (vec 0 0) (vec 100 100), lockFrame := bbox (vec 10 10) (vec 50 30)\<rparr>)) \<and>
     imageZoom s' * bh (bbox (vec 0 0) (vec 4 2)) \<le> bh (lockFrame ((ImageView_init (\<lambda>i r a v. v) Rotate_0 Unscaled LockNone :: rat ImageView)\<lparr>viewImage := Some \<lparr>image_ptr = 1, size_w = 4, size_h = 2, aspectRatio = 2, pixelAspectRatio = 1\<rparr>, geometry := bbox (vec 0 0) (vec 100 100), lockFrame := bbox (vec 10 10) (vec 50 30)\<rparr>)) \<and>
     paintXForm s' (getCenter_pts (getImagePoints ((ImageView_init (\<lambda>i r a v. v) Rotate_0 Unscaled LockNone :: rat ImageView)\<lparr>viewImage := Some \<lparr>image_ptr = 1, size_w = 4, size_h = 2, aspectRatio = 2, pixelAspectRatio = 1\<rparr>, geometry := bbox (vec 0 0) (vec 100 100), lockFrame := bbox (vec 10 10) (vec 50 30)\<rparr>))) = getCenter (lockFrame ((ImageView_init (\<lambda>i r a v. v) Rotate_0 Unscaled LockNone :: rat ImageView)\<lparr>viewImage := Some \<lparr>image_ptr = 1, size_w = 4, size_h = 2, aspectRatio = 2, pixelAspectRatio = 1\<rparr>, geometry := bbox (vec 0 0) (vec 100 100), lockFrame := bbox (vec 10 10) (vec 50 30)\<rparr>))"
  by (rule imageFrame_centres [of _ "\<lparr>image_ptr = 1, size_w = 4, size_h = 2, aspectRatio = 2, pixelAspectRatio = 1\<rparr>"])
     (simp_all add: ImageView_init_def getImagePoints_def getBBox_pts_four bw_def bh_def)

text \<open>
  C26. An animated setImagePosAndZoom, followed by any sequence of animation ticks and the
  end of the animation, leaves the view at the requested position and the clamped
  requested zoom, with no animation running: the same position and zoom as the
  immediate call.
\<close>

theorem animation_end_reaches_target:
  assumes "setImagePosAndZoom pos zoom True s = Inr s1"
  shows "\<exists>s2. ImageView_run (map AnimationTick ts @ [AnimationEnd]) s1 = Inr s2 \<and>
           imagePos s2 = pos \<and> imageZoom s2 = max 0 zoom \<and> zoomAnimation s2 = None"
proof -
  have "zoomAnimation s1 = Some \<lparr>posPrev = imagePos s, zoomPrev = imageZoom s, posTo = pos, zoomTo = zoom\<rparr>"
    using assms by (auto simp: setImagePosAndZoom_def animatePosAndZoom_def)
  from run_ticks_end [OF this, of ts] show ?thesis
    by simp
qed

theorem animation_end_reaches_target_witness:
  "\<exists>s2. ImageView_run (map AnimationTick [1/2, 3/4] @ [AnimationEnd])
          ((ImageView_init (\<lambda>i r a v. v) Rotate_0 Unscaled LockNone :: rat ImageView)\<lparr>zoomAnimation := Some \<lparr>posPrev = vec 0 0, zoomPrev = 1, posTo = vec 5 5, zoomTo = 2\<rparr>\<rparr>) = Inr s2 \<and>
        imagePos s2 = vec 5 5 \<and> imageZoom s2 = max 0 2 \<and> zoomAnimation s2 = None"
  by (rule animation_end_reaches_target [of _ _ "(ImageView_init (\<lambda>i r a v. v) Rotate_0 Unscaled LockNone :: rat ImageView)"])
     (simp add: setImagePosAndZoom_def animatePosAndZoom_def ImageView_init_def)

lemmas ImageView_eval =
  ImageView_init_def setImage_def refreshOverlay_def setImagePos_def setImageZoom_def
  setImagePosAndZoom_def setPosAndZoom_def animatePosAndZoom_def animationEnd_def animationTick_def
  getImageBBox_def getImagePoints_def getBBox_pts_Nil getBBox_pts_four setGeometry_def layoutEvent_def imageFill_def
  getCenter_pts_def fill_zoom_def fdiv_def bw_def bh_def setImageAspectRatio_def

text \<open>
  C27. A position set without animation while a zoom animation runs is undone when the
  animation ends: whatever position is set and whatever ticks follow, the end callback
  stores the target position and zoom the animation captured when it started.
\<close>

theorem animation_overrides_pan:
  assumes "zoomAnimation s = Some a"
  shows "\<exists>s'. ImageView_run (SetImagePos p False # map AnimationTick ts @ [AnimationEnd]) s = Inr s' \<and>
              imagePos s' = posTo a \<and> imageZoom s' = max 0 (zoomTo a)"
proof -
  obtain s1 where s1: "setImagePos p False s = Inr s1" "zoomAnimation s1 = Some a"
    using setImagePos_keeps_animation [of p s] assms by auto
  from run_ticks_end [OF s1(2), of ts] s1(1) show ?thesis
    by auto
qed

theorem animation_overrides_pan_witness:
  "zoomAnimation ((ImageView_init (\<lambda>i r a v. v) Rotate_0 Unscaled LockNone :: rat ImageView)\<lparr>zoomAnimation := Some \<lparr>posPrev = vec 0 0, zoomPrev = 1, posTo = vec 0 0, zoomTo = 2\<rparr>\<rparr>)
     = Some \<lparr>posPrev = vec 0 0, zoomPrev = 1, posTo = vec 0 0, zoomTo = 2\<rparr> \<and>
   (\<exists>s'. ImageView_run (SetImagePos (vec 50 50) False # map AnimationTick [1/2] @ [AnimationEnd])
          ((ImageView_init (\<lambda>i r a v. v) Rotate_0 Unscaled LockNone :: rat ImageView)\<lparr>zoomAnimation := Some \<lparr>posPrev = vec 0 0, zoomPrev = 1, posTo = vec 0 0, zoomTo = 2\<rparr>\<rparr>) = Inr s' \<and>
        imagePos s' = vec 0 0 \<and> imageZoom s' = 2)"
  using animation_overrides_pan [of "(ImageView_init (\<lambda>i r a v. v) Rotate_0 Unscaled LockNone :: rat ImageView)\<lparr>zoomAnimation := Some \<lparr>posPrev = vec 0 0, zoomPrev = 1, posTo = vec 0 0, zoomTo = 2\<rparr>\<rparr>"
      "\<lparr>posPrev = vec 0 0, zoomPrev = 1, posTo = vec 0 0, zoomTo = 2\<rparr>" "vec 50 50" "[1/2]"]
  by simp

text \<open>
  C28. A layout before an image is set clears the first-layout flag, so an image set
  afterwards is never filled: with no lock, a layout, setImage and a second layout
  leave the position and the zoom where they were.  (Set before the first layout, the
  image would be filled: the witness contrasts the two orders.)
\<close>

theorem layout_clears_viewInit_without_image:
  assumes "viewImage s = None" and "lock s = LockNone"
  shows "\<exists>s'. ImageView_run [LayoutEvent, SetImage img, LayoutEvent] s = Inr s' \<and>
              viewImage s' = img \<and> \<not> viewInit s' \<and> imagePos s' = imagePos s \<and> imageZoom s' = imageZoom s"
proof -
  obtain s1 where s1: "layoutEvent s = Inr s1" "imagePos s1 = imagePos s" "imageZoom s1 = imageZoom s"
    "\<not> viewInit s1" "lock s1 = LockNone" "viewImage s1 = None"
    using layoutEvent_no_image [OF assms(1)] assms(2) by auto
  obtain s2 where s2: "setImage img s1 = Inr s2" "imagePos s2 = imagePos s" "imageZoom s2 = imageZoom s"
    "\<not> viewInit s2" "lock s2 = LockNone" "viewImage s2 = img"
    using setImage_keeps [of img s1] s1 by auto
  obtain s3 where "layoutEvent s2 = Inr s3" "imagePos s3 = imagePos s" "imageZoom s3 = imageZoom s"
    "\<not> viewInit s3" "viewImage s3 = img"
    using layoutEvent_unlocked_after_init [OF s2(5,4)] s2 by auto
  with s1(1) s2(1) show ?thesis
    by auto
qed

theorem layout_clears_viewInit_without_image_witness:
  "viewImage ((ImageView_init (\<lambda>i r a v. v) Rotate_0 Unscaled LockNone :: rat ImageView)\<lparr>geometry := bbox (vec 0 0) (vec 100 100)\<rparr>) = None \<and> lock ((ImageView_init (\<lambda>i r a v. v) Rotate_0 Unscaled LockNone :: rat ImageView)\<lparr>geometry := bbox (vec 0 0) (vec 100 100)\<rparr>) = LockNone \<and>
   (\<exists>s'. ImageView_run [LayoutEvent, SetImage (Some \<lparr>image_ptr = 1, size_w = 4, size_h = 2, aspectRatio = 2, pixelAspectRatio = 1\<rparr>), LayoutEvent] ((ImageView_init (\<lambda>i r a v. v) Rotate_0 Unscaled LockNone :: rat ImageView)\<lparr>geometry := bbox (vec 0 0) (vec 100 100)\<rparr>) = Inr s' \<and>
        viewImage s' = Some \<lparr>image_ptr = 1, size_w = 4, size_h = 2, aspectRatio = 2, pixelAspectRatio = 1\<rparr> \<and> \<not> viewInit s' \<and> imagePos s' = vec 0 0 \<and> imageZoom s' = 1) \<and>
   (\<exists>t. ImageView_run [SetImage (Some \<lparr>image_ptr = 1, size_w = 4, size_h = 2, aspectRatio = 2, pixelAspectRatio = 1\<rparr>), LayoutEvent] ((ImageView_init (\<lambda>i r a v. v) Rotate_0 Unscaled LockNone :: rat ImageView)\<lparr>geometry := bbox (vec 0 0) (vec 100 100)\<rparr>) = Inr t \<and> imageZoom t = 25)"
proof -
  have "viewImage ((ImageView_init (\<lambda>i r a v. v) Rotate_0 Unscaled LockNone :: rat ImageView)\<lparr>geometry := bbox (vec 0 0) (vec 100 100)\<rparr>) = None" "lock ((ImageView_init (\<lambda>i r a v. v) Rotate_0 Unscaled LockNone :: rat ImageView)\<lparr>geometry := bbox (vec 0 0) (vec 100 100)\<rparr>) = LockNone"
    by (simp_all add: ImageView_init_def)
  moreover have "\<exists>s'. ImageView_run [LayoutEvent, SetImage (Some \<lparr>image_ptr = 1, size_w = 4, size_h = 2, aspectRatio = 2, pixelAspectRatio = 1\<rparr>), LayoutEvent] ((ImageView_init (\<lambda>i r a v. v) Rotate_0 Unscaled LockNone :: rat ImageView)\<lparr>geometry := bbox (vec 0 0) (vec 100 100)\<rparr>) = Inr s' \<and>
        viewImage s' = Some \<lparr>image_ptr = 1, size_w = 4, size_h = 2, aspectRatio = 2, pixelAspectRatio = 1\<rparr> \<and> \<not> viewInit s' \<and> imagePos s' = vec 0 0 \<and> imageZoom s' = 1"
    using layout_clears_viewInit_without_image [of "((ImageView_init (\<lambda>i r a v. v) Rotate_0 Unscaled LockNone :: rat ImageView)\<lparr>geometry := bbox (vec 0 0) (vec 100 100)\<rparr>)" "Some \<lparr>image_ptr = 1, size_w = 4, size_h = 2, aspectRatio = 2, pixelAspectRatio = 1\<rparr>"]
    by (simp add: ImageView_init_def)
  moreover have "\<exists>t. ImageView_run [SetImage (Some \<lparr>image_ptr = 1, size_w = 4, size_h = 2, aspectRatio = 2, pixelAspectRatio = 1\<rparr>), LayoutEvent] ((ImageView_init (\<lambda>i r a v. v) Rotate_0 Unscaled LockNone :: rat ImageView)\<lparr>geometry := bbox (vec 0 0) (vec 100 100)\<rparr>) = Inr t \<and> imageZoom t = 25"
    by (simp add: ImageView_eval Let_def)
  ultimately show ?thesis
    by blast
qed

text \<open>
  C29. Changing the aspect ratio while the view shows no image dereferences the empty image
  pointer.
\<close>

theorem setImageAspectRatio_no_image:
  "viewImage s = None \<Longrightarrow> imageAspectRatio s \<noteq> v \<Longrightarrow> setImageAspectRatio v s = Inl NullDeref"
  by (simp add: setImageAspectRatio_def)

theorem setImageAspectRatio_no_image_witness:
  "viewImage (ImageView_init (\<lambda>i r a v. v) Rotate_0 Unscaled LockNone :: rat ImageView) = None \<and> imageAspectRatio (ImageView_init (\<lambda>i r a v. v) Rotate_0 Unscaled LockNone :: rat ImageView) \<noteq> FromSource \<and> setImageAspectRatio FromSource (ImageView_init (\<lambda>i r a v. v) Rotate_0 Unscaled LockNone :: rat ImageView) = Inl NullDeref"
  using setImageAspectRatio_no_image [of "(ImageView_init (\<lambda>i r a v. v) Rotate_0 Unscaled LockNone :: rat ImageView)" FromSource] by (simp add: ImageView_init_def)

end
