(* ===== verification/ViewSystem.thy ===== *)
theory ViewSystem
  imports DJV_Prelude "HOL-Library.AList"
begin

text \<open>
  The widget bookkeeping of \<open>src/lib/djvViewApp/IViewSystem.cpp\<close>: a view system
  opens named MDI widgets on a canvas, and when a widget is closed it remembers the
  widget's position and size under its name, so that the widget opened next under that
  name comes back where the last one was.  The canvas (\<open>UI::MDI::Canvas\<close>) and the
  widgets are not under \<open>src/\<close>; the canvas is modelled as the list of its children
  and the positions and sizes of widgets.  Widgets are identified by values of a type
  \<open>'w\<close>, positions and sizes are values of a type \<open>'p\<close>.  The three
  \<open>std::map\<close>s of the system are association lists updated with \<open>AList.update\<close>
  (\<open>operator[]\<close>) and \<open>AList.delete\<close> (\<open>erase\<close>).
\<close>

subsection \<open>The canvas\<close>

record ('w, 'p) Canvas =
  children :: "'w list"
  widgetPos :: "'w \<Rightarrow> 'p"
  widgetSize :: "'w \<Rightarrow> 'p"

text \<open>\<open>Canvas::addChild\<close>: a widget that is not yet a child is appended.\<close>

definition addChild :: "'w \<Rightarrow> ('w, 'p) Canvas \<Rightarrow> ('w, 'p) Canvas" where
  "addChild w c = (if w \<in> set (children c) then c else c\<lparr>children := children c @ [w]\<rparr>)"

definition removeChild :: "'w \<Rightarrow> ('w, 'p) Canvas \<Rightarrow> ('w, 'p) Canvas" where
  "removeChild w c = c\<lparr>children := remove1 w (children c)\<rparr>"

text \<open>\<open>Canvas::setWidgetPos\<close> and \<open>Widget::resize\<close>.\<close>

definition setWidgetPos :: "'w \<Rightarrow> 'p \<Rightarrow> ('w, 'p) Canvas \<Rightarrow> ('w, 'p) Canvas" where
  "setWidgetPos w p c = c\<lparr>widgetPos := (widgetPos c)(w := p)\<rparr>"

definition resizeWidget :: "'w \<Rightarrow> 'p \<Rightarrow> ('w, 'p) Canvas \<Rightarrow> ('w, 'p) Canvas" where
  "resizeWidget w z c = c\<lparr>widgetSize := (widgetSize c)(w := z)\<rparr>"

subsection \<open>The view system\<close>

text \<open>
  \<open>IViewSystem::Private\<close> (lines 47--54).  \<open>closeCallback\<close> records, for each
  widget, the name its close callback captured (\<open>setCloseCallback\<close>, lines 95--106);
  \<open>closeWidgetCallback\<close> is whether the system's own callback is set, and
  \<open>closedNames\<close> the names it has been called with.  \<open>canvas = None\<close> is the empty
  pointer a system holds before \<open>setCanvas\<close>.
\<close>

record ('w, 'p) ViewSystem =
  canvas :: "('w, 'p) Canvas option"
  widgets :: "(string \<times> 'w) list"
  widgetsPos :: "(string \<times> 'p) list"
  widgetsSize :: "(string \<times> 'p) list"
  closeCallback :: "'w \<rightharpoonup> string"
  closeWidgetCallback :: bool
  closedNames :: "string list"

text \<open>\<open>setCanvas\<close> (lines 84--87).\<close>

definition setCanvas :: "('w, 'p) Canvas \<Rightarrow> ('w, 'p) ViewSystem \<Rightarrow> ('w, 'p) ViewSystem" where
  "setCanvas c s = s\<lparr>canvas := Some c\<rparr>"

text \<open>
  \<open>_openWidget(name, widget)\<close> (lines 89--117): add the widget to the canvas,
  record it under its name (replacing any widget recorded there), install its close
  callback, and restore the position and size remembered for the name.
\<close>

definition openWidget ::
  "string \<Rightarrow> 'w \<Rightarrow> ('w, 'p) ViewSystem \<Rightarrow> error + ('w, 'p) ViewSystem" where
  "openWidget name widget s =
     (case canvas s of
        None \<Rightarrow> Inl NullDeref
      | Some c \<Rightarrow>
          (let c1 = addChild widget c;
               c2 = (case map_of (widgetsPos s) name of
                       Some p \<Rightarrow> setWidgetPos widget p c1
                     | None \<Rightarrow> c1);
               c3 = (case map_of (widgetsSize s) name of
                       Some z \<Rightarrow> resizeWidget widget z c2
                     | None \<Rightarrow> c2)
           in Inr (s\<lparr>canvas := Some c3, widgets := AList.update name widget (widgets s),
                     closeCallback := (closeCallback s)(widget \<mapsto> name)\<rparr>)))"

text \<open>
  \<open>_closeWidget(name)\<close> (lines 119--130): for a recorded widget, remember its
  position and size, remove it from the canvas and forget it.
\<close>

definition closeWidget :: "string \<Rightarrow> ('w, 'p) ViewSystem \<Rightarrow> error + ('w, 'p) ViewSystem" where
  "closeWidget name s =
     (case map_of (widgets s) name of
        None \<Rightarrow> Inr s
      | Some w \<Rightarrow>
          (case canvas s of
             None \<Rightarrow> Inl NullDeref
           | Some c \<Rightarrow>
               Inr (s\<lparr>widgetsPos := AList.update name (widgetPos c w) (widgetsPos s),
                      widgetsSize := AList.update name (widgetSize c w) (widgetsSize s),
                      canvas := Some (removeChild w c),
                      widgets := AList.delete name (widgets s)\<rparr>)))"

text \<open>
  The close callback a widget runs when its close button is pressed (lines 96--105):
  close the name it captured, then call the system's callback with the name.
\<close>

definition widgetClosePressed :: "'w \<Rightarrow> ('w, 'p) ViewSystem \<Rightarrow> error + ('w, 'p) ViewSystem" where
  "widgetClosePressed w s =
     (case closeCallback s w of
        None \<Rightarrow> Inr s
      | Some name \<Rightarrow>
          bind_sum (closeWidget name s) (\<lambda>s'.
            Inr (if closeWidgetCallback s' then s'\<lparr>closedNames := closedNames s' @ [name]\<rparr> else s')))"

text \<open>\<open>_setCloseWidgetCallback\<close> (lines 132--135).\<close>

definition setCloseWidgetCallback :: "bool \<Rightarrow> ('w, 'p) ViewSystem \<Rightarrow> ('w, 'p) ViewSystem" where
  "setCloseWidgetCallback b s = s\<lparr>closeWidgetCallback := b\<rparr>"

text \<open>A system as \<open>IViewSystem()\<close> constructs it (lines 62--64).\<close>

definition ViewSystem_init :: "('w, 'p) ViewSystem" where
  "ViewSystem_init =
     \<lparr>canvas = None, widgets = [], widgetsPos = [], widgetsSize = [], closeCallback = Map.empty,
      closeWidgetCallback = False, closedNames = []\<rparr>"

subsection \<open>Calls and reachable states\<close>

text \<open>
  What happens to a view system: its own calls, and the user moving, resizing and
  closing widgets on the canvas.  A widget is opened fresh: the callers create a new
  \<open>MDIWidget\<close> for every \<open>_openWidget\<close>.
\<close>

datatype ('w, 'p) VS_event =
    SetCanvas "('w, 'p) Canvas"
  | OpenWidget string 'w
  | CloseWidget string
  | ClosePressed 'w
  | MoveWidget 'w 'p
  | ResizeWidget 'w 'p
  | SetCloseWidgetCallback bool

definition onCanvas :: "(('w, 'p) Canvas \<Rightarrow> ('w, 'p) Canvas) \<Rightarrow> ('w, 'p) ViewSystem \<Rightarrow> ('w, 'p) ViewSystem" where
  "onCanvas f s = s\<lparr>canvas := map_option f (canvas s)\<rparr>"

fun VS_step :: "('w, 'p) VS_event \<Rightarrow> ('w, 'p) ViewSystem \<Rightarrow> error + ('w, 'p) ViewSystem" where
  "VS_step (SetCanvas c) s = Inr (setCanvas c s)"
| "VS_step (OpenWidget n w) s = openWidget n w s"
| "VS_step (CloseWidget n) s = closeWidget n s"
| "VS_step (ClosePressed w) s = widgetClosePressed w s"
| "VS_step (MoveWidget w p) s = Inr (onCanvas (setWidgetPos w p) s)"
| "VS_step (ResizeWidget w z) s = Inr (onCanvas (resizeWidget w z) s)"
| "VS_step (SetCloseWidgetCallback b) s = Inr (setCloseWidgetCallback b s)"

text \<open>A sequence of events, the first exception ending it.\<close>

fun VS_run :: "('w, 'p) VS_event list \<Rightarrow> ('w, 'p) ViewSystem \<Rightarrow> error + ('w, 'p) ViewSystem" where
  "VS_run [] s = Inr s"
| "VS_run (e # es) s = bind_sum (VS_step e s) (VS_run es)"

text \<open>A widget is fresh when the system and its canvas have never seen it.\<close>

definition fresh_widget :: "'w \<Rightarrow> ('w, 'p) ViewSystem \<Rightarrow> bool" where
  "fresh_widget w s \<longleftrightarrow>
     closeCallback s w = None \<and> w \<notin> snd ` set (widgets s) \<and>
     (case canvas s of None \<Rightarrow> True | Some c \<Rightarrow> w \<notin> set (children c))"

fun VS_allowed :: "('w, 'p) VS_event \<Rightarrow> ('w, 'p) ViewSystem \<Rightarrow> bool" where
  "VS_allowed (OpenWidget n w) s = fresh_widget w s"
| "VS_allowed _ s = True"

text \<open>Every event of a run is allowed in the state it happens in.\<close>

fun VS_run_ok :: "('w, 'p) VS_event list \<Rightarrow> ('w, 'p) ViewSystem \<Rightarrow> bool" where
  "VS_run_ok [] s = True"
| "VS_run_ok (e # es) s =
     (VS_allowed e s \<and> (case VS_step e s of Inl _ \<Rightarrow> True | Inr s' \<Rightarrow> VS_run_ok es s'))"

inductive VS_reachable :: "('w, 'p) ViewSystem \<Rightarrow> bool" where
  init: "VS_reachable ViewSystem_init"
| step: "VS_reachable s \<Longrightarrow> VS_allowed e s \<Longrightarrow> VS_step e s = Inr s' \<Longrightarrow> VS_reachable s'"

subsection \<open>Invariant\<close>

text \<open>
  The names are distinct (a \<open>std::map\<close>), every recorded widget's close callback
  captured the name it is recorded under, and widgets are recorded only once there
  is a canvas.
\<close>

definition VS_inv :: "('w, 'p) ViewSystem \<Rightarrow> bool" where
  "VS_inv s \<longleftrightarrow>
     distinct (map fst (widgets s)) \<and>
     (\<forall>n w. map_of (widgets s) n = Some w \<longrightarrow> closeCallback s w = Some n) \<and>
     (widgets s \<noteq> [] \<longrightarrow> canvas s \<noteq> None)"

subsection \<open>Properties\<close>

lemma openWidget_Inr:
  "openWidget n w s = Inr s' \<Longrightarrow>
   widgets s' = AList.update n w (widgets s) \<and> closeCallback s' = (closeCallback s)(w \<mapsto> n) \<and>
   canvas s' \<noteq> None \<and> widgetsPos s' = widgetsPos s \<and> widgetsSize s' = widgetsSize s \<and>
   closeWidgetCallback s' = closeWidgetCallback s \<and> closedNames s' = closedNames s"
  by (auto simp: openWidget_def Let_def split: option.splits)

lemma closeWidget_Inr:
  "closeWidget n s = Inr s' \<Longrightarrow>
   (widgets s' = AList.delete n (widgets s) \<or> widgets s' = widgets s) \<and>
   closeCallback s' = closeCallback s \<and> (canvas s \<noteq> None \<longrightarrow> canvas s' \<noteq> None) \<and>
   closeWidgetCallback s' = closeWidgetCallback s"
  by (auto simp: closeWidget_def split: option.splits)

lemma VS_inv_widgets:
  "VS_inv s \<Longrightarrow> closeCallback t = closeCallback s \<Longrightarrow> (canvas s \<noteq> None \<longrightarrow> canvas t \<noteq> None) \<Longrightarrow>
   widgets t = AList.delete n (widgets s) \<or> widgets t = widgets s \<Longrightarrow> VS_inv t"
  unfolding VS_inv_def
  by (elim disjE) (auto simp: distinct_delete delete_conv' split: if_splits)

lemma openWidget_inv:
  assumes "VS_inv s" "fresh_widget w s" "openWidget n w s = Inr s'"
  shows "VS_inv s'"
proof -
  note o = openWidget_Inr [OF assms(3)]
  have "closeCallback s' w' = Some n'" if "map_of (widgets s') n' = Some w'" for n' w'
  proof (cases "n' = n")
    case True
    then show ?thesis using that o by (simp add: update_conv')
  next
    case False
    then have "map_of (widgets s) n' = Some w'"
      using that o by (simp add: update_conv')
    moreover from this have "w' \<in> snd ` set (widgets s)"
      by (force dest: map_of_SomeD)
    then have "w' \<noteq> w"
      using assms(2) by (auto simp: fresh_widget_def)
    ultimately show ?thesis
      using assms(1) o by (simp add: VS_inv_def)
  qed
  then show ?thesis
    using assms(1) o by (simp add: VS_inv_def distinct_update)
qed

lemma closeWidget_inv: "VS_inv s \<Longrightarrow> closeWidget n s = Inr s' \<Longrightarrow> VS_inv s'"
  using closeWidget_Inr VS_inv_widgets by metis

lemma VS_inv_closedNames [simp]: "VS_inv (s\<lparr>closedNames := ns\<rparr>) = VS_inv s"
  by (simp add: VS_inv_def)

lemma widgetClosePressed_inv:
  assumes "VS_inv s" "widgetClosePressed w s = Inr s'"
  shows "VS_inv s'"
proof (cases "closeCallback s w")
  case None
  then show ?thesis using assms by (simp add: widgetClosePressed_def)
next
  case (Some n)
  then obtain s1 where s1: "closeWidget n s = Inr s1"
    and s': "s' = (if closeWidgetCallback s1 then s1\<lparr>closedNames := closedNames s1 @ [n]\<rparr> else s1)"
    using assms(2) by (auto simp: widgetClosePressed_def bind_sum_eq_Inr)
  have "VS_inv s1"
    using closeWidget_inv [OF assms(1) s1] .
  then show ?thesis
    using s' by simp
qed

lemma VS_inv_step:
  assumes "VS_inv s" "VS_allowed e s" "VS_step e s = Inr s'"
  shows "VS_inv s'"
proof (cases e)
  case (SetCanvas c)
  then show ?thesis using assms by (auto simp: setCanvas_def VS_inv_def)
next
  case (OpenWidget n w)
  then show ?thesis using assms by (simp add: openWidget_inv)
next
  case (CloseWidget n)
  then show ?thesis using assms by (simp add: closeWidget_inv)
next
  case (ClosePressed w)
  then show ?thesis using assms by (simp add: widgetClosePressed_inv)
next
  case (MoveWidget w p)
  then show ?thesis using assms by (auto simp: onCanvas_def VS_inv_def)
next
  case (ResizeWidget w z)
  then show ?thesis using assms by (auto simp: onCanvas_def VS_inv_def)
next
  case (SetCloseWidgetCallback b)
  then show ?thesis using assms by (auto simp: setCloseWidgetCallback_def VS_inv_def)
qed

text \<open>
  C31. In every reachable state of a view system (any sequence of its calls and of the
  user's moves, resizes and close presses, each widget opened fresh) the names are
  distinct, each recorded widget's close callback closes the name it is recorded under,
  and no widget is recorded without a canvas.
\<close>

theorem VS_reachable_inv: "VS_reachable s \<Longrightarrow> VS_inv s"
proof (induction rule: VS_reachable.induct)
  case init
  then show ?case by (simp add: VS_inv_def ViewSystem_init_def)
next
  case (step s e s')
  then show ?case using VS_inv_step by blast
qed

theorem VS_reachable_inv_witness:
  "VS_reachable (ViewSystem_init :: (nat, int) ViewSystem) \<and> VS_inv (ViewSystem_init :: (nat, int) ViewSystem)"
  using VS_reachable_inv [OF VS_reachable.init] by (simp add: VS_reachable.init)

text \<open>
  C32. Pressing the close button of an open widget and then opening a new widget under
  the same name succeeds and puts the new widget on the canvas with the position and
  size the closed widget had.
\<close>

theorem close_reopen_restores:
  assumes "VS_reachable s" "map_of (widgets s) name = Some w" "canvas s = Some c"
  shows "\<exists>s1 s2 c2. widgetClosePressed w s = Inr s1 \<and> openWidget name w' s1 = Inr s2 \<and>
           canvas s2 = Some c2 \<and> w' \<in> set (children c2) \<and>
           widgetPos c2 w' = widgetPos c w \<and> widgetSize c2 w' = widgetSize c w"
proof -
  have cb: "closeCallback s w = Some name"
    using VS_reachable_inv [OF assms(1)] assms(2) by (simp add: VS_inv_def)
  define s1' where "s1' = s\<lparr>widgetsPos := AList.update name (widgetPos c w) (widgetsPos s),
                      widgetsSize := AList.update name (widgetSize c w) (widgetsSize s),
                      canvas := Some (removeChild w c), widgets := AList.delete name (widgets s)\<rparr>"
  define s1 where "s1 = (if closeWidgetCallback s1' then s1'\<lparr>closedNames := closedNames s1' @ [name]\<rparr> else s1')"
  have close: "widgetClosePressed w s = Inr s1"
    using cb assms(2,3) by (simp add: widgetClosePressed_def closeWidget_def s1_def s1'_def)
  have pos: "map_of (widgetsPos s1) name = Some (widgetPos c w)" "map_of (widgetsSize s1) name = Some (widgetSize c w)"
    and can: "canvas s1 = Some (removeChild w c)"
    by (simp_all add: s1_def s1'_def update_conv')
  let ?c2 = "resizeWidget w' (widgetSize c w) (setWidgetPos w' (widgetPos c w) (addChild w' (removeChild w c)))"
  have "openWidget name w' s1 = Inr (s1\<lparr>canvas := Some ?c2, widgets := AList.update name w' (widgets s1),
                     closeCallback := (closeCallback s1)(w' \<mapsto> name)\<rparr>)"
    using pos can by (simp add: openWidget_def)
  moreover have "w' \<in> set (children ?c2)"
    by (simp add: resizeWidget_def setWidgetPos_def addChild_def)
  moreover have "widgetPos ?c2 w' = widgetPos c w" "widgetSize ?c2 w' = widgetSize c w"
    by (simp_all add: resizeWidget_def setWidgetPos_def addChild_def removeChild_def)
  ultimately show ?thesis
    using close by auto
qed

lemma VS_run_reachable:
  "VS_reachable s \<Longrightarrow> VS_run_ok es s \<Longrightarrow> VS_run es s = Inr s' \<Longrightarrow> VS_reachable s'"
proof (induction es arbitrary: s)
  case Nil
  then show ?case by simp
next
  case (Cons e es)
  then obtain s1 where s1: "VS_step e s = Inr s1" "VS_run es s1 = Inr s'"
    by (auto simp: bind_sum_eq_Inr)
  with Cons.prems have "VS_reachable s1" "VS_run_ok es s1"
    by (auto intro: VS_reachable.step)
  with Cons.IH s1(2) show ?case by blast
qed

theorem close_reopen_restores_witness:
  "\<exists>s1 s2 c2. widgetClosePressed 1 (projr (VS_run [SetCanvas \<lparr>children = [], widgetPos = \<lambda>_. 0, widgetSize = \<lambda>_. 0\<rparr>, OpenWidget ''files'' (1::nat), MoveWidget 1 (5::int), ResizeWidget 1 7] ViewSystem_init)) = Inr s1 \<and> openWidget ''files'' 2 s1 = Inr s2 \<and>
     canvas s2 = Some c2 \<and> 2 \<in> set (children c2) \<and>
     widgetPos c2 2 = widgetPos (the (canvas (projr (VS_run [SetCanvas \<lparr>children = [], widgetPos = \<lambda>_. 0, widgetSize = \<lambda>_. 0\<rparr>, OpenWidget ''files'' (1::nat), MoveWidget 1 (5::int), ResizeWidget 1 7] ViewSystem_init)))) 1 \<and> widgetSize c2 2 = widgetSize (the (canvas (projr (VS_run [SetCanvas \<lparr>children = [], widgetPos = \<lambda>_. 0, widgetSize = \<lambda>_. 0\<rparr>, OpenWidget ''files'' (1::nat), MoveWidget 1 (5::int), ResizeWidget 1 7] ViewSystem_init)))) 1"
proof (rule close_reopen_restores)
  show "VS_reachable (projr (VS_run [SetCanvas \<lparr>children = [], widgetPos = \<lambda>_. 0, widgetSize = \<lambda>_. 0\<rparr>, OpenWidget ''files'' (1::nat), MoveWidget 1 (5::int), ResizeWidget 1 7] ViewSystem_init))"
    by (rule VS_run_reachable [OF VS_reachable.init, of "[SetCanvas \<lparr>children = [], widgetPos = \<lambda>_. 0, widgetSize = \<lambda>_. 0\<rparr>, OpenWidget ''files'' (1::nat), MoveWidget 1 (5::int), ResizeWidget 1 7]"])
       (simp_all add: ViewSystem_init_def fresh_widget_def setCanvas_def openWidget_def addChild_def
        onCanvas_def setWidgetPos_def resizeWidget_def)
qed (simp_all add: ViewSystem_init_def setCanvas_def openWidget_def addChild_def onCanvas_def
     setWidgetPos_def resizeWidget_def)

text \<open>
  C33. Opening a widget before setCanvas dereferences the empty canvas pointer.
\<close>

theorem openWidget_without_canvas:
  "canvas s = None \<Longrightarrow> openWidget name w s = Inl NullDeref"
  by (simp add: openWidget_def)

theorem openWidget_without_canvas_witness:
  "canvas (ViewSystem_init :: (nat, int) ViewSystem) = None \<and>
   openWidget ''files'' 1 (ViewSystem_init :: (nat, int) ViewSystem) = Inl NullDeref"
  using openWidget_without_canvas [of "ViewSystem_init :: (nat, int) ViewSystem" "''files''" 1]
  by (simp add: ViewSystem_init_def)

lemma openWidget_children:
  "canvas s = Some c \<Longrightarrow> w \<notin> set (children c) \<Longrightarrow>
   \<exists>c'. openWidget n w s = Inr (s\<lparr>canvas := Some c', widgets := AList.update n w (widgets s),
                                      closeCallback := (closeCallback s)(w \<mapsto> n)\<rparr>) \<and>
        children c' = children c @ [w]"
  by (auto simp: openWidget_def Let_def addChild_def setWidgetPos_def resizeWidget_def split: option.split)

lemma VS_inv_recorded_once:
  "VS_inv s \<Longrightarrow> map_of (widgets s) n = Some w \<Longrightarrow> (n', w) \<in> set (widgets s) \<Longrightarrow> n' = n"
  unfolding VS_inv_def by (metis map_of_is_SomeI option.inject)

text \<open>
  C34. Opening a widget under a name that is already open replaces the recorded widget
  but leaves the old one on the canvas; the old widget's close button then closes the
  new widget: the canvas is left with the old widget and without the new one, and the
  old widget is recorded under no name, so no call of the system can close it.
\<close>

theorem reopen_open_name_orphans_widget:
  assumes "VS_inv s" and "canvas s = Some c" and "map_of (widgets s) n = Some w1"
    and "w1 \<in> set (children c)" and "fresh_widget w2 s"
  shows "\<exists>s' c'. VS_run [OpenWidget n w2, ClosePressed w1] s = Inr s' \<and> canvas s' = Some c' \<and>
                 children c' = children c \<and> w1 \<in> set (children c') \<and> w2 \<notin> set (children c') \<and>
                 w1 \<notin> snd ` set (widgets s')"
proof -
  have nc: "w2 \<notin> set (children c)" and nw: "w2 \<notin> snd ` set (widgets s)" and ncb: "closeCallback s w2 = None"
    using assms(2,5) by (simp_all add: fresh_widget_def)
  have w12: "w1 \<noteq> w2"
    using nw map_of_SomeD [OF assms(3)] by force
  have cb: "closeCallback s w1 = Some n"
    using assms(1,3) by (simp add: VS_inv_def)
  obtain c' where o: "openWidget n w2 s = Inr (s\<lparr>canvas := Some c', widgets := AList.update n w2 (widgets s),
                                      closeCallback := (closeCallback s)(w2 \<mapsto> n)\<rparr>)"
    and ch: "children c' = children c @ [w2]"
    using openWidget_children [OF assms(2) nc] by blast
  have rm: "remove1 w2 (children c') = children c"
    using ch nc by (simp add: remove1_append)
  have d: "distinct (map fst (widgets s))"
    using assms(1) by (simp add: VS_inv_def)
  have "w1 \<notin> snd ` set (AList.delete n (widgets s))"
  proof
    assume "w1 \<in> snd ` set (AList.delete n (widgets s))"
    then obtain n' where "(n', w1) \<in> set (AList.delete n (widgets s))" by force
    then have "(n', w1) \<in> set (widgets s)" "n' \<noteq> n"
      by (auto simp: AList.delete_eq)
    with VS_inv_recorded_once [OF assms(1,3)] show False by blast
  qed
  moreover have "AList.delete n (AList.update n w2 (widgets s)) = AList.delete n (widgets s)"
    by (simp add: delete_update_same)
  ultimately show ?thesis
    using o rm cb w12 nc assms(4)
    by (auto simp: widgetClosePressed_def closeWidget_def removeChild_def update_conv')
qed

theorem reopen_open_name_orphans_widget_witness:
  "VS_inv (\<lparr>canvas = Some \<lparr>children = [1], widgetPos = \<lambda>_. 0, widgetSize = \<lambda>_. 0\<rparr>, widgets = [(''files'', 1)], widgetsPos = [], widgetsSize = [], closeCallback = [1 \<mapsto> ''files''], closeWidgetCallback = False, closedNames = []\<rparr> :: (nat, int) ViewSystem) \<and> canvas (\<lparr>canvas = Some \<lparr>children = [1], widgetPos = \<lambda>_. 0, widgetSize = \<lambda>_. 0\<rparr>, widgets = [(''files'', 1)], widgetsPos = [], widgetsSize = [], closeCallback = [1 \<mapsto> ''files''], closeWidgetCallback = False, closedNames = []\<rparr> :: (nat, int) ViewSystem) = Some (\<lparr>children = [1], widgetPos = \<lambda>_. 0, widgetSize = \<lambda>_. 0\<rparr> :: (nat, int) Canvas) \<and> map_of (widgets (\<lparr>canvas = Some \<lparr>children = [1], widgetPos = \<lambda>_. 0, widgetSize = \<lambda>_. 0\<rparr>, widgets = [(''files'', 1)], widgetsPos = [], widgetsSize = [], closeCallback = [1 \<mapsto> ''files''], closeWidgetCallback = False, closedNames = []\<rparr> :: (nat, int) ViewSystem)) ''files'' = Some 1 \<and>
   (1::nat) \<in> set (children (\<lparr>children = [1], widgetPos = \<lambda>_. 0, widgetSize = \<lambda>_. 0\<rparr> :: (nat, int) Canvas)) \<and> fresh_widget 2 (\<lparr>canvas = Some \<lparr>children = [1], widgetPos = \<lambda>_. 0, widgetSize = \<lambda>_. 0\<rparr>, widgets = [(''files'', 1)], widgetsPos = [], widgetsSize = [], closeCallback = [1 \<mapsto> ''files''], closeWidgetCallback = False, closedNames = []\<rparr> :: (nat, int) ViewSystem) \<and>
   (\<exists>s' c'. VS_run [OpenWidget ''files'' 2, ClosePressed 1] (\<lparr>canvas = Some \<lparr>children = [1], widgetPos = \<lambda>_. 0, widgetSize = \<lambda>_. 0\<rparr>, widgets = [(''files'', 1)], widgetsPos = [], widgetsSize = [], closeCallback = [1 \<mapsto> ''files''], closeWidgetCallback = False, closedNames = []\<rparr> :: (nat, int) ViewSystem) = Inr s' \<and> canvas s' = Some c' \<and>
          children c' = [1] \<and> widgets s' = [])"
proof -
  have h: "VS_inv (\<lparr>canvas = Some \<lparr>children = [1], widgetPos = \<lambda>_. 0, widgetSize = \<lambda>_. 0\<rparr>, widgets = [(''files'', 1)], widgetsPos = [], widgetsSize = [], closeCallback = [1 \<mapsto> ''files''], closeWidgetCallback = False, closedNames = []\<rparr> :: (nat, int) ViewSystem)" "canvas (\<lparr>canvas = Some \<lparr>children = [1], widgetPos = \<lambda>_. 0, widgetSize = \<lambda>_. 0\<rparr>, widgets = [(''files'', 1)], widgetsPos = [], widgetsSize = [], closeCallback = [1 \<mapsto> ''files''], closeWidgetCallback = False, closedNames = []\<rparr> :: (nat, int) ViewSystem) = Some (\<lparr>children = [1], widgetPos = \<lambda>_. 0, widgetSize = \<lambda>_. 0\<rparr> :: (nat, int) Canvas)" "map_of (widgets (\<lparr>canvas = Some \<lparr>children = [1], widgetPos = \<lambda>_. 0, widgetSize = \<lambda>_. 0\<rparr>, widgets = [(''files'', 1)], widgetsPos = [], widgetsSize = [], closeCallback = [1 \<mapsto> ''files''], closeWidgetCallback = False, closedNames = []\<rparr> :: (nat, int) ViewSystem)) ''files'' = Some 1"
    "(1::nat) \<in> set (children (\<lparr>children = [1], widgetPos = \<lambda>_. 0, widgetSize = \<lambda>_. 0\<rparr> :: (nat, int) Canvas))" "fresh_widget 2 (\<lparr>canvas = Some \<lparr>children = [1], widgetPos = \<lambda>_. 0, widgetSize = \<lambda>_. 0\<rparr>, widgets = [(''files'', 1)], widgetsPos = [], widgetsSize = [], closeCallback = [1 \<mapsto> ''files''], closeWidgetCallback = False, closedNames = []\<rparr> :: (nat, int) ViewSystem)"
    by (simp_all add: VS_inv_def fresh_widget_def)
  from reopen_open_name_orphans_widget [OF h] have "\<exists>s' c'. VS_run [OpenWidget ''files'' 2, ClosePressed 1] (\<lparr>canvas = Some \<lparr>children = [1], widgetPos = \<lambda>_. 0, widgetSize = \<lambda>_. 0\<rparr>, widgets = [(''files'', 1)], widgetsPos = [], widgetsSize = [], closeCallback = [1 \<mapsto> ''files''], closeWidgetCallback = False, closedNames = []\<rparr> :: (nat, int) ViewSystem) = Inr s' \<and>
      canvas s' = Some c' \<and> children c' = children (\<lparr>children = [1], widgetPos = \<lambda>_. 0, widgetSize = \<lambda>_. 0\<rparr> :: (nat, int) Canvas) \<and> 1 \<in> set (children c') \<and> 2 \<notin> set (children c') \<and>
      1 \<notin> snd ` set (widgets s')" .
  then show ?thesis
    using h by (auto simp: openWidget_def Let_def addChild_def widgetClosePressed_def closeWidget_def removeChild_def)
qed

end
