(* ===== verification/FFmpeg.thy ===== *)
theory FFmpeg
  imports DJV_Prelude
begin

text \<open>
  The helpers of the FFmpeg plugin, \<open>src/lib/djvAV/FFmpeg.cpp\<close>: the time base,
  the conversion of FFmpeg's sample formats to the audio types of \<open>djvAV\<close> and to
  their names, the log callback that forwards FFmpeg's messages to the context's log,
  and the plugin's construction and \<open>read\<close>.  FFmpeg itself (decoding, \<open>av_log\<close>'s
  global state) is an external collaborator: its log level and callback are modelled as
  a small state the plugin sets.
\<close>

subsection \<open>Time base\<close>

record AVRational =
  num :: int
  den :: int

definition AV_TIME_BASE :: int where
  "AV_TIME_BASE = 1000000"

text \<open>\<open>getTimeBaseQ()\<close> (lines 43--49).\<close>

definition getTimeBaseQ :: AVRational where
  "getTimeBaseQ = \<lparr>num = 1, den = AV_TIME_BASE\<rparr>"

subsection \<open>Sample formats\<close>

text \<open>FFmpeg's \<open>AVSampleFormat\<close>, in its declaration order.\<close>

datatype AVSampleFormat =
    AV_SAMPLE_FMT_NONE | AV_SAMPLE_FMT_U8 | AV_SAMPLE_FMT_S16 | AV_SAMPLE_FMT_S32
  | AV_SAMPLE_FMT_FLT | AV_SAMPLE_FMT_DBL | AV_SAMPLE_FMT_U8P | AV_SAMPLE_FMT_S16P
  | AV_SAMPLE_FMT_S32P | AV_SAMPLE_FMT_FLTP | AV_SAMPLE_FMT_DBLP | AV_SAMPLE_FMT_S64
  | AV_SAMPLE_FMT_S64P

text \<open>\<open>Audio::Type\<close> of \<open>djvAV\<close>.\<close>

datatype AudioType = AudioNone | AudioU8 | AudioS16 | AudioS32 | AudioF32

text \<open>\<open>toAudioType(AVSampleFormat)\<close> (lines 51--67).\<close>

fun toAudioType :: "AVSampleFormat \<Rightarrow> AudioType" where
  "toAudioType AV_SAMPLE_FMT_U8 = AudioU8"
| "toAudioType AV_SAMPLE_FMT_S16 = AudioS16"
| "toAudioType AV_SAMPLE_FMT_S32 = AudioS32"
| "toAudioType AV_SAMPLE_FMT_FLT = AudioF32"
| "toAudioType AV_SAMPLE_FMT_U8P = AudioU8"
| "toAudioType AV_SAMPLE_FMT_S16P = AudioS16"
| "toAudioType AV_SAMPLE_FMT_S32P = AudioS32"
| "toAudioType AV_SAMPLE_FMT_FLTP = AudioF32"
| "toAudioType _ = AudioNone"

text \<open>The table of \<open>toString(AVSampleFormat)\<close> (lines 71--84), a \<open>std::map\<close>.\<close>

definition sampleFormatNames :: "(AVSampleFormat \<times> string) list" where
  "sampleFormatNames =
     [(AV_SAMPLE_FMT_NONE, ''None''), (AV_SAMPLE_FMT_U8, ''U8''), (AV_SAMPLE_FMT_S16, ''S16''),
      (AV_SAMPLE_FMT_S32, ''S32''), (AV_SAMPLE_FMT_FLT, ''Float''), (AV_SAMPLE_FMT_DBL, ''Double''),
      (AV_SAMPLE_FMT_U8P, ''U8 planar''), (AV_SAMPLE_FMT_S16P, ''S16 planar''),
      (AV_SAMPLE_FMT_S32P, ''S32 planar''), (AV_SAMPLE_FMT_FLTP, ''Float planar''),
      (AV_SAMPLE_FMT_DBLP, ''Double planar'')]"

text \<open>\<open>toString(AVSampleFormat)\<close> (lines 69--88): the table's entry, else \<open>Unknown\<close>.\<close>

definition sampleFormatString :: "AVSampleFormat \<Rightarrow> string" where
  "sampleFormatString value =
     (case map_of sampleFormatNames value of Some s \<Rightarrow> s | None \<Rightarrow> ''Unknown'')"

subsection \<open>Logging\<close>

text \<open>FFmpeg's log levels (\<open>AV_LOG_PANIC\<close> to \<open>AV_LOG_DEBUG\<close>).\<close>

definition AV_LOG_PANIC :: int where "AV_LOG_PANIC = 0"
definition AV_LOG_FATAL :: int where "AV_LOG_FATAL = 8"
definition AV_LOG_ERROR :: int where "AV_LOG_ERROR = 16"
definition AV_LOG_WARNING :: int where "AV_LOG_WARNING = 24"
definition AV_LOG_INFO :: int where "AV_LOG_INFO = 32"

text \<open>
  The state the plugin shares with FFmpeg's logger: the global log level and callback
  (\<open>av_log_set_level\<close>, \<open>av_log_set_callback\<close>), the plugin's \<open>logContext\<close>
  (whether the context it points to is alive), and the context's log: pairs of prefix
  and message.
\<close>

record FFmpegLog =
  av_log_level :: int
  callback_installed :: bool
  logContext :: bool
  contextLog :: "(string \<times> string) list"

text \<open>
  \<open>avLogCallback(ptr, level, fmt, vl)\<close> (lines 101--111), with the message already
  formatted: dropped above the log level or when the context has gone, otherwise
  formatted into a \<open>cStringLength\<close> buffer (\<open>vsnprintf\<close> keeps at most
  \<open>cStringLength - 1\<close> characters) and logged.
\<close>

definition avLogCallback :: "int \<Rightarrow> string \<Rightarrow> FFmpegLog \<Rightarrow> FFmpegLog" where
  "avLogCallback level msg st =
     (if av_log_level st < level then st
      else if logContext st then
        st\<lparr>contextLog := contextLog st @ [(''djv::AV::IO::FFmpeg::Plugin'', take (cStringLength - 1) msg)]\<rparr>
      else st)"

text \<open>
  \<open>av_log\<close>: FFmpeg hands a message to the installed callback (before the plugin
  installs one, FFmpeg's default logger prints it, which the model does not track).
\<close>

definition av_log :: "int \<Rightarrow> string \<Rightarrow> FFmpegLog \<Rightarrow> FFmpegLog" where
  "av_log level msg st = (if callback_installed st then avLogCallback level msg st else st)"

text \<open>\<open>Plugin::_init\<close> (lines 115--126), after \<open>IPlugin::_init\<close>.\<close>

definition FFmpeg_Plugin_init :: "FFmpegLog \<Rightarrow> FFmpegLog" where
  "FFmpeg_Plugin_init st =
     st\<lparr>logContext := True, av_log_level := AV_LOG_ERROR, callback_installed := True\<rparr>"

text \<open>
  \<open>Plugin::read(fileName, queue)\<close> (lines 138--145): a reader for the file while
  the plugin's context is alive, else the null pointer.
\<close>

definition FFmpeg_Plugin_read :: "bool \<Rightarrow> string \<Rightarrow> string option" where
  "FFmpeg_Plugin_read contextAlive fileName = (if contextAlive then Some fileName else None)"

subsection \<open>Properties\<close>

lemma toAudioType_planar:
  "toAudioType AV_SAMPLE_FMT_U8P = toAudioType AV_SAMPLE_FMT_U8"
  "toAudioType AV_SAMPLE_FMT_S16P = toAudioType AV_SAMPLE_FMT_S16"
  "toAudioType AV_SAMPLE_FMT_S32P = toAudioType AV_SAMPLE_FMT_S32"
  "toAudioType AV_SAMPLE_FMT_FLTP = toAudioType AV_SAMPLE_FMT_FLT"
  "toAudioType AV_SAMPLE_FMT_DBLP = toAudioType AV_SAMPLE_FMT_DBL"
  "toAudioType AV_SAMPLE_FMT_S64P = toAudioType AV_SAMPLE_FMT_S64"
  by simp_all

lemma toAudioType_None_iff:
  "toAudioType f = AudioNone \<longleftrightarrow>
     f \<in> {AV_SAMPLE_FMT_NONE, AV_SAMPLE_FMT_DBL, AV_SAMPLE_FMT_DBLP, AV_SAMPLE_FMT_S64, AV_SAMPLE_FMT_S64P}"
  by (cases f) simp_all

lemma sampleFormatString_Unknown_iff:
  "sampleFormatString f = ''Unknown'' \<longleftrightarrow> f = AV_SAMPLE_FMT_S64 \<or> f = AV_SAMPLE_FMT_S64P"
  by (cases f) (simp_all add: sampleFormatString_def sampleFormatNames_def)

lemma sampleFormatString_distinct:
  "inj_on sampleFormatString (- {AV_SAMPLE_FMT_S64, AV_SAMPLE_FMT_S64P})"
proof (rule inj_onI)
  fix f g
  assume "f \<in> - {AV_SAMPLE_FMT_S64, AV_SAMPLE_FMT_S64P}" "g \<in> - {AV_SAMPLE_FMT_S64, AV_SAMPLE_FMT_S64P}"
    "sampleFormatString f = sampleFormatString g"
  then show "f = g"
    by (cases f; cases g) (simp_all add: sampleFormatString_def sampleFormatNames_def)
qed

lemma FFmpeg_log_after_init:
  "av_log level msg (FFmpeg_Plugin_init st) =
     (if level \<le> AV_LOG_ERROR
      then (FFmpeg_Plugin_init st)\<lparr>contextLog := contextLog st @
             [(''djv::AV::IO::FFmpeg::Plugin'', take (cStringLength - 1) msg)]\<rparr>
      else FFmpeg_Plugin_init st)"
  by (simp add: av_log_def avLogCallback_def FFmpeg_Plugin_init_def)

lemma FFmpeg_log_message_bound:
  "\<forall>(p, m) \<in> set (contextLog st). length m < cStringLength \<Longrightarrow>
   \<forall>(p, m) \<in> set (contextLog (av_log level msg st)). length m < cStringLength"
  by (auto simp: av_log_def avLogCallback_def cStringLength_def)

end
