(* ===== verification/DPX.thy ===== *)
theory DPX
  imports DJV_Prelude
begin

text \<open>
  The DPX writer, \<open>src/lib/djvAV/DPXWrite.cpp\<close>: the image type and memory layout
  the writer asks the generic sequence writer to convert images to, and \<open>_write\<close>,
  which writes one frame through a file handle.  The header writer \<open>DPX::write\<close>,
  \<open>writeFinish\<close>, the file handle and the image types are declared in files that are
  not under \<open>src/\<close>; the file handle is modelled as the trace of the calls made on it,
  and the header writer as one call in that trace carrying what it is given.
\<close>

subsection \<open>Data\<close>

text \<open>\<open>DPX::Version\<close>, \<open>Memory::Endian\<close> and \<open>Cineon::ColorProfile\<close>.\<close>

datatype DPXVersion = DPX_1_0 | DPX_2_0

datatype Endian = MSB | LSB

datatype ColorProfile = Raw | FilmPrint

text \<open>\<open>DPX::Options\<close>, the options a writer is created with.\<close>

record DPXOptions =
  version :: DPXVersion
  endian :: Endian

text \<open>The pixel types of \<open>AV::Image::Type\<close> that the writers of the repository name.\<close>

datatype ImageType = L_U8 | L_U16 | RGB_U8 | RGB_U10 | RGB_U16 | RGBA_U8 | RGBA_U16 | RGB_F32 | RGBA_F32

text \<open>\<open>AV::Image::Layout\<close>: byte order and row alignment; the default is the host's order
  (little-endian here) and no padding.\<close>

record ImageLayout =
  layoutEndian :: Endian
  alignment :: nat

definition defaultLayout :: ImageLayout where
  "defaultLayout = \<lparr>layoutEndian = LSB, alignment = 1\<rparr>"

text \<open>What \<open>_write\<close> reads of an image: its info, its tags and its bytes.\<close>

record ImageInfo =
  infoWidth :: nat
  infoHeight :: nat
  infoType :: ImageType
  infoLayout :: ImageLayout

record FrameImage =
  imageInfo :: ImageInfo
  imageTags :: "(string \<times> string) list"
  imageData :: "byte list"

text \<open>\<open>AV::IO::Info\<close>: the video layers and the tags of a file.\<close>

record IOInfo =
  video :: "ImageInfo list"
  tags :: "(string \<times> string) list"

text \<open>The calls a writer makes on its file handle.\<close>

datatype IOCall =
    OpenWrite string
  | WriteHeader IOInfo DPXVersion Endian ColorProfile
  | WriteBytes "byte list"
  | WriteFinish

subsection \<open>The writer\<close>

text \<open>\<open>Write::_getImageType\<close> (lines 48--51): every image is converted to 10-bit RGB.\<close>

definition DPX_getImageType :: "ImageType \<Rightarrow> ImageType" where
  "DPX_getImageType t = RGB_U10"

text \<open>\<open>Write::_getImageLayout\<close> (lines 53--59): most significant byte first, rows
  aligned to 4 bytes.\<close>

definition DPX_getImageLayout :: ImageLayout where
  "DPX_getImageLayout = defaultLayout\<lparr>layoutEndian := MSB, alignment := 4\<rparr>"

text \<open>
  \<open>Write::_write(fileName, image)\<close> (lines 61--77): open the file for writing, write
  the header for the image's info and tags with the writer's version and byte order and
  a colour profile chosen from the write options' colour space (none: raw), then all
  of the image's bytes (\<open>getDataByteCount\<close> of them), then finish.
\<close>

definition DPX_write :: "DPXOptions \<Rightarrow> string \<Rightarrow> string \<Rightarrow> FrameImage \<Rightarrow> IOCall list" where
  "DPX_write options colorSpace fileName img =
     (let info = \<lparr>video = [imageInfo img], tags = imageTags img\<rparr>;
          profile = (if colorSpace = [] then Raw else FilmPrint)
      in [OpenWrite fileName,
          WriteHeader info (version options) (endian options) profile,
          WriteBytes (imageData img),
          WriteFinish])"

text \<open>
  The writer of a sequence writes each frame with \<open>_write\<close> in turn; one call per
  frame file, as the spec's sequence layer requires.
\<close>

definition DPX_write_frames :: "DPXOptions \<Rightarrow> string \<Rightarrow> (string \<times> FrameImage) list \<Rightarrow> IOCall list" where
  "DPX_write_frames options colorSpace frames =
     concat (map (\<lambda>(f, img). DPX_write options colorSpace f img) frames)"

text \<open>
  \<open>Write::Private\<close> and \<open>Write::create\<close> (lines 19--22, 33--46): the writer keeps a
  copy of the plugin's options and the colour space of its write options; its
  \<open>_write\<close> is \<open>DPX_write\<close> with them.
\<close>

record DPX_Writer =
  dw_options :: DPXOptions
  dw_colorSpace :: string

definition DPX_Write_create :: "DPXOptions \<Rightarrow> string \<Rightarrow> DPX_Writer" where
  "DPX_Write_create options colorSpace = \<lparr>dw_options = options, dw_colorSpace = colorSpace\<rparr>"

definition DPX_Writer_write :: "DPX_Writer \<Rightarrow> (string \<times> FrameImage) list \<Rightarrow> IOCall list" where
  "DPX_Writer_write w frames = DPX_write_frames (dw_options w) (dw_colorSpace w) frames"

text \<open>The file a call opens, the bytes it writes, the profile a header carries.\<close>

fun opened_file :: "IOCall \<Rightarrow> string option" where
  "opened_file (OpenWrite f) = Some f"
| "opened_file _ = None"

fun written_bytes :: "IOCall \<Rightarrow> byte list" where
  "written_bytes (WriteBytes bs) = bs"
| "written_bytes _ = []"

fun header_profile :: "IOCall \<Rightarrow> ColorProfile option" where
  "header_profile (WriteHeader i v e p) = Some p"
| "header_profile _ = None"

subsection \<open>Properties\<close>

lemma DPX_opened_files:
  "List.map_filter opened_file (DPX_write_frames options colorSpace frames) = map fst frames"
  by (induction frames) (auto simp: DPX_write_frames_def DPX_write_def map_filter_simps)

text \<open>
  C35. Writing a sequence of frames with the DPX writer opens exactly the frame files, in
  order, one open each; writes exactly the frames' bytes, in order; writes one header per
  frame, each tagged with the raw colour profile when no colour space is set and the
  film-print profile otherwise; and makes four calls per frame.
\<close>

theorem DPX_write_frames_trace:
  "List.map_filter opened_file (DPX_write_frames options colorSpace frames) = map fst frames \<and>
   concat (map written_bytes (DPX_write_frames options colorSpace frames)) = concat (map (imageData \<circ> snd) frames) \<and>
   List.map_filter header_profile (DPX_write_frames options colorSpace frames) =
     replicate (length frames) (if colorSpace = [] then Raw else FilmPrint) \<and>
   length (DPX_write_frames options colorSpace frames) = 4 * length frames"
  by (induction frames) (auto simp: DPX_write_frames_def DPX_write_def map_filter_simps)

end
