(* ===== verification/IOSystem.thy ===== *)
theory IOSystem
  imports PPM JPEG "HOL-Library.AList"
begin

text \<open>
  The plugin registry of the image I/O layer (\<open>AV::IO::System\<close>).  Its code is not
  under \<open>src/\<close>; it is modelled from the spec (sections 4.3 and 8): plugins are
  registered once, in order, each with a name and the file extensions it claims; an
  extension claimed twice is a \<open>DuplicateExtension\<close> error; a path resolves, by its
  extension compared without case, to the plugin claiming it or to
  \<open>NoPluginForExtension\<close>.  Each entry owns its plugin's state; the plugins whose
  option code is in the repository are the NetPBM plugin (\<open>PPM\<close>) and the JPEG plugin,
  whose \<open>getOptions\<close>/\<open>setOptions\<close> serialize its \<open>Settings\<close> with the helpers of
  \<open>JPEGJSONInline.h\<close>.  The option calls of every plugin go through one dispatch,
  \<open>plugin_getOptions\<close>/\<open>plugin_setOptions\<close>, the interface the settings code uses.
\<close>

subsection \<open>Plugins\<close>

datatype PluginState = PPMState PPM_Plugin | JPEGState Settings

record PluginEntry =
  pluginName :: string
  fileExtensions :: "string list"
  pluginState :: PluginState

type_synonym registry = "PluginEntry list"

text \<open>\<open>IPlugin::getOptions\<close>, dispatched on the plugin.\<close>

fun plugin_getOptions :: "PluginState \<Rightarrow> json" where
  "plugin_getOptions (PPMState p) = PPM_getOptions p"
| "plugin_getOptions (JPEGState s) = toJSON_JPEG_Settings s"

text \<open>
  \<open>IPlugin::setOptions\<close>: the plugin's \<open>fromJSON\<close> into its own options; what was
  assigned before an exception stays, and the exception is returned beside the state.
\<close>

fun plugin_setOptions :: "json \<Rightarrow> PluginState \<Rightarrow> PluginState \<times> error option" where
  "plugin_setOptions v (PPMState p) = (let (p', e) = PPM_setOptions v p in (PPMState p', e))"
| "plugin_setOptions v (JPEGState s) = (let (s', e) = fromJSON_JPEG_Settings v s in (JPEGState s', e))"

subsection \<open>The registry\<close>

text \<open>Lower-case ASCII, for the case-insensitive comparison of extensions.\<close>

definition lower_char :: "char \<Rightarrow> char" where
  "lower_char c = (let n = (of_char c :: nat) in if 65 \<le> n \<and> n \<le> 90 then char_of (n + 32) else c)"

definition lower :: "string \<Rightarrow> string" where
  "lower s = map lower_char s"

definition claimed_extensions :: "registry \<Rightarrow> string list" where
  "claimed_extensions reg = concat (map (\<lambda>e. map lower (fileExtensions e)) reg)"

text \<open>\<open>register(entry)\<close>: appended, unless one of its extensions is already claimed
  (or claimed twice by the entry itself).\<close>

definition register :: "PluginEntry \<Rightarrow> registry \<Rightarrow> error + registry" where
  "register e reg =
     (let exts = map lower (fileExtensions e)
      in case filter (\<lambda>x. x \<in> set (claimed_extensions reg)) exts of
           x # _ \<Rightarrow> Inl (DuplicateExtension x)
         | [] \<Rightarrow>
             (if distinct exts then Inr (reg @ [e])
              else Inl (DuplicateExtension (hd (filter (\<lambda>x. 1 < count_list exts x) exts)))))"

text \<open>The extension of a path: what follows its last dot, with the dot.\<close>

definition path_extension :: "string \<Rightarrow> string" where
  "path_extension p =
     (if CHR ''.'' \<in> set p then CHR ''.'' # rev (takeWhile (\<lambda>c. c \<noteq> CHR ''.'') (rev p)) else [])"

definition resolve :: "string \<Rightarrow> registry \<Rightarrow> error + PluginEntry" where
  "resolve path reg =
     (let x = lower (path_extension path)
      in case filter (\<lambda>e. x \<in> set (map lower (fileExtensions e))) reg of
           [] \<Rightarrow> Inl (NoPluginForExtension x)
         | e # _ \<Rightarrow> Inr e)"

definition getPluginNames :: "registry \<Rightarrow> string list" where
  "getPluginNames reg = map pluginName reg"

text \<open>\<open>resolveByName(name)\<close> (spec section 4.3): the plugin of that name.\<close>

definition resolveByName :: "string \<Rightarrow> registry \<Rightarrow> error + PluginEntry" where
  "resolveByName name reg =
     (case filter (\<lambda>e. pluginName e = name) reg of
        [] \<Rightarrow> Inl (NoPluginNamed name)
      | e # _ \<Rightarrow> Inr e)"

text \<open>Start-up registration of a list of plugins, in order; the first refusal stops it.\<close>

fun register_all :: "PluginEntry list \<Rightarrow> registry \<Rightarrow> error + registry" where
  "register_all [] reg = Inr reg"
| "register_all (e # es) reg = bind_sum (register e reg) (register_all es)"

text \<open>\<open>IO::System::getOptions(name)\<close> and \<open>setOptions(name, value)\<close>.\<close>

definition io_getOptions :: "string \<Rightarrow> registry \<Rightarrow> json" where
  "io_getOptions name reg =
     (case filter (\<lambda>e. pluginName e = name) reg of
        [] \<Rightarrow> JNull
      | e # _ \<Rightarrow> plugin_getOptions (pluginState e))"

fun io_setOptions :: "string \<Rightarrow> json \<Rightarrow> registry \<Rightarrow> registry \<times> error option" where
  "io_setOptions name v [] = ([], None)"
| "io_setOptions name v (e # reg) =
     (if pluginName e = name
      then (let (st, err) = plugin_setOptions v (pluginState e) in (e\<lparr>pluginState := st\<rparr> # reg, err))
      else (let (reg', err) = io_setOptions name v reg in (e # reg', err)))"

subsection \<open>Properties\<close>


lemma register_Inr:
  "register e reg = Inr reg' \<Longrightarrow>
   reg' = reg @ [e] \<and> distinct (map lower (fileExtensions e)) \<and>
   set (map lower (fileExtensions e)) \<inter> set (claimed_extensions reg) = {}"
  by (auto simp: register_def Let_def filter_empty_conv split: list.splits if_splits)

lemma register_duplicate:
  assumes "x \<in> set (map lower (fileExtensions e))" "x \<in> set (claimed_extensions reg)"
  shows "\<exists>y. register e reg = Inl (DuplicateExtension y)"
proof -
  have "filter (\<lambda>x. x \<in> set (claimed_extensions reg)) (map lower (fileExtensions e)) \<noteq> []"
    using assms by (auto simp: filter_empty_conv)
  then show ?thesis
    by (auto simp: register_def Let_def neq_Nil_conv)
qed

lemma register_all_order:
  "register_all es reg = Inr reg' \<Longrightarrow> reg' = reg @ es"
proof (induction es arbitrary: reg)
  case (Cons e es)
  then obtain r where r: "register e reg = Inr r" "register_all es r = Inr reg'"
    by (auto simp: bind_sum_eq_Inr)
  then have "r = reg @ [e]" using register_Inr by blast
  moreover have "reg' = r @ es" by (rule Cons.IH [OF r(2)])
  ultimately show ?case by simp
qed simp

lemma resolveByName_registered:
  "distinct (getPluginNames reg) \<Longrightarrow> e \<in> set reg \<Longrightarrow> resolveByName (pluginName e) reg = Inr e"
proof (induction reg)
  case (Cons a reg)
  then show ?case
    by (cases "pluginName a = pluginName e")
       (auto simp: resolveByName_def getPluginNames_def filter_empty_conv split: list.split)
qed simp

lemma register_distinct:
  "distinct (claimed_extensions reg) \<Longrightarrow> register e reg = Inr reg' \<Longrightarrow> distinct (claimed_extensions reg')"
  by (drule register_Inr) (auto simp: claimed_extensions_def)

lemma filter_claimed_unique:
  "distinct (claimed_extensions reg) \<Longrightarrow> e \<in> set reg \<Longrightarrow> x \<in> set (map lower (fileExtensions e)) \<Longrightarrow>
   filter (\<lambda>e'. x \<in> set (map lower (fileExtensions e'))) reg = [e]"
proof (induction reg)
  case Nil
  then show ?case by simp
next
  case (Cons a reg)
  show ?case
  proof (cases "x \<in> set (map lower (fileExtensions a))")
    case True
    then have "x \<notin> set (claimed_extensions reg)"
      using Cons.prems(1) by (auto simp: claimed_extensions_def)
    then have "filter (\<lambda>e'. x \<in> set (map lower (fileExtensions e'))) reg = []" "e = a"
      using Cons.prems(2,3) by (auto simp: claimed_extensions_def filter_empty_conv)
    then show ?thesis using True by simp
  next
    case False
    then have "e \<in> set reg" "distinct (claimed_extensions reg)"
      using Cons.prems by (auto simp: claimed_extensions_def)
    then show ?thesis using False Cons.IH Cons.prems(3) by simp
  qed
qed

lemma resolve_registered:
  "distinct (claimed_extensions reg) \<Longrightarrow> e \<in> set reg \<Longrightarrow>
   lower (path_extension p) \<in> set (map lower (fileExtensions e)) \<Longrightarrow> resolve p reg = Inr e"
  unfolding resolve_def Let_def by (subst filter_claimed_unique) simp_all

lemma resolve_unclaimed:
  "lower (path_extension p) \<notin> set (claimed_extensions reg) \<Longrightarrow>
   resolve p reg = Inl (NoPluginForExtension (lower (path_extension p)))"
  by (auto simp: resolve_def claimed_extensions_def filter_empty_conv split: list.split)

text \<open>
  Registering a plugin that claims an extension an already registered plugin
  claims, in any letter case, fails with DuplicateExtension; and resolving a path
  whose extension no registered plugin claims fails with NoPluginForExtension.
\<close>

theorem registry_errors:
  assumes "register e1 reg = Inr reg1"
    and "x \<in> set (map lower (fileExtensions e1))" "x \<in> set (map lower (fileExtensions e2))"
    and "lower (path_extension p) \<notin> set (claimed_extensions reg1)"
  shows "(\<exists>y. register e2 reg1 = Inl (DuplicateExtension y)) \<and>
         resolve p reg1 = Inl (NoPluginForExtension (lower (path_extension p)))"
proof
  have "x \<in> set (claimed_extensions reg1)"
    using register_Inr [OF assms(1)] assms(2) by (auto simp: claimed_extensions_def)
  then show "\<exists>y. register e2 reg1 = Inl (DuplicateExtension y)"
    using assms(3) by (rule register_duplicate [rotated])
  show "resolve p reg1 = Inl (NoPluginForExtension (lower (path_extension p)))"
    using assms(4) by (rule resolve_unclaimed)
qed

theorem registry_errors_witness:
  "(\<exists>y. register \<lparr>pluginName = ''JPEG'', fileExtensions = [''.PPM'', ''.jpg''], pluginState = JPEGState \<lparr>quality = 90\<rparr>\<rparr>
          [\<lparr>pluginName = ''PPM'', fileExtensions = [''.ppm''], pluginState = PPMState \<lparr>ppm_options = \<lparr>data = ASCII\<rparr>\<rparr>\<rparr>]
        = Inl (DuplicateExtension y)) \<and>
   resolve ''shot.tga'' [\<lparr>pluginName = ''PPM'', fileExtensions = [''.ppm''], pluginState = PPMState \<lparr>ppm_options = \<lparr>data = ASCII\<rparr>\<rparr>\<rparr>]
     = Inl (NoPluginForExtension ''.tga'')"
  using registry_errors [of "\<lparr>pluginName = ''PPM'', fileExtensions = [''.ppm''], pluginState = PPMState \<lparr>ppm_options = \<lparr>data = ASCII\<rparr>\<rparr>\<rparr>"
      "[]" "[\<lparr>pluginName = ''PPM'', fileExtensions = [''.ppm''], pluginState = PPMState \<lparr>ppm_options = \<lparr>data = ASCII\<rparr>\<rparr>\<rparr>]"
      "''.ppm''" "\<lparr>pluginName = ''JPEG'', fileExtensions = [''.PPM'', ''.jpg''], pluginState = JPEGState \<lparr>quality = 90\<rparr>\<rparr>" "''shot.tga''"]
  by (simp add: register_def claimed_extensions_def lower_def lower_char_def path_extension_def char_of_eq_iff resolve_def)

end
