(* ===== verification/AVSettings.thy ===== *)
theory AVSettings
  imports IOSystem
begin

text \<open>
  The AV settings of the user interface, \<open>src/lib/djvUI/AVSettings.cpp\<close>: \<open>save\<close>
  writes the AV system's time units, alpha blending, default speed, image filter
  options and LCD-text flag, and every I/O plugin's options under the plugin's name,
  into one JSON object; \<open>load\<close> reads them back.  The AV system and the value types of
  the five settings belong to files that are not under \<open>src/\<close>: their values range
  over type parameters, and their JSON conversions are an interface, a codec per
  setting (\<open>toJSON\<close> and a \<open>fromJSON\<close> that may throw), on which the lemmas are
  stated.  The plugins' options go through the registry of \<open>IOSystem\<close>.
\<close>

subsection \<open>The settings and their codecs\<close>

text \<open>The values the AV system holds for the settings (\<open>AVSystem::observe...\<close>).\<close>

record ('tu, 'ab, 'fps, 'ifo) AVSystemState =
  timeUnits :: 'tu
  alphaBlend :: 'ab
  defaultSpeed :: 'fps
  imageFilterOptions :: 'ifo
  lcdText :: bool

record ('tu, 'ab, 'fps, 'ifo) AVCodecs =
  tuCodec :: "'tu codec"
  abCodec :: "'ab codec"
  fpsCodec :: "'fps codec"
  ifoCodec :: "'ifo codec"
  boolCodec :: "bool codec"

text \<open>
  The values \<open>load\<close> starts from before reading (lines 62--66):
  \<open>Time::Units::First\<close>, \<open>AlphaBlend::Straight\<close>, \<open>Time::getDefaultSpeed()\<close>,
  \<open>ImageFilterOptions()\<close> and \<open>false\<close>; the first four are parameters.
\<close>

definition load_defaults :: "'tu \<Rightarrow> 'ab \<Rightarrow> 'fps \<Rightarrow> 'ifo \<Rightarrow> ('tu, 'ab, 'fps, 'ifo) AVSystemState" where
  "load_defaults tu ab fps ifo =
     \<lparr>timeUnits = tu, alphaBlend = ab, defaultSpeed = fps, imageFilterOptions = ifo, lcdText = False\<rparr>"

text \<open>
  \<open>ISettings::read(name, object, out)\<close> (\<open>ISettingsTemplates.h\<close>, not under
  \<open>src/\<close>): a member that is present is converted into \<open>out\<close>; a conversion that
  throws is reported to the log and leaves \<open>out\<close> as it was.
\<close>

definition read_setting :: "string \<Rightarrow> (string \<times> json) list \<Rightarrow> 'v codec \<Rightarrow> 'v \<Rightarrow> 'v" where
  "read_setting name object c out =
     (case map_of object name of
        None \<Rightarrow> out
      | Some v \<Rightarrow> (case dec c v out of Inl _ \<Rightarrow> out | Inr x \<Rightarrow> x))"

text \<open>\<open>ISettings::write(name, value, object)\<close>: \<open>object[name] = toJSON(value)\<close>.\<close>

definition write_setting :: "string \<Rightarrow> 'v codec \<Rightarrow> 'v \<Rightarrow> (string \<times> json) list \<Rightarrow> (string \<times> json) list" where
  "write_setting name c v object = AList.update name (enc c v) object"

text \<open>Two plugin states of the same plugin kind, and two registries that list the same
  plugins (names, extensions and kinds) in the same order.\<close>

fun same_kind :: "PluginState \<Rightarrow> PluginState \<Rightarrow> bool" where
  "same_kind (PPMState _) (PPMState _) = True"
| "same_kind (JPEGState _) (JPEGState _) = True"
| "same_kind _ _ = False"

definition same_plugin :: "PluginEntry \<Rightarrow> PluginEntry \<Rightarrow> bool" where
  "same_plugin e e' \<longleftrightarrow>
     pluginName e = pluginName e' \<and> fileExtensions e = fileExtensions e' \<and>
     same_kind (pluginState e) (pluginState e')"

subsection \<open>Save and load\<close>

text \<open>\<open>AV::save()\<close> (lines 88--103).\<close>

definition AVSettings_save ::
  "('tu, 'ab, 'fps, 'ifo) AVCodecs \<Rightarrow> ('tu, 'ab, 'fps, 'ifo) AVSystemState \<Rightarrow> registry \<Rightarrow> json" where
  "AVSettings_save cs av reg =
     (let o1 = write_setting ''TimeUnits'' (tuCodec cs) (timeUnits av) [];
          o2 = write_setting ''AlphaBlend'' (abCodec cs) (alphaBlend av) o1;
          o3 = write_setting ''DefaultSpeed'' (fpsCodec cs) (defaultSpeed av) o2;
          o4 = write_setting ''ImageFilterOptions'' (ifoCodec cs) (imageFilterOptions av) o3;
          o5 = write_setting ''LCDText'' (boolCodec cs) (lcdText av) o4
      in JObject (foldl (\<lambda>obj i. AList.update i (io_getOptions i reg) obj) o5 (getPluginNames reg)))"

text \<open>
  The plugin loop of \<open>AV::load\<close> (lines 77--84): for each plugin name, in the
  registry's order, the member of that name, if present, is passed to
  \<open>setOptions\<close>; an exception ends the loop and leaves \<open>load\<close>.
\<close>

fun load_plugins :: "(string \<times> json) list \<Rightarrow> string list \<Rightarrow> registry \<Rightarrow> registry \<times> error option" where
  "load_plugins object [] reg = (reg, None)"
| "load_plugins object (i # is) reg =
     (case map_of object i of
        None \<Rightarrow> load_plugins object is reg
      | Some v \<Rightarrow>
          (let (reg', err) = io_setOptions i v reg
           in case err of None \<Rightarrow> load_plugins object is reg' | Some e \<Rightarrow> (reg', Some e)))"

text \<open>
  \<open>AV::load(value)\<close> (lines 56--86): a value that is not an object is ignored;
  otherwise every setting is read over its default and stored in the AV system, then
  the plugins' options are loaded.
\<close>

definition AVSettings_load ::
  "('tu, 'ab, 'fps, 'ifo) AVCodecs \<Rightarrow> ('tu, 'ab, 'fps, 'ifo) AVSystemState \<Rightarrow> json \<Rightarrow>
   ('tu, 'ab, 'fps, 'ifo) AVSystemState \<Rightarrow> registry \<Rightarrow>
   ('tu, 'ab, 'fps, 'ifo) AVSystemState \<times> registry \<times> error option" where
  "AVSettings_load cs defaults value av reg =
     (case value of
        JObject object \<Rightarrow>
          (let av' = \<lparr>timeUnits = read_setting ''TimeUnits'' object (tuCodec cs) (timeUnits defaults),
                      alphaBlend = read_setting ''AlphaBlend'' object (abCodec cs) (alphaBlend defaults),
                      defaultSpeed = read_setting ''DefaultSpeed'' object (fpsCodec cs) (defaultSpeed defaults),
                      imageFilterOptions =
                        read_setting ''ImageFilterOptions'' object (ifoCodec cs) (imageFilterOptions defaults),
                      lcdText = read_setting ''LCDText'' object (boolCodec cs) (lcdText defaults)\<rparr>;
               (reg', err) = load_plugins object (getPluginNames reg) reg
           in (av', reg', err))
      | _ \<Rightarrow> (av, reg, None))"

text \<open>
  \<open>AV::_init\<close> and \<open>AV::create\<close> (lines 33--54): the settings object registers
  under its name and loads at once what the settings system stores for that name
  (\<open>ISettings::_load\<close>, outside \<open>src/\<close>: nothing when nothing is stored).
\<close>

definition AVSettings_init ::
  "('tu, 'ab, 'fps, 'ifo) AVCodecs \<Rightarrow> ('tu, 'ab, 'fps, 'ifo) AVSystemState \<Rightarrow> json option \<Rightarrow>
   ('tu, 'ab, 'fps, 'ifo) AVSystemState \<Rightarrow> registry \<Rightarrow>
   ('tu, 'ab, 'fps, 'ifo) AVSystemState \<times> registry \<times> error option" where
  "AVSettings_init cs defaults stored av reg =
     (case stored of None \<Rightarrow> (av, reg, None) | Some value \<Rightarrow> AVSettings_load cs defaults value av reg)"

subsection \<open>Properties\<close>


lemma plugin_set_get:
  "same_kind st st' \<Longrightarrow> plugin_setOptions (plugin_getOptions st) st' = (st, None)"
  by (cases st; cases st')
     (simp_all add: PPM_setOptions_def PPM_getOptions_def fromJSON_PPM_Options_def toJSON_PPM_Options_def
       PPM_Options_member_def fromJSON_JPEG_Settings_def toJSON_JPEG_Settings_def JPEG_Settings_member_def)

lemma io_setOptions_append:
  "i \<notin> pluginName ` set xs \<Longrightarrow>
   io_setOptions i v (xs @ ys) = (xs @ fst (io_setOptions i v ys), snd (io_setOptions i v ys))"
  by (induction xs) (auto split: prod.splits)

lemma io_getOptions_member:
  "distinct (map pluginName reg) \<Longrightarrow> r \<in> set reg \<Longrightarrow>
   io_getOptions (pluginName r) reg = plugin_getOptions (pluginState r)"
proof (induction reg)
  case Nil
  then show ?case by simp
next
  case (Cons e reg)
  then show ?case
    by (cases "e = r") (auto simp: io_getOptions_def)
qed

lemma map_of_foldl_update:
  "map_of (foldl (\<lambda>obj i. AList.update i (f i) obj) o0 ns) k = (if k \<in> set ns then Some (f k) else map_of o0 k)"
  by (induction ns arbitrary: o0) (auto simp: update_conv')

lemma load_plugins_restore:
  assumes "list_all2 same_plugin rs rs'" "distinct (map pluginName (ps @ rs))"
    and "\<forall>r \<in> set rs. map_of object (pluginName r) = Some (plugin_getOptions (pluginState r))"
  shows "load_plugins object (map pluginName rs) (ps @ rs') = (ps @ rs, None)"
  using assms
proof (induction rs rs' arbitrary: ps rule: list_all2_induct)
  case Nil
  then show ?case by simp
next
  case (Cons r rs r' rs')
  let ?i = "pluginName r"
  have same: "pluginName r' = ?i" "fileExtensions r' = fileExtensions r" "same_kind (pluginState r) (pluginState r')"
    using Cons.hyps(1) by (auto simp: same_plugin_def)
  have notin: "?i \<notin> pluginName ` set ps"
    using Cons.prems(1) by auto
  have r: "r'\<lparr>pluginState := pluginState r\<rparr> = r"
    using same by (simp add: PluginEntry.equality)
  have set: "io_setOptions ?i (plugin_getOptions (pluginState r)) (ps @ r' # rs') = ((ps @ [r]) @ rs', None)"
    using io_setOptions_append [OF notin] same(1) plugin_set_get [OF same(3)] r by simp
  have "load_plugins object (map pluginName rs) ((ps @ [r]) @ rs') = ((ps @ [r]) @ rs, None)"
    using Cons.IH [of "ps @ [r]"] Cons.prems by simp
  then show ?case
    using Cons.prems(2) set by simp
qed

lemma read_setting_roundtrip:
  "codec_roundtrip c \<Longrightarrow> map_of object name = Some (enc c v) \<Longrightarrow> read_setting name object c out = v"
  by (simp add: read_setting_def codec_roundtrip_def)

text \<open>
  C36. Saving the AV settings and loading the saved value, into an application whose
  registry lists the same plugins, restores every AV setting and every plugin's options
  exactly and raises nothing, provided each setting's JSON conversion round-trips and
  the plugin names are distinct and differ from the settings' keys.  The PPM and JPEG
  plugins' own option round trips are what makes the plugin part hold.
\<close>

theorem AVSettings_save_load:
  assumes codecs: "codec_roundtrip (tuCodec cs)" "codec_roundtrip (abCodec cs)" "codec_roundtrip (fpsCodec cs)"
      "codec_roundtrip (ifoCodec cs)" "codec_roundtrip (boolCodec cs)"
    and names: "distinct (getPluginNames reg)"
      "set (getPluginNames reg) \<inter> {''TimeUnits'', ''AlphaBlend'', ''DefaultSpeed'', ''ImageFilterOptions'', ''LCDText''} = {}"
    and same: "list_all2 same_plugin reg reg'"
  shows "AVSettings_load cs defaults (AVSettings_save cs av reg) av' reg' = (av, reg, None)"
proof -
  let ?o5 = "write_setting ''LCDText'' (boolCodec cs) (lcdText av)
              (write_setting ''ImageFilterOptions'' (ifoCodec cs) (imageFilterOptions av)
               (write_setting ''DefaultSpeed'' (fpsCodec cs) (defaultSpeed av)
                (write_setting ''AlphaBlend'' (abCodec cs) (alphaBlend av)
                 (write_setting ''TimeUnits'' (tuCodec cs) (timeUnits av) []))))"
  let ?obj = "foldl (\<lambda>obj i. AList.update i (io_getOptions i reg) obj) ?o5 (getPluginNames reg)"
  have save: "AVSettings_save cs av reg = JObject ?obj"
    by (simp add: AVSettings_save_def)
  have key: "map_of ?obj k = map_of ?o5 k" if "k \<notin> set (getPluginNames reg)" for k
    using that by (simp add: map_of_foldl_update)
  have keys: "''TimeUnits'' \<notin> set (getPluginNames reg)" "''AlphaBlend'' \<notin> set (getPluginNames reg)"
    "''DefaultSpeed'' \<notin> set (getPluginNames reg)" "''ImageFilterOptions'' \<notin> set (getPluginNames reg)"
    "''LCDText'' \<notin> set (getPluginNames reg)"
    using names(2) by auto
  have av: "\<lparr>timeUnits = read_setting ''TimeUnits'' ?obj (tuCodec cs) (timeUnits defaults),
             alphaBlend = read_setting ''AlphaBlend'' ?obj (abCodec cs) (alphaBlend defaults),
             defaultSpeed = read_setting ''DefaultSpeed'' ?obj (fpsCodec cs) (defaultSpeed defaults),
             imageFilterOptions = read_setting ''ImageFilterOptions'' ?obj (ifoCodec cs) (imageFilterOptions defaults),
             lcdText = read_setting ''LCDText'' ?obj (boolCodec cs) (lcdText defaults)\<rparr> = av"
    using codecs key keys
    by (simp add: read_setting_roundtrip write_setting_def update_conv')
  have plugins: "\<forall>r \<in> set reg. map_of ?obj (pluginName r) = Some (plugin_getOptions (pluginState r))"
    using names(1) by (simp add: map_of_foldl_update getPluginNames_def io_getOptions_member)
  have names': "getPluginNames reg' = getPluginNames reg"
    using same by (induction rule: list_all2_induct) (simp_all add: getPluginNames_def same_plugin_def)
  have "load_plugins ?obj (map pluginName reg) ([] @ reg') = ([] @ reg, None)"
    by (rule load_plugins_restore) (use same names(1) plugins in \<open>simp_all add: getPluginNames_def\<close>)
  then show ?thesis
    using save av names' by (simp add: AVSettings_load_def getPluginNames_def)
qed

theorem AVSettings_save_load_witness:
  "AVSettings_load (\<lparr>tuCodec = \<lparr>enc = \<lambda>v. JNumber (int v), dec = \<lambda>j w. (case j of JNumber n \<Rightarrow> Inr (nat n) | _ \<Rightarrow> Inl JsonTypeError)\<rparr>, abCodec = \<lparr>enc = \<lambda>v. JNumber (int v), dec = \<lambda>j w. (case j of JNumber n \<Rightarrow> Inr (nat n) | _ \<Rightarrow> Inl JsonTypeError)\<rparr>, fpsCodec = \<lparr>enc = \<lambda>v. JNumber (int v), dec = \<lambda>j w. (case j of JNumber n \<Rightarrow> Inr (nat n) | _ \<Rightarrow> Inl JsonTypeError)\<rparr>, ifoCodec = \<lparr>enc = \<lambda>v. JNumber (int v), dec = \<lambda>j w. (case j of JNumber n \<Rightarrow> Inr (nat n) | _ \<Rightarrow> Inl JsonTypeError)\<rparr>, boolCodec = \<lparr>enc = JBool, dec = \<lambda>j w. (case j of JBool b \<Rightarrow> Inr b | _ \<Rightarrow> Inl JsonTypeError)\<rparr>\<rparr>) (\<lparr>timeUnits = 0::nat, alphaBlend = 0::nat, defaultSpeed = 0::nat, imageFilterOptions = 0::nat, lcdText = False\<rparr>) (AVSettings_save (\<lparr>tuCodec = \<lparr>enc = \<lambda>v. JNumber (int v), dec = \<lambda>j w. (case j of JNumber n \<Rightarrow> Inr (nat n) | _ \<Rightarrow> Inl JsonTypeError)\<rparr>, abCodec = \<lparr>enc = \<lambda>v. JNumber (int v), dec = \<lambda>j w. (case j of JNumber n \<Rightarrow> Inr (nat n) | _ \<Rightarrow> Inl JsonTypeError)\<rparr>, fpsCodec = \<lparr>enc = \<lambda>v. JNumber (int v), dec = \<lambda>j w. (case j of JNumber n \<Rightarrow> Inr (nat n) | _ \<Rightarrow> Inl JsonTypeError)\<rparr>, ifoCodec = \<lparr>enc = \<lambda>v. JNumber (int v), dec = \<lambda>j w. (case j of JNumber n \<Rightarrow> Inr (nat n) | _ \<Rightarrow> Inl JsonTypeError)\<rparr>, boolCodec = \<lparr>enc = JBool, dec = \<lambda>j w. (case j of JBool b \<Rightarrow> Inr b | _ \<Rightarrow> Inl JsonTypeError)\<rparr>\<rparr>) (\<lparr>timeUnits = 1::nat, alphaBlend = 2::nat, defaultSpeed = 24::nat, imageFilterOptions = 3::nat, lcdText = True\<rparr>) ([\<lparr>pluginName = ''PPM'', fileExtensions = [''.ppm'', ''.pnm''], pluginState = PPMState \<lparr>ppm_options = \<lparr>data = Binary\<rparr>\<rparr>\<rparr>, \<lparr>pluginName = ''JPEG'', fileExtensions = [''.jpg''], pluginState = JPEGState \<lparr>quality = 90\<rparr>\<rparr>])) (\<lparr>timeUnits = 0::nat, alphaBlend = 0::nat, defaultSpeed = 0::nat, imageFilterOptions = 0::nat, lcdText = False\<rparr>) ([\<lparr>pluginName = ''PPM'', fileExtensions = [''.ppm'', ''.pnm''], pluginState = PPMState \<lparr>ppm_options = \<lparr>data = ASCII\<rparr>\<rparr>\<rparr>, \<lparr>pluginName = ''JPEG'', fileExtensions = [''.jpg''], pluginState = JPEGState \<lparr>quality = 10\<rparr>\<rparr>]) = (\<lparr>timeUnits = 1::nat, alphaBlend = 2::nat, defaultSpeed = 24::nat, imageFilterOptions = 3::nat, lcdText = True\<rparr>, [\<lparr>pluginName = ''PPM'', fileExtensions = [''.ppm'', ''.pnm''], pluginState = PPMState \<lparr>ppm_options = \<lparr>data = Binary\<rparr>\<rparr>\<rparr>, \<lparr>pluginName = ''JPEG'', fileExtensions = [''.jpg''], pluginState = JPEGState \<lparr>quality = 90\<rparr>\<rparr>], None)"
  by (rule AVSettings_save_load) (simp_all add: codec_roundtrip_def getPluginNames_def same_plugin_def)

end
