(* ===== verification/FileActions.thy ===== *)
theory FileActions
  imports DJV_Prelude "HOL-Library.AList"
begin

text \<open>
  The file actions of the viewer, \<open>src/lib/djvViewLib/FileSystem.cpp\<close>: the
  \<open>Open\<close>, \<open>Reload\<close>, \<open>Close\<close>, \<open>Export\<close> and \<open>Exit\<close> actions with their texts
  and shortcuts, the observers of their clicks, the subjects through which the system
  announces an opened file and a close request, the file menu, and the enabling of
  \<open>Close\<close> and \<open>Export\<close> by the current media.  The dialogs the observers open (the
  file browser and the exit confirmation) belong to \<open>djvUI\<close> and are modelled by
  whether one is showing; the user's answers to them are events.  A media object is
  identified by the path it was created from.
\<close>

subsection \<open>Actions\<close>

text \<open>The GLFW key and modifier codes the shortcuts use.\<close>

definition GLFW_KEY_E :: nat where "GLFW_KEY_E = 69"
definition GLFW_KEY_O :: nat where "GLFW_KEY_O = 79"
definition GLFW_KEY_Q :: nat where "GLFW_KEY_Q = 81"
definition GLFW_KEY_R :: nat where "GLFW_KEY_R = 82"
definition GLFW_KEY_X :: nat where "GLFW_KEY_X = 88"
definition GLFW_MOD_CONTROL :: nat where "GLFW_MOD_CONTROL = 2"

text \<open>What the file system sets on a \<open>UI::Action\<close>.\<close>

record Action =
  actionText :: string
  shortcut :: "(nat \<times> nat) option"
  actionEnabled :: bool

definition newAction :: "string \<Rightarrow> nat \<Rightarrow> Action" where
  "newAction t key = \<lparr>actionText = t, shortcut = Some (key, GLFW_MOD_CONTROL), actionEnabled = True\<rparr>"

subsection \<open>The file system\<close>

text \<open>
  \<open>FileSystem::Private\<close> (lines 51--57): the actions and the names of the actions
  that have a click observer; the \<open>opened\<close> subject (its value, and every value it has
  announced, since \<open>setAlways\<close> notifies even an unchanged value) and the \<open>close\<close>
  subject (the number of requests it has announced).  The remaining fields are the
  context the observers work in: whether the file-browser and dialog systems exist,
  whether a dialog is showing, and whether the application has exited.
\<close>

record FileSystem =
  actions :: "(string \<times> Action) list"
  clickedObservers :: "string list"
  opened :: "string option"
  openedLog :: "string list"
  closeRequests :: nat
  hasFileBrowser :: bool
  hasDialogSystem :: bool
  browserShowing :: bool
  confirmShowing :: bool
  exited :: bool

text \<open>\<open>FileSystem::_init\<close> (lines 59--147).\<close>

definition FileSystem_init :: "bool \<Rightarrow> bool \<Rightarrow> FileSystem" where
  "FileSystem_init fb ds =
     \<lparr>actions =
        AList.update ''Exit'' (newAction ''Exit'' GLFW_KEY_Q)
        (AList.update ''Export'' (newAction ''Export'' GLFW_KEY_X)
        (AList.update ''Close'' (newAction ''Close'' GLFW_KEY_E)
        (AList.update ''Reload'' (newAction ''Reload'' GLFW_KEY_R)
        (AList.update ''Open'' (newAction ''Open'' GLFW_KEY_O) [])))),
      clickedObservers = [''Open'', ''Close'', ''Exit''],
      opened = None, openedLog = [], closeRequests = 0,
      hasFileBrowser = fb, hasDialogSystem = ds, browserShowing = False, confirmShowing = False,
      exited = False\<rparr>"

text \<open>\<open>FileSystem::open(value)\<close> (lines 173--177): a media for the path, announced.\<close>

definition FileSystem_open :: "string \<Rightarrow> FileSystem \<Rightarrow> FileSystem" where
  "FileSystem_open value s = s\<lparr>opened := Some value, openedLog := openedLog s @ [value]\<rparr>"

text \<open>
  A click on an action (\<open>observeClicked\<close> becomes true) runs the action's observer,
  if it has one: \<open>Open\<close> shows the file browser (lines 88--109), \<open>Close\<close> announces a
  close request (lines 110--121), \<open>Exit\<close> asks for confirmation (lines 122--146).
\<close>

definition clickAction :: "string \<Rightarrow> FileSystem \<Rightarrow> FileSystem" where
  "clickAction name s =
     (if name \<notin> set (clickedObservers s) then s
      else if name = ''Open'' then (if hasFileBrowser s then s\<lparr>browserShowing := True\<rparr> else s)
      else if name = ''Close'' then s\<lparr>closeRequests := Suc (closeRequests s)\<rparr>
      else if name = ''Exit'' then (if hasDialogSystem s then s\<lparr>confirmShowing := True\<rparr> else s)
      else s)"

text \<open>The file browser's callback (lines 99--105): the chosen file is opened.\<close>

definition browserAccept :: "string \<Rightarrow> FileSystem \<Rightarrow> FileSystem" where
  "browserAccept path s =
     (if browserShowing s then FileSystem_open path (s\<lparr>browserShowing := False\<rparr>) else s)"

text \<open>The confirmation's callback (lines 136--142): \<open>Yes\<close> exits the application.\<close>

definition confirmAnswer :: "bool \<Rightarrow> FileSystem \<Rightarrow> FileSystem" where
  "confirmAnswer yes s =
     (if confirmShowing s then s\<lparr>confirmShowing := False, exited := (exited s \<or> yes)\<rparr> else s)"

text \<open>\<open>setCurrentMedia(media)\<close> (lines 201--206).\<close>

definition setCurrentMedia :: "string option \<Rightarrow> FileSystem \<Rightarrow> FileSystem" where
  "setCurrentMedia media s =
     (let en = (media \<noteq> None);
          upd = (\<lambda>n acts. case map_of acts n of
                   Some a \<Rightarrow> AList.update n (a\<lparr>actionEnabled := en\<rparr>) acts
                 | None \<Rightarrow> acts)
      in s\<lparr>actions := upd ''Export'' (upd ''Close'' (actions s))\<rparr>)"

text \<open>\<open>getActions()\<close> and \<open>getMenuSortKey()\<close> (lines 179--187).\<close>

definition getActions :: "FileSystem \<Rightarrow> (string \<times> Action) list" where
  "getActions s = actions s"

definition getMenuSortKey :: string where
  "getMenuSortKey = ''0''"

text \<open>The entries of the menu \<open>createMenu()\<close> builds (lines 189--199).\<close>

datatype MenuItem = MenuAction string | MenuSeparator

definition createMenu :: "FileSystem \<Rightarrow> string \<times> MenuItem list" where
  "createMenu s =
     (''File'', [MenuAction ''Open'', MenuAction ''Close'', MenuAction ''Export'', MenuSeparator,
                 MenuAction ''Exit''])"

subsection \<open>Events\<close>

datatype FS_event =
    Click string
  | BrowserAccept string
  | ConfirmAnswer bool
  | SetCurrentMedia "string option"

fun FS_step :: "FS_event \<Rightarrow> FileSystem \<Rightarrow> FileSystem" where
  "FS_step (Click n) s = clickAction n s"
| "FS_step (BrowserAccept p) s = browserAccept p s"
| "FS_step (ConfirmAnswer b) s = confirmAnswer b s"
| "FS_step (SetCurrentMedia m) s = setCurrentMedia m s"

text \<open>A sequence of events, in order.\<close>

definition FS_run :: "FS_event list \<Rightarrow> FileSystem \<Rightarrow> FileSystem" where
  "FS_run es s = foldl (\<lambda>s e. FS_step e s) s es"

subsection \<open>Properties\<close>

text \<open>The application exits only when the user answers yes to a showing confirmation.\<close>

lemma FS_step_exits:
  "\<not> exited s \<Longrightarrow> exited (FS_step e s) \<Longrightarrow> e = ConfirmAnswer True \<and> confirmShowing s"
  by (cases e)
     (auto simp: clickAction_def browserAccept_def FileSystem_open_def confirmAnswer_def setCurrentMedia_def
      Let_def split: if_splits)

text \<open>A confirmation shows only after a click on \<open>Exit\<close>.\<close>

lemma FS_step_confirm:
  "\<not> confirmShowing s \<Longrightarrow> confirmShowing (FS_step e s) \<Longrightarrow> e = Click ''Exit'' \<and> hasDialogSystem s"
  by (cases e)
     (auto simp: clickAction_def browserAccept_def FileSystem_open_def confirmAnswer_def setCurrentMedia_def
      Let_def split: if_splits)

lemma FS_step_dialog_system [simp]: "hasDialogSystem (FS_step e s) = hasDialogSystem s"
  by (cases e) (simp_all add: clickAction_def browserAccept_def FileSystem_open_def confirmAnswer_def
      setCurrentMedia_def Let_def)

lemma FS_run_Cons [simp]: "FS_run (e # es) s = FS_run es (FS_step e s)"
  by (simp add: FS_run_def)

lemma FS_run_Nil [simp]: "FS_run [] s = s"
  by (simp add: FS_run_def)

lemma FS_run_exit_answer:
  "\<not> exited s \<Longrightarrow> exited (FS_run es s) \<Longrightarrow> \<exists>ys zs. es = ys @ [ConfirmAnswer True] @ zs"
proof (induction es arbitrary: s)
  case (Cons e es)
  show ?case
  proof (cases "exited (FS_step e s)")
    case True
    then have "e = ConfirmAnswer True" using FS_step_exits Cons.prems(1) by blast
    then show ?thesis by (metis append_Nil append_Cons)
  next
    case False
    have "exited (FS_run es (FS_step e s))" using Cons.prems(2) by simp
    then obtain ys zs where "es = ys @ [ConfirmAnswer True] @ zs" using Cons.IH [OF False] by blast
    then show ?thesis by (metis append_Cons)
  qed
qed simp

lemma FS_run_exit_confirmed:
  "\<not> exited s \<Longrightarrow> \<not> confirmShowing s \<Longrightarrow> exited (FS_run es s) \<Longrightarrow>
   hasDialogSystem s \<and> (\<exists>xs ys zs. es = xs @ [Click ''Exit''] @ ys @ [ConfirmAnswer True] @ zs)"
proof (induction es arbitrary: s)
  case (Cons e es)
  have ne: "\<not> exited (FS_step e s)" using FS_step_exits Cons.prems(1,2) by blast
  have ex: "exited (FS_run es (FS_step e s))" using Cons.prems(3) by simp
  show ?case
  proof (cases "confirmShowing (FS_step e s)")
    case True
    then have "e = Click ''Exit''" "hasDialogSystem s" using FS_step_confirm Cons.prems(2) by blast+
    moreover obtain ys zs where "es = ys @ [ConfirmAnswer True] @ zs"
      using FS_run_exit_answer [OF ne ex] by blast
    ultimately show ?thesis by (metis append_Nil append_Cons)
  next
    case False
    then obtain xs ys zs where "hasDialogSystem s" "es = xs @ [Click ''Exit''] @ ys @ [ConfirmAnswer True] @ zs"
      using Cons.IH [OF ne False ex] by auto
    then show ?thesis by (metis append_Cons)
  qed
qed simp

text \<open>
  C37. Over any sequence of clicks, browser and confirmation answers and media changes
  from a new file system, the application exits only if a dialog system exists and
  the events contain a click on Exit followed, later, by a Yes to the confirmation;
  without a dialog system Exit does nothing.
\<close>

theorem exit_requires_confirmation:
  "exited (FS_run es (FileSystem_init fb ds)) \<Longrightarrow>
   ds \<and> (\<exists>xs ys zs. es = xs @ [Click ''Exit''] @ ys @ [ConfirmAnswer True] @ zs)"
  using FS_run_exit_confirmed [of "FileSystem_init fb ds" es] by (simp add: FileSystem_init_def)

theorem exit_requires_confirmation_witness:
  "exited (FS_run [Click ''Open'', Click ''Exit'', SetCurrentMedia None, ConfirmAnswer True] (FileSystem_init True True)) \<and>
   (\<exists>xs ys zs. [Click ''Open'', Click ''Exit'', SetCurrentMedia None, ConfirmAnswer True]
      = xs @ [Click ''Exit''] @ ys @ [ConfirmAnswer True] @ zs)"
proof -
  have e: "exited (FS_run [Click ''Open'', Click ''Exit'', SetCurrentMedia None, ConfirmAnswer True] (FileSystem_init True True))"
    by (simp add: FileSystem_init_def clickAction_def confirmAnswer_def setCurrentMedia_def Let_def)
  from e exit_requires_confirmation [OF e] show ?thesis
    by blast
qed

text \<open>
  \<open>Reload\<close> and \<open>Export\<close> have shortcuts but no observer: clicking them does nothing,
  and \<open>Reload\<close> is not in the menu.
\<close>

lemma FileSystem_unhandled_actions:
  "clickAction ''Reload'' (FileSystem_init fb ds) = FileSystem_init fb ds \<and>
   clickAction ''Export'' (FileSystem_init fb ds) = FileSystem_init fb ds \<and>
   map_option shortcut (map_of (getActions (FileSystem_init fb ds)) ''Reload'') = Some (Some (82, 2)) \<and>
   MenuAction ''Reload'' \<notin> set (snd (createMenu (FileSystem_init fb ds)))"
  by (simp add: clickAction_def FileSystem_init_def getActions_def newAction_def createMenu_def
      GLFW_KEY_R_def GLFW_MOD_CONTROL_def)

lemma setCurrentMedia_enables:
  "map_of (actions s) ''Close'' = Some a \<Longrightarrow>
   map_option actionEnabled (map_of (actions (setCurrentMedia m s)) ''Close'') = Some (m \<noteq> None)"
  by (simp add: setCurrentMedia_def update_conv' Let_def split: option.split)

end
