(* ===== verification/ImageViewOptions.thy ===== *)
theory ImageViewOptions
  imports Json
begin

text \<open>
  The rest of \<open>src/lib/djvViewApp/ImageView.cpp\<close>: the grid options with their
  equality and JSON conversion, and the members of the view that only affect
  rendering (image options, grid options, background colour, annotations, colour
  configuration), with their setters and the colour spaces \<open>_paintEvent\<close> picks.
  The value types of the grid options' fields and of the rendering members are declared
  outside \<open>src/\<close>; they are type parameters here, and their JSON conversions codecs
  (\<open>Json.codec\<close>).
\<close>

subsection \<open>Grid options\<close>

text \<open>\<open>GridOptions\<close>: enabled, cell size, colour, labels, labels colour.\<close>

record ('s, 'c, 'l) GridOptions =
  enabled :: bool
  gridSize :: 's
  color :: 'c
  labels :: 'l
  labelsColor :: 'c

text \<open>\<open>GridOptions::operator ==\<close> (lines 44--51).\<close>

definition GridOptions_eq :: "('s, 'c, 'l) GridOptions \<Rightarrow> ('s, 'c, 'l) GridOptions \<Rightarrow> bool" where
  "GridOptions_eq a b \<longleftrightarrow>
     enabled a = enabled b \<and> gridSize a = gridSize b \<and> color a = color b \<and>
     labels a = labels b \<and> labelsColor a = labelsColor b"

text \<open>The conversions of the four field types.\<close>

record ('s, 'c, 'l) GridCodecs =
  boolC :: "bool codec"
  sizeC :: "'s codec"
  colorC :: "'c codec"
  labelsC :: "'l codec"

text \<open>\<open>toJSON(const GridOptions&)\<close> (lines 587--596): the five members land in a
  \<open>std::map\<close>, which holds them in key order.\<close>

definition toJSON_GridOptions :: "('s, 'c, 'l) GridCodecs \<Rightarrow> ('s, 'c, 'l) GridOptions \<Rightarrow> json" where
  "toJSON_GridOptions cs value =
     JObject
       [(''Color'', enc (colorC cs) (color value)),
        (''Enabled'', enc (boolC cs) (enabled value)),
        (''Labels'', enc (labelsC cs) (labels value)),
        (''LabelsColor'', enc (colorC cs) (labelsColor value)),
        (''Size'', enc (sizeC cs) (gridSize value))]"

text \<open>One member of the loop of \<open>fromJSON(value, GridOptions&)\<close> (lines 602--624).\<close>

definition GridOptions_member ::
  "('s, 'c, 'l) GridCodecs \<Rightarrow> ('s, 'c, 'l) GridOptions \<Rightarrow> string \<times> json \<Rightarrow> error + ('s, 'c, 'l) GridOptions" where
  "GridOptions_member cs out m =
     (if fst m = ''Enabled'' then bind_sum (dec (boolC cs) (snd m) (enabled out)) (\<lambda>v. Inr (out\<lparr>enabled := v\<rparr>))
      else if fst m = ''Size'' then bind_sum (dec (sizeC cs) (snd m) (gridSize out)) (\<lambda>v. Inr (out\<lparr>gridSize := v\<rparr>))
      else if fst m = ''Color'' then bind_sum (dec (colorC cs) (snd m) (color out)) (\<lambda>v. Inr (out\<lparr>color := v\<rparr>))
      else if fst m = ''Labels'' then bind_sum (dec (labelsC cs) (snd m) (labels out)) (\<lambda>v. Inr (out\<lparr>labels := v\<rparr>))
      else if fst m = ''LabelsColor'' then
        bind_sum (dec (colorC cs) (snd m) (labelsColor out)) (\<lambda>v. Inr (out\<lparr>labelsColor := v\<rparr>))
      else Inr out)"

text \<open>\<open>fromJSON(value, GridOptions&)\<close> (lines 598--631).\<close>

definition fromJSON_GridOptions ::
  "('s, 'c, 'l) GridCodecs \<Rightarrow> json \<Rightarrow> ('s, 'c, 'l) GridOptions \<Rightarrow> ('s, 'c, 'l) GridOptions \<times> error option" where
  "fromJSON_GridOptions cs value out = from_object (GridOptions_member cs) value out"

subsection \<open>Rendering members of the view\<close>

text \<open>
  The members of \<open>ImageView::Private\<close> (lines 53--74) that the pan/zoom model of
  \<open>ImageView\<close> leaves out: image options, grid options (and the copy the overlay
  holds), background colour, annotations, the colour configuration's file colour
  spaces and output colour space; and the widget's pending resize and redraw.
\<close>

record ('o, 'g, 'c, 'n) ViewRender =
  imageOptions :: 'o
  gridOptions :: 'g
  overlayOptions :: 'g
  backgroundColor :: 'c
  annotations :: "'n list"
  fileColorSpaces :: "(string \<times> string) list"
  outputColorSpace :: string
  resizeRequested :: bool
  redrawRequested :: bool

text \<open>\<open>setImageOptions(value)\<close> (lines 187--197): a resize only if the value changed and
  the widget is visible and not clipped.\<close>

definition setImageOptions :: "'o \<Rightarrow> bool \<Rightarrow> ('o, 'g, 'c, 'n) ViewRender \<Rightarrow> ('o, 'g, 'c, 'n) ViewRender" where
  "setImageOptions value visible s =
     (if imageOptions s \<noteq> value
      then s\<lparr>imageOptions := value, resizeRequested := (resizeRequested s \<or> visible)\<rparr>
      else s)"

text \<open>\<open>setGridOptions(value)\<close> (lines 363--370).\<close>

definition setGridOptions :: "'g \<Rightarrow> ('o, 'g, 'c, 'n) ViewRender \<Rightarrow> ('o, 'g, 'c, 'n) ViewRender" where
  "setGridOptions value s =
     (if gridOptions s \<noteq> value then s\<lparr>gridOptions := value, overlayOptions := value\<rparr> else s)"

text \<open>\<open>setBackgroundColor(value)\<close> (lines 377--384).\<close>

definition setBackgroundColor :: "'c \<Rightarrow> ('o, 'g, 'c, 'n) ViewRender \<Rightarrow> ('o, 'g, 'c, 'n) ViewRender" where
  "setBackgroundColor value s =
     (if backgroundColor s \<noteq> value then s\<lparr>backgroundColor := value, redrawRequested := True\<rparr> else s)"

text \<open>\<open>setAnnotations(value)\<close> (lines 386--390): always stored, always redrawn.\<close>

definition setAnnotations :: "'n list \<Rightarrow> ('o, 'g, 'c, 'n) ViewRender \<Rightarrow> ('o, 'g, 'c, 'n) ViewRender" where
  "setAnnotations value s = s\<lparr>annotations := value, redrawRequested := True\<rparr>"

text \<open>
  The colour configuration observer (lines 127--141): the file colour spaces of the new
  configuration and the output colour space \<open>getColorSpace(display, view)\<close> of the
  OCIO system (a parameter here), then a redraw.
\<close>

definition setOCIOConfig ::
  "(string \<times> string) list \<Rightarrow> string \<Rightarrow> ('o, 'g, 'c, 'n) ViewRender \<Rightarrow> ('o, 'g, 'c, 'n) ViewRender" where
  "setOCIOConfig fcs out s = s\<lparr>fileColorSpaces := fcs, outputColorSpace := out, redrawRequested := True\<rparr>"

text \<open>
  The input colour space \<open>_paintEvent\<close> gives the image (lines 442--454): the one
  configured for the image's plugin, else the one configured for the empty name, else
  none (the image options' own).
\<close>

definition paintInputColorSpace :: "('o, 'g, 'c, 'n) ViewRender \<Rightarrow> string \<Rightarrow> string option" where
  "paintInputColorSpace s pluginName =
     (case map_of (fileColorSpaces s) pluginName of
        Some cs \<Rightarrow> Some cs
      | None \<Rightarrow> map_of (fileColorSpaces s) [])"

subsection \<open>Properties\<close>

lemma GridOptions_eq_iff: "GridOptions_eq a b \<longleftrightarrow> a = b"
  by (cases a; cases b) (auto simp: GridOptions_eq_def)

text \<open>
  C38. Reading back the JSON that toJSON writes for grid options restores every field
  and raises nothing, whatever options the target held, given round-tripping
  conversions of the field types.
\<close>

theorem GridOptions_json_roundtrip:
  assumes "codec_roundtrip (boolC cs)" "codec_roundtrip (sizeC cs)" "codec_roundtrip (colorC cs)"
    "codec_roundtrip (labelsC cs)"
  shows "fromJSON_GridOptions cs (toJSON_GridOptions cs g) g' = (g, None)"
  using assms
  by (simp add: fromJSON_GridOptions_def toJSON_GridOptions_def GridOptions_member_def codec_roundtrip_def)

theorem GridOptions_json_roundtrip_witness:
  "fromJSON_GridOptions \<lparr>boolC = bool_codec, sizeC = nat_codec, colorC = nat_codec, labelsC = bool_codec\<rparr>
     (toJSON_GridOptions \<lparr>boolC = bool_codec, sizeC = nat_codec, colorC = nat_codec, labelsC = bool_codec\<rparr>
       \<lparr>enabled = True, gridSize = 100, color = 3, labels = False, labelsColor = 7\<rparr>)
     \<lparr>enabled = False, gridSize = 0, color = 0, labels = True, labelsColor = 0\<rparr>
   = (\<lparr>enabled = True, gridSize = 100, color = 3, labels = False, labelsColor = 7\<rparr>, None)"
  by (rule GridOptions_json_roundtrip) simp_all

lemma fromJSON_GridOptions_not_object:
  "(\<And>kvs. v \<noteq> JObject kvs) \<Longrightarrow> fromJSON_GridOptions cs v g = (g, Some CannotParse)"
  by (simp add: fromJSON_GridOptions_def)

lemma setGridOptions_overlay:
  "overlayOptions s = gridOptions s \<Longrightarrow> overlayOptions (setGridOptions v s) = gridOptions (setGridOptions v s)"
  by (simp add: setGridOptions_def)

lemma paintInputColorSpace_fallback:
  "map_of (fileColorSpaces s) p = None \<Longrightarrow> paintInputColorSpace s p = map_of (fileColorSpaces s) []"
  by (simp add: paintInputColorSpace_def)

end
