(* ===== verification/DisplayProfile.thy ===== *)
theory DisplayProfile
  imports DJV_Prelude
begin

text \<open>
  \<open>src/lib/djvViewLib/djvViewDisplayProfile.cpp\<close>: the display profile of the
  viewer (a name, a LUT file and the OpenGL display profile it extends), its equality,
  and its conversion to and from a \<open>QStringList\<close>, the form in which preferences
  store it.  A \<open>QStringList\<close> is a list of strings; the per-type stream operators
  of the fields' types (declared outside \<open>src/\<close>) are the fields of a
  \<open>stream_conv\<close>: a reader that takes a value off the front of the list or throws,
  and a writer that appends a value's strings.
\<close>

subsection \<open>Streams of strings\<close>

type_synonym 'v stream_reader = "string list \<Rightarrow> error + ('v \<times> string list)"

record 'v stream_conv =
  sread :: "'v stream_reader"
  swrite :: "'v \<Rightarrow> string list"

definition stream_roundtrip :: "'v stream_conv \<Rightarrow> bool" where
  "stream_roundtrip c \<longleftrightarrow> (\<forall>v rest. sread c (swrite c v @ rest) = Inr (v, rest))"

text \<open>
  One \<open>in >> field\<close> of a reading sequence: the reader's value is assigned to the
  output object and the list advances; a throw stops the sequence with the object and
  the list as they were.
\<close>

definition stream_field ::
  "'v stream_reader \<Rightarrow> ('v \<Rightarrow> 'o \<Rightarrow> 'o) \<Rightarrow> 'o \<times> string list \<Rightarrow> ('o \<times> string list \<times> error) + ('o \<times> string list)" where
  "stream_field r upd st =
     (case r (snd st) of
        Inl e \<Rightarrow> Inl (fst st, snd st, e)
      | Inr (v, rest) \<Rightarrow> Inr (upd v (fst st), rest))"

definition stream_finish :: "('o \<times> string list \<times> error) + ('o \<times> string list) \<Rightarrow> 'o \<times> string list \<times> error option" where
  "stream_finish r = (case r of Inl (o', l, e) \<Rightarrow> (o', l, Some e) | Inr (o', l) \<Rightarrow> (o', l, None))"

subsection \<open>The display profile\<close>

text \<open>
  \<open>djvViewDisplayProfile\<close>: \<open>name\<close> and \<open>lutFile\<close> of its own, and the fields of
  \<open>djvOpenGlImageDisplayProfile\<close>: the LUT pixel data, colour, levels and soft clip.
\<close>

record ('f, 'p, 'c, 'l, 's) DisplayProfile =
  dp_name :: string
  lutFile :: 'f
  lut :: 'p
  dp_color :: 'c
  levels :: 'l
  softClip :: 's

text \<open>The conversions the stream operators use, and the base class's \<open>operator ==\<close>.\<close>

record ('f, 'p, 'c, 'l, 's) DisplayProfileConvs =
  strS :: "string stream_conv"
  lutOf :: "string \<Rightarrow> 'f"
  lutStr :: "'f \<Rightarrow> string"
  colorS :: "'c stream_conv"
  levelsS :: "'l stream_conv"
  softClipS :: "'s stream_conv"
  baseEq :: "'p \<times> 'c \<times> 'l \<times> 's \<Rightarrow> 'p \<times> 'c \<times> 'l \<times> 's \<Rightarrow> bool"

definition base_profile :: "('f, 'p, 'c, 'l, 's) DisplayProfile \<Rightarrow> 'p \<times> 'c \<times> 'l \<times> 's" where
  "base_profile a = (lut a, dp_color a, levels a, softClip a)"

text \<open>\<open>operator ==\<close> and \<open>operator !=\<close> (lines 39--54).\<close>

definition DisplayProfile_eq ::
  "('f, 'p, 'c, 'l, 's) DisplayProfileConvs \<Rightarrow> ('f, 'p, 'c, 'l, 's) DisplayProfile \<Rightarrow> ('f, 'p, 'c, 'l, 's) DisplayProfile \<Rightarrow> bool" where
  "DisplayProfile_eq cs a b \<longleftrightarrow>
     dp_name a = dp_name b \<and> lutFile a = lutFile b \<and> baseEq cs (base_profile a) (base_profile b)"

definition DisplayProfile_neq ::
  "('f, 'p, 'c, 'l, 's) DisplayProfileConvs \<Rightarrow> ('f, 'p, 'c, 'l, 's) DisplayProfile \<Rightarrow> ('f, 'p, 'c, 'l, 's) DisplayProfile \<Rightarrow> bool" where
  "DisplayProfile_neq cs a b \<longleftrightarrow> \<not> DisplayProfile_eq cs a b"

text \<open>\<open>QStringList >> djvViewDisplayProfile\<close> (lines 56--70): name, then the LUT file
  through a temporary \<open>QString\<close>, then colour, levels and soft clip.\<close>

definition DisplayProfile_read ::
  "('f, 'p, 'c, 'l, 's) DisplayProfileConvs \<Rightarrow> string list \<Rightarrow> ('f, 'p, 'c, 'l, 's) DisplayProfile
     \<Rightarrow> ('f, 'p, 'c, 'l, 's) DisplayProfile \<times> string list \<times> error option" where
  "DisplayProfile_read cs l out =
     stream_finish
       (bind_sum (stream_field (sread (strS cs)) (\<lambda>v p. p\<lparr>dp_name := v\<rparr>) (out, l)) (\<lambda>st1.
        bind_sum (stream_field (sread (strS cs)) (\<lambda>tmp p. p\<lparr>lutFile := lutOf cs tmp\<rparr>) st1) (\<lambda>st2.
        bind_sum (stream_field (sread (colorS cs)) (\<lambda>v p. p\<lparr>dp_color := v\<rparr>) st2) (\<lambda>st3.
        bind_sum (stream_field (sread (levelsS cs)) (\<lambda>v p. p\<lparr>levels := v\<rparr>) st3) (\<lambda>st4.
        stream_field (sread (softClipS cs)) (\<lambda>v p. p\<lparr>softClip := v\<rparr>) st4)))))"

text \<open>\<open>QStringList << djvViewDisplayProfile\<close> (lines 72--80).\<close>

definition DisplayProfile_write ::
  "('f, 'p, 'c, 'l, 's) DisplayProfileConvs \<Rightarrow> string list \<Rightarrow> ('f, 'p, 'c, 'l, 's) DisplayProfile \<Rightarrow> string list" where
  "DisplayProfile_write cs out p =
     out @ swrite (strS cs) (dp_name p) @ swrite (strS cs) (lutStr cs (lutFile p)) @
     swrite (colorS cs) (dp_color p) @ swrite (levelsS cs) (levels p) @ swrite (softClipS cs) (softClip p)"

definition DisplayProfile_convs_ok :: "('f, 'p, 'c, 'l, 's) DisplayProfileConvs \<Rightarrow> bool" where
  "DisplayProfile_convs_ok cs \<longleftrightarrow>
     stream_roundtrip (strS cs) \<and> (\<forall>f. lutOf cs (lutStr cs f) = f) \<and>
     stream_roundtrip (colorS cs) \<and> stream_roundtrip (levelsS cs) \<and> stream_roundtrip (softClipS cs)"

text \<open>A sample conversion: a string as one element of the list.\<close>

definition string_stream :: "string stream_conv" where
  "string_stream = \<lparr>sread = (\<lambda>l. case l of [] \<Rightarrow> Inl CannotParse | x # xs \<Rightarrow> Inr (x, xs)), swrite = (\<lambda>s. [s])\<rparr>"

definition string_profile_convs :: "(string, string, string, string, string) DisplayProfileConvs" where
  "string_profile_convs =
     \<lparr>strS = string_stream, lutOf = id, lutStr = id, colorS = string_stream, levelsS = string_stream,
      softClipS = string_stream, baseEq = (=)\<rparr>"

subsection \<open>Properties\<close>

lemma stream_field_roundtrip [simp]:
  "stream_roundtrip c \<Longrightarrow> stream_field (sread c) upd (o', swrite c v @ rest) = Inr (upd v o', rest)"
  by (simp add: stream_field_def stream_roundtrip_def)

lemma stream_field_Inl [simp]:
  "r l = Inl e \<Longrightarrow> stream_field r upd (o', l) = Inl (o', l, e)"
  by (simp add: stream_field_def)

lemma stream_finish_simps [simp]:
  "stream_finish (Inl (o', l, e)) = (o', l, Some e)"
  "stream_finish (Inr (o', l)) = (o', l, None)"
  by (simp_all add: stream_finish_def)

lemma string_profile_convs_ok [simp]: "DisplayProfile_convs_ok string_profile_convs"
  by (simp add: DisplayProfile_convs_ok_def string_profile_convs_def stream_roundtrip_def string_stream_def)

text \<open>
  C39. Reading back the strings that operator << writes for a display profile, in
  front of any further strings, restores the name, LUT file, colour, levels and soft
  clip, leaves the rest of the list, and raises nothing; the LUT pixel data is not in
  the strings and keeps the target's value.
\<close>

theorem DisplayProfile_roundtrip:
  assumes "DisplayProfile_convs_ok cs"
  shows "DisplayProfile_read cs (DisplayProfile_write cs [] p @ rest) q = (p\<lparr>lut := lut q\<rparr>, rest, None)"
  using assms by (simp add: DisplayProfile_convs_ok_def DisplayProfile_read_def DisplayProfile_write_def)

theorem DisplayProfile_roundtrip_witness:
  "DisplayProfile_read string_profile_convs
     (DisplayProfile_write string_profile_convs []
        \<lparr>dp_name = ''film'', lutFile = ''film.lut'', lut = ''pixels'', dp_color = ''c'', levels = ''l'', softClip = ''0''\<rparr>
      @ [''next''])
     \<lparr>dp_name = [], lutFile = [], lut = ''old'', dp_color = [], levels = [], softClip = []\<rparr>
   = (\<lparr>dp_name = ''film'', lutFile = ''film.lut'', lut = ''old'', dp_color = ''c'', levels = ''l'', softClip = ''0''\<rparr>,
      [''next''], None)"
  by (rule DisplayProfile_roundtrip [THEN trans]) simp_all

lemma DisplayProfile_eq_iff:
  "baseEq cs = (=) \<Longrightarrow> DisplayProfile_eq cs a b \<longleftrightarrow> a = b"
  by (cases a; cases b) (auto simp: DisplayProfile_eq_def base_profile_def)

text \<open>
  When the colour cannot be read, operator >> throws with the name and the LUT
  file already assigned to the target profile, and the list positioned at the colour.
\<close>

theorem DisplayProfile_read_partial:
  assumes "stream_roundtrip (strS cs)" "sread (colorS cs) rest = Inl e"
  shows "DisplayProfile_read cs (swrite (strS cs) n @ swrite (strS cs) t @ rest) q =
           (q\<lparr>dp_name := n, lutFile := lutOf cs t\<rparr>, rest, Some e)"
  using assms by (simp add: DisplayProfile_read_def)

theorem DisplayProfile_read_partial_witness:
  "DisplayProfile_read string_profile_convs [''film'', ''film.lut'']
     \<lparr>dp_name = [], lutFile = [], lut = ''old'', dp_color = ''c'', levels = [], softClip = []\<rparr>
   = (\<lparr>dp_name = ''film'', lutFile = ''film.lut'', lut = ''old'', dp_color = ''c'', levels = [], softClip = []\<rparr>,
      [], Some CannotParse)"
  using DisplayProfile_read_partial [of string_profile_convs "[]" CannotParse "''film''" "''film.lut''"]
  by (simp add: string_profile_convs_def string_stream_def stream_roundtrip_def)

end
