(* ===== verification/SceneLight.thy ===== *)
theory SceneLight
  imports DJV_Prelude
begin

text \<open>
  \<open>src/lib/djvScene/LightInline.h\<close>: the scene's light classes.  \<open>ILight\<close> holds
  the enabled flag and the intensity; its four subclasses add their own members
  (\<open>HemisphereLight\<close>: up vector, top and bottom colours; \<open>DirectionalLight\<close>:
  direction; \<open>PointLight\<close>: nothing; \<open>SpotLight\<close>: cone angle and direction) and
  name their class.  The dynamic class is the constructor of \<open>LightKind\<close>; the
  member types (\<open>glm::vec3\<close>, \<open>AV::Image::Color\<close>, \<open>float\<close>) are stored and
  returned unchanged, so they are type parameters.  The member initializers are in
  \<open>Light.h\<close>, outside \<open>src/\<close>: a new light takes them as arguments.
\<close>

datatype ('v, 'c, 'f) LightKind =
    HemisphereLight (hl_up: 'v) (hl_topColor: 'c) (hl_bottomColor: 'c)
  | DirectionalLight (dl_direction: 'v)
  | PointLight
  | SpotLight (sl_coneAngle: 'f) (sl_direction: 'v)

record ('v, 'c, 'f) ILight =
  light_enabled :: bool
  light_intensity :: 'f
  light_kind :: "('v, 'c, 'f) LightKind"

text \<open>\<open>getClassName()\<close> of each subclass (lines 68--71, 86--89, 94--97, 122--125).\<close>

fun getClassName :: "('v, 'c, 'f) ILight \<Rightarrow> string" where
  "getClassName l =
     (case light_kind l of
        HemisphereLight _ _ _ \<Rightarrow> ''HemisphereLight''
      | DirectionalLight _ \<Rightarrow> ''DirectionalLight''
      | PointLight \<Rightarrow> ''PointLight''
      | SpotLight _ _ \<Rightarrow> ''SpotLight'')"

text \<open>
  The setters.  \<open>setEnabled\<close> and \<open>setIntensity\<close> belong to \<open>ILight\<close>; the others
  exist only on their subclass, so calling one on a light of another class does not
  compile: such a call is \<open>None\<close> here.  \<open>setDirection\<close> is two methods, one of
  \<open>DirectionalLight\<close> and one of \<open>SpotLight\<close>.
\<close>

datatype ('v, 'c, 'f) LightSetter =
    SetEnabled bool
  | SetIntensity 'f
  | SetUp 'v
  | SetTopColor 'c
  | SetBottomColor 'c
  | SetDirection 'v
  | SetConeAngle 'f

text \<open>\<open>ILight::setEnabled\<close> and \<open>ILight::setIntensity\<close> (lines 25--33).\<close>

fun ILight_set :: "('v, 'c, 'f) LightSetter \<Rightarrow> ('v, 'c, 'f) ILight \<Rightarrow> ('v, 'c, 'f) ILight option" where
  "ILight_set (SetEnabled v) l = Some (l\<lparr>light_enabled := v\<rparr>)"
| "ILight_set (SetIntensity v) l = Some (l\<lparr>light_intensity := v\<rparr>)"
| "ILight_set _ l = None"

text \<open>The setters of \<open>HemisphereLight\<close> (lines 53--66).\<close>

fun HemisphereLight_set :: "('v, 'c, 'f) LightSetter \<Rightarrow> ('v, 'c, 'f) LightKind \<Rightarrow> ('v, 'c, 'f) LightKind option" where
  "HemisphereLight_set (SetUp v) (HemisphereLight _ t b) = Some (HemisphereLight v t b)"
| "HemisphereLight_set (SetTopColor v) (HemisphereLight u _ b) = Some (HemisphereLight u v b)"
| "HemisphereLight_set (SetBottomColor v) (HemisphereLight u t _) = Some (HemisphereLight u t v)"
| "HemisphereLight_set _ _ = None"

text \<open>\<open>DirectionalLight::setDirection\<close> (lines 81--84).\<close>

fun DirectionalLight_set :: "('v, 'c, 'f) LightSetter \<Rightarrow> ('v, 'c, 'f) LightKind \<Rightarrow> ('v, 'c, 'f) LightKind option" where
  "DirectionalLight_set (SetDirection v) (DirectionalLight _) = Some (DirectionalLight v)"
| "DirectionalLight_set _ _ = None"

text \<open>\<open>SpotLight::setConeAngle\<close> and \<open>SpotLight::setDirection\<close> (lines 112--120).\<close>

fun SpotLight_set :: "('v, 'c, 'f) LightSetter \<Rightarrow> ('v, 'c, 'f) LightKind \<Rightarrow> ('v, 'c, 'f) LightKind option" where
  "SpotLight_set (SetConeAngle v) (SpotLight _ d) = Some (SpotLight v d)"
| "SpotLight_set (SetDirection v) (SpotLight a _) = Some (SpotLight a v)"
| "SpotLight_set _ _ = None"

text \<open>A setter call on a light: the base class's setters, else those of its dynamic class.\<close>

definition light_set :: "('v, 'c, 'f) LightSetter \<Rightarrow> ('v, 'c, 'f) ILight \<Rightarrow> ('v, 'c, 'f) ILight option" where
  "light_set c l =
     (case ILight_set c l of
        Some l' \<Rightarrow> Some l'
      | None \<Rightarrow>
          map_option (\<lambda>k. l\<lparr>light_kind := k\<rparr>)
            (case light_kind l of
               HemisphereLight _ _ _ \<Rightarrow> HemisphereLight_set c (light_kind l)
             | DirectionalLight _ \<Rightarrow> DirectionalLight_set c (light_kind l)
             | PointLight \<Rightarrow> None
             | SpotLight _ _ \<Rightarrow> SpotLight_set c (light_kind l)))"

text \<open>A sequence of setter calls on one light.\<close>

fun light_run :: "('v, 'c, 'f) LightSetter list \<Rightarrow> ('v, 'c, 'f) ILight \<Rightarrow> ('v, 'c, 'f) ILight option" where
  "light_run [] l = Some l"
| "light_run (c # cs) l = (case light_set c l of None \<Rightarrow> None | Some l' \<Rightarrow> light_run cs l')"

text \<open>\<open>getDirection\<close>, a getter of two subclasses (lines 76--79 and 107--110); the
  other getters are the selectors of \<open>ILight\<close> and \<open>LightKind\<close>.\<close>

fun getDirection :: "('v, 'c, 'f) ILight \<Rightarrow> 'v option" where
  "getDirection l =
     (case light_kind l of DirectionalLight d \<Rightarrow> Some d | SpotLight _ d \<Rightarrow> Some d | _ \<Rightarrow> None)"

subsection \<open>Properties\<close>

lemma getClassName_eq_iff:
  "getClassName a = getClassName b \<longleftrightarrow>
   (case (light_kind a, light_kind b) of
      (HemisphereLight _ _ _, HemisphereLight _ _ _) \<Rightarrow> True
    | (DirectionalLight _, DirectionalLight _) \<Rightarrow> True
    | (PointLight, PointLight) \<Rightarrow> True
    | (SpotLight _ _, SpotLight _ _) \<Rightarrow> True
    | _ \<Rightarrow> False)"
  by (simp split: LightKind.split)

lemma light_set_class:
  "light_set c l = Some l' \<Longrightarrow> getClassName l' = getClassName l"
  by (cases c) (auto simp: light_set_def split: LightKind.splits)

text \<open>
  A light's class is fixed: after any sequence of setter calls the light accepts,
  getClassName returns the class name it had before.
\<close>

lemma light_run_class:
  "light_run cs l = Some l' \<Longrightarrow> getClassName l' = getClassName l"
  by (induction cs arbitrary: l) (auto split: option.splits dest: light_set_class)

lemma setDirection_getDirection:
  "light_set (SetDirection v) l = Some l' \<Longrightarrow> getDirection l' = Some v"
  by (auto simp: light_set_def split: LightKind.splits)

lemma setDirection_defined:
  "(\<exists>l'. light_set (SetDirection v) l = Some l') \<longleftrightarrow> getDirection l \<noteq> None"
  by (simp add: light_set_def split: LightKind.split)

end
