(* ===== verification/ImageViewPaint.thy ===== *)
theory ImageViewPaint
  imports ImageView ImageViewOptions
begin

text \<open>
  \<open>ImageView::_paintEvent\<close> (\<open>src/lib/djvViewApp/ImageView.cpp\<close>, lines 423--474),
  where the pan/zoom state of \<open>ImageView\<close> and the rendering members of
  \<open>ImageViewOptions\<close> meet: the calls the view makes on the 2D renderer, as a trace.
  The image's transform is recorded by the arguments it is built from
  (\<open>translate(g.min + pos) * getXForm(image, rotate, (zoom, zoom), aspect)\<close>), the
  annotations' transform as a translation and a uniform scale.  \<open>render_exec\<close>
  runs a trace against the renderer's transform stack: a pop of an empty stack is
  \<open>None\<close>, and each annotation is drawn under the stack of the moment.
\<close>

record 'o PaintImageOptions =
  baseOptions :: 'o
  inputColorSpace :: "string option"
  outputColorSpaceOpt :: string
  dynamicCache :: bool

datatype ('a, 'o, 'c, 'n) RenderCall =
    SetFillColor 'c
  | DrawRect "'a bbox2"
  | PushImageXForm "'a vec2" "'a Image" ImageRotate 'a ImageAspectRatio
  | PushTranslateScale "'a vec2" 'a
  | DrawImage "'a Image" "'o PaintImageOptions"
  | DrawAnnotation 'n
  | PopTransform

text \<open>
  The paint event.  \<open>white\<close> is \<open>AV::Image::Color(1, 1, 1)\<close> and \<open>pluginOf\<close> is
  \<open>Image::getPluginName\<close>; the margin is taken as zero, as in \<open>paintXForm\<close>.  The
  input colour space is the one \<open>paintInputColorSpace\<close> finds, \<open>None\<close> keeping the
  image options' own.
\<close>

definition ImageView_paint ::
  "'c \<Rightarrow> ('a Image \<Rightarrow> string) \<Rightarrow> 'a::linordered_field ImageView \<Rightarrow> ('o, 'g, 'c, 'n) ViewRender
   \<Rightarrow> ('a, 'o, 'c, 'n) RenderCall list" where
  "ImageView_paint white pluginOf s r =
     (let g = geometry s;
          zoom = imageZoom s;
          t = vec (vx (bmin g) + vx (imagePos s)) (vy (bmin g) + vy (imagePos s))
      in [SetFillColor (backgroundColor r), DrawRect g] @
         (case viewImage s of
            None \<Rightarrow> []
          | Some img \<Rightarrow>
              [PushImageXForm t img (imageRotate s) zoom (imageAspectRatio s), SetFillColor white,
               DrawImage img \<lparr>baseOptions = imageOptions r,
                              inputColorSpace = paintInputColorSpace r (pluginOf img),
                              outputColorSpaceOpt = outputColorSpace r, dynamicCache = True\<rparr>,
               PopTransform]) @
         (if annotations r = [] then []
          else PushTranslateScale t zoom # map DrawAnnotation (annotations r) @ [PopTransform]))"

fun render_exec ::
  "('a, 'o, 'c, 'n) RenderCall list \<Rightarrow> ('a, 'o, 'c, 'n) RenderCall list
   \<Rightarrow> (('a, 'o, 'c, 'n) RenderCall list \<times> ('n \<times> ('a, 'o, 'c, 'n) RenderCall list) list) option" where
  "render_exec [] st = Some (st, [])"
| "render_exec (PushImageXForm t i r z a # cs) st = render_exec cs (PushImageXForm t i r z a # st)"
| "render_exec (PushTranslateScale t z # cs) st = render_exec cs (PushTranslateScale t z # st)"
| "render_exec (PopTransform # cs) st = (case st of [] \<Rightarrow> None | _ # st' \<Rightarrow> render_exec cs st')"
| "render_exec (DrawAnnotation n # cs) st = map_option (\<lambda>(st', fr). (st', (n, st) # fr)) (render_exec cs st)"
| "render_exec (SetFillColor _ # cs) st = render_exec cs st"
| "render_exec (DrawRect _ # cs) st = render_exec cs st"
| "render_exec (DrawImage _ _ # cs) st = render_exec cs st"

text \<open>The image drawn by a trace, with its options.\<close>

definition drawn_images :: "('a, 'o, 'c, 'n) RenderCall list \<Rightarrow> ('a Image \<times> 'o PaintImageOptions) list" where
  "drawn_images cs = concat (map (\<lambda>c. case c of DrawImage i o' \<Rightarrow> [(i, o')] | _ \<Rightarrow> []) cs)"

subsection \<open>Properties\<close>

lemma render_exec_annotations:
  "render_exec (map DrawAnnotation ns @ [PopTransform]) (c # st) = Some (st, map (\<lambda>n. (n, c # st)) ns)"
  by (induction ns) auto

lemma paint_image_options:
  "viewImage s = Some img \<Longrightarrow>
   drawn_images (ImageView_paint white pluginOf s r) =
     [(img, \<lparr>baseOptions = imageOptions r, inputColorSpace = paintInputColorSpace r (pluginOf img),
             outputColorSpaceOpt = outputColorSpace r, dynamicCache = True\<rparr>)]"
  by (simp add: ImageView_paint_def drawn_images_def Let_def)

text \<open>
  C30. A paint leaves the renderer's transform stack as it found it, never popping an
  empty stack, and draws the annotations in order, each under exactly one transform:
  the translation and scale that map an image point q to paintXForm q.
\<close>

theorem paint_transforms:
  "\<exists>t. render_exec (ImageView_paint white pluginOf s r) [] =
         Some ([], map (\<lambda>n. (n, [PushTranslateScale t (imageZoom s)])) (annotations r)) \<and>
       (\<forall>q. vec (vx t + imageZoom s * vx q) (vy t + imageZoom s * vy q) = paintXForm s q)"
proof
  let ?t = "vec (vx (bmin (geometry s)) + vx (imagePos s)) (vy (bmin (geometry s)) + vy (imagePos s))"
  have ann: "render_exec (if annotations r = [] then []
               else PushTranslateScale ?t (imageZoom s) # map DrawAnnotation (annotations r) @ [PopTransform]) []
             = Some ([], map (\<lambda>n. (n, [PushTranslateScale ?t (imageZoom s)])) (annotations r))"
    by (simp add: render_exec_annotations)
  show "render_exec (ImageView_paint white pluginOf s r) [] =
          Some ([], map (\<lambda>n. (n, [PushTranslateScale ?t (imageZoom s)])) (annotations r)) \<and>
        (\<forall>q. vec (vx ?t + imageZoom s * vx q) (vy ?t + imageZoom s * vy q) = paintXForm s q)"
    using ann by (cases "viewImage s") (simp_all add: ImageView_paint_def Let_def paintXForm_def add.assoc)
qed

end
