(* ===== verification/Sequence.thy ===== *)
theory Sequence
  imports DJV_Prelude
begin

text \<open>
  Sequence resolution (spec section 4.4; its code is not in the repository): a
  representative path with a numeric token, such as \<open>render.0001.dpx\<close>, and a
  requested frame range expand to the ordered list of the frames' paths.  The token
  is the last run of digits of the path; its width is kept by zero-padding; a frame
  of the range that is not on disk fails with \<open>MissingFrame\<close> naming the first such
  frame; a path without a numeric token is a single asset, its own one-element list.
  The file system is the predicate \<open>exists\<close>.
\<close>

text \<open>The path split around its last run of digits: prefix, digits, suffix.\<close>

definition split_sequence :: "string \<Rightarrow> (string \<times> string \<times> string) option" where
  "split_sequence p =
     (let r = rev p;
          suf = takeWhile (\<lambda>c. \<not> is_digit c) r;
          rest = dropWhile (\<lambda>c. \<not> is_digit c) r;
          digits = takeWhile is_digit rest;
          pre = dropWhile is_digit rest
      in if digits = [] then None else Some (rev pre, rev digits, rev suf))"

text \<open>A frame number written with at least \<open>w\<close> digits.\<close>

definition pad_frame :: "nat \<Rightarrow> nat \<Rightarrow> string" where
  "pad_frame w n = replicate (w - length (dec_string n)) (CHR ''0'') @ dec_string n"

definition frame_path :: "string \<Rightarrow> nat \<Rightarrow> string \<Rightarrow> nat \<Rightarrow> string" where
  "frame_path pre w suf n = pre @ pad_frame w n @ suf"

text \<open>
  The loop over the frames \<open>f\<close> to \<open>l\<close>, in ascending order, stopping at the first
  missing frame.  It counts up to a bound, so its termination is proved with the
  measure \<open>l + 1 - f\<close>.
\<close>

function resolve_frames ::
  "(string \<Rightarrow> bool) \<Rightarrow> string \<Rightarrow> nat \<Rightarrow> string \<Rightarrow> nat \<Rightarrow> nat \<Rightarrow> error + string list" where
  "resolve_frames exists pre w suf f l =
     (if l < f then Inr []
      else if exists (frame_path pre w suf f)
      then bind_sum (resolve_frames exists pre w suf (Suc f) l) (\<lambda>ps. Inr (frame_path pre w suf f # ps))
      else Inl (MissingFrame (int f)))"
  by pat_completeness auto

termination
  by (relation "measure (\<lambda>(exists, pre, w, suf, f, l). Suc l - f)") auto

text \<open>The resolution of a path and a frame range.\<close>

definition resolve_sequence :: "(string \<Rightarrow> bool) \<Rightarrow> string \<Rightarrow> nat \<Rightarrow> nat \<Rightarrow> error + string list" where
  "resolve_sequence exists p f l =
     (case split_sequence p of
        None \<Rightarrow> Inr [p]
      | Some (pre, digits, suf) \<Rightarrow> resolve_frames exists pre (length digits) suf f l)"

subsection \<open>Properties\<close>

declare resolve_frames.simps [simp del]

lemma resolve_frames_all:
  "(\<forall>n. f \<le> n \<and> n \<le> l \<longrightarrow> exists (frame_path pre w suf n)) \<Longrightarrow>
   resolve_frames exists pre w suf f l = Inr (map (frame_path pre w suf) [f..<Suc l])"
proof (induction exists pre w suf f l rule: resolve_frames.induct)
  case (1 exists pre w suf f l)
  show ?case
  proof (cases "l < f")
    case True
    then show ?thesis by (simp add: resolve_frames.simps)
  next
    case False
    then have "[f..<Suc l] = f # [Suc f..<Suc l]" by (simp add: upt_rec)
    then show ?thesis using 1 False by (simp add: resolve_frames.simps)
  qed
qed

lemma resolve_frames_missing:
  "f \<le> m \<Longrightarrow> m \<le> l \<Longrightarrow> \<not> exists (frame_path pre w suf m) \<Longrightarrow>
   (\<forall>n. f \<le> n \<and> n < m \<longrightarrow> exists (frame_path pre w suf n)) \<Longrightarrow>
   resolve_frames exists pre w suf f l = Inl (MissingFrame (int m))"
proof (induction exists pre w suf f l rule: resolve_frames.induct)
  case (1 exists pre w suf f l)
  show ?case
  proof (cases "f = m")
    case True
    then show ?thesis using 1 by (simp add: resolve_frames.simps)
  next
    case False
    then show ?thesis using 1 by (simp add: resolve_frames.simps)
  qed
qed

lemma length_pad_frame: "length (pad_frame w n) = max w (length (dec_string n))"
  by (simp add: pad_frame_def)

lemma digits_pad_frame: "\<forall>c \<in> set (pad_frame w n). is_digit c"
  using dec_string_digits [of n] by (auto simp: pad_frame_def is_digit_def set_replicate_conv_if)

lemma dec_value_zeros [simp]: "dec_value (replicate k (CHR ''0'') @ s) = dec_value s"
proof -
  have "dec_value (replicate k (CHR ''0'') @ s) = foldl (\<lambda>acc c. 10 * acc + digit_value c) (dec_value (replicate k (CHR ''0''))) s"
    by (simp add: dec_value_def)
  moreover have "dec_value (replicate k (CHR ''0'')) = 0"
    by (induction k) (simp_all add: dec_value_def digit_value_def replicate_app_Cons_same [symmetric])
  ultimately show ?thesis by (simp add: dec_value_def)
qed

lemma dec_value_pad_frame: "dec_value (pad_frame w n) = n"
  by (simp add: pad_frame_def)

lemma takeWhile_dropWhile_split:
  "\<forall>c \<in> set a. P c \<Longrightarrow> b = [] \<or> \<not> P (hd b) \<Longrightarrow> takeWhile P (a @ b) = a \<and> dropWhile P (a @ b) = b"
  by (cases b) (auto simp: takeWhile_append2 dropWhile_append2)

text \<open>Printing a frame path and splitting it again gives back its parts, when the
  suffix has no digit and the prefix does not end with one.\<close>

lemma split_frame_path:
  assumes "\<forall>c \<in> set suf. \<not> is_digit c" "pre = [] \<or> \<not> is_digit (last pre)"
  shows "split_sequence (frame_path pre w suf n) = Some (pre, pad_frame w n, suf)"
proof -
  have d: "\<forall>c \<in> set (rev (pad_frame w n)). is_digit c" using digits_pad_frame by simp
  have ne: "rev (pad_frame w n) \<noteq> []" by (simp add: pad_frame_def)
  then have hd: "is_digit (hd (rev (pad_frame w n) @ rev pre))" using d by (cases "rev (pad_frame w n)") auto
  have s1: "takeWhile (\<lambda>c. \<not> is_digit c) (rev suf @ rev (pad_frame w n) @ rev pre) = rev suf \<and>
            dropWhile (\<lambda>c. \<not> is_digit c) (rev suf @ rev (pad_frame w n) @ rev pre) = rev (pad_frame w n) @ rev pre"
    using assms(1) hd by (intro takeWhile_dropWhile_split) auto
  have s2: "takeWhile is_digit (rev (pad_frame w n) @ rev pre) = rev (pad_frame w n) \<and>
            dropWhile is_digit (rev (pad_frame w n) @ rev pre) = rev pre"
    using d assms(2) by (intro takeWhile_dropWhile_split) (auto simp: hd_rev)
  show ?thesis
    using s1 s2 ne by (simp add: split_sequence_def frame_path_def Let_def)
qed

text \<open>Resolving from a frame path keeps the representative's token width.\<close>

lemma resolve_sequence_frame_path:
  "\<forall>c \<in> set suf. \<not> is_digit c \<Longrightarrow> pre = [] \<or> \<not> is_digit (last pre) \<Longrightarrow>
   resolve_sequence exists (frame_path pre w suf n) f l =
     resolve_frames exists pre (max w (length (dec_string n))) suf f l"
  by (simp add: resolve_sequence_def split_frame_path length_pad_frame)

lemma resolve_sequence_single:
  "\<forall>c \<in> set p. \<not> is_digit c \<Longrightarrow> resolve_sequence exists p f l = Inr [p]"
proof -
  assume "\<forall>c \<in> set p. \<not> is_digit c"
  then have "dropWhile (\<lambda>c. \<not> is_digit c) (rev p) = []" by (simp add: dropWhile_eq_Nil_conv)
  then show ?thesis by (simp add: resolve_sequence_def split_sequence_def Let_def del: dropWhile_eq_Nil_conv)
qed

text \<open>The spec's example: frames 1 to 3 of \<open>frame.0001.tga\<close>, all present or frame 2
  missing.\<close>

lemma resolve_sequence_spec_example:
  "resolve_sequence (\<lambda>p. p \<in> {''frame.0001.tga'', ''frame.0002.tga'', ''frame.0003.tga''}) ''frame.0001.tga'' 1 3
     = Inr [''frame.0001.tga'', ''frame.0002.tga'', ''frame.0003.tga'']"
  "resolve_sequence (\<lambda>p. p \<in> {''frame.0001.tga'', ''frame.0003.tga''}) ''frame.0001.tga'' 1 3
     = Inl (MissingFrame 2)"
  by code_simp+

end
