(* ===== verification/Spec2Isabelle.thy ===== *)
theory Spec2Isabelle
  imports PPM JPEG Popup_Layout ImageView ViewSystem FFmpeg DPX AVSettings FileActions ImageViewOptions DisplayProfile SceneLight ImageViewPaint Sequence
begin

text \<open>
  \<^bold>\<open>A verification library for DJV's image I/O core.\<close>

  DJV is an image and media viewer.  Its durable core is the image I/O plugin layer:
  codec plugins (NetPBM, DPX, Targa, PNG, IFF, FFmpeg) that read and write pixel
  data, each owning options that are persisted as JSON; a registry that dispatches
  on file extensions; and a sequence layer that expands numbered frame files.  The
  GUI (Qt widgets, preference dialogs, OpenGL views) calls into it.  This library
  models the parts of that system whose code is in the repository, as plain HOL
  functions over explicit state, and proves what makes each correct.

  \<^bold>\<open>Layout.\<close>
  \<^item> \<open>DJV_Prelude\<close>: the \<open>error\<close> datatype standing for the exceptions of the code,
    bytes and words, the C locale's whitespace, and models of the standard-library
    conversions the codecs call: \<open>std::to_string\<close> of an unsigned value
    (\<open>dec_string\<close>), decimal digit runs (\<open>dec_value\<close>), and the little-endian
    \<open>uint16_t\<close> view of a byte buffer (\<open>words16_le\<close>, \<open>bytes16_le\<close>), with their
    round-trip and length lemmas (named collections \<open>text_conv\<close>, \<open>byte_conv\<close>);
    and the trip count of a C loop with an \<open>int\<close> counter and a \<open>size_t\<close> bound
    (\<open>int_loop_trips\<close>, a \<open>function\<close> with a termination proof), with its closed
    form.
  \<^item> \<open>Json\<close>: picojson values (\<open>json\<close>), the member loop shared by every
    \<open>fromJSON\<close> of the sources (\<open>fold_members\<close>, \<open>from_object\<close>: members in
    \<open>std::map\<close> order, the first throw ends the loop and keeps what was assigned),
    and \<open>std::stringstream >> std::string\<close> (\<open>stream_word\<close>).
  \<^item> \<open>PPM\<close> models \<open>src/lib/djvAV/PPM.cpp\<close>: \<open>getScanlineByteCount\<close> in 64-bit
    \<open>size_t\<close> arithmetic, the templates \<open>_readASCII<T>\<close> and \<open>_writeASCII<T>\<close>
    (\<open>readASCII_loop\<close>, the reader's loop as written with its \<open>int\<close> counter, and
    \<open>writeASCII_tmpl\<close>, generic over the word length; \<open>readASCII_tmpl\<close> is the same
    reader counting with a \<open>nat\<close>, which the proofs go through) and their bit-depth
    dispatchers \<open>readASCII\<close> (whose \<open>size\<close> is a \<open>size_t\<close>), \<open>writeASCII\<close>; the \<open>Data\<close> enum with the
    labels of its serialization helpers; \<open>Options\<close> with \<open>toJSON\<close>/\<open>fromJSON\<close>;
    and the plugin's \<open>getOptions\<close>/\<open>setOptions\<close>.  The file handle is the list of
    characters not yet read; \<open>FileIO::readWord\<close> and \<open>String::fromString\<close>, which
    are not under \<open>src/\<close>, are modelled from the spec's word-tokenized text read.

  \<^item> \<open>JPEG\<close> models the JSON helpers of \<open>src/lib/djvAV/JPEGJSONInline.h\<close>: the
    \<open>Settings\<close> record with its 32-bit \<open>int\<close> quality, \<open>toJSON\<close> (the quality as
    \<open>std::to_string\<close>) and \<open>fromJSON\<close> (the quality extracted with
    \<open>std::stringstream >> int\<close>, modelled by \<open>istream_int\<close> in the prelude with the
    C++11 rules: an empty or all-whitespace string fails the sentry and leaves the
    quality unchanged, no digits gives 0, out of range clamps).
  \<^item> \<open>Popup_Layout\<close> models \<open>src/lib/djvUI/LayoutUtil.cpp\<close> over an ordered field:
    both \<open>getPopupGeometry\<close> overloads (\<open>getPopupGeometry_pos\<close>,
    \<open>getPopupGeometry_button\<close>) and both \<open>getPopup\<close> overloads (\<open>getPopup_pos\<close>,
    \<open>getPopup_button\<close>) with their loops; the \<open>std::map<float, Popup>\<close> of clipped
    areas is an association list (\<open>map_assign\<close> for \<open>operator[]\<close>,
    \<open>map_rbegin\<close> for the largest key).
  \<^item> \<open>Geometry\<close>: \<open>glm::vec2\<close> and \<open>Core::BBox2f\<close>, which are not under
    \<open>src/\<close>: construction, width, height, centre, intersection and area, over any
    ordered field (rounding is not modelled; witnesses compute in \<open>rat\<close>).
  \<^item> \<open>ImageView\<close> models \<open>src/lib/djvViewApp/ImageView.cpp\<close> as a state machine:
    the record \<open>ImageView\<close> is \<open>ImageView::Private\<close> (image, position, zoom,
    rotation, aspect ratio, lock, lock frame, first-layout flag, grid overlay, zoom
    animation) plus the widget's geometry; every setter, \<open>imageFill\<close>,
    \<open>imageFrame\<close>, \<open>imageCenter\<close>, \<open>_layoutEvent\<close>, the lock observer and the two
    animation callbacks are functions from a state to \<open>error + state\<close>, dispatched by
    \<open>ImageView_step\<close>; \<open>ImageView_reachable\<close> is reachability from \<open>_init\<close>.
    Divisions whose divisor can be zero are computed on the IEEE extended line
    (\<open>fdiv\<close>, \<open>fmul\<close>, \<open>fgreater\<close>), and storing an infinite or NaN value ends
    the run with \<open>NonFinite\<close>.  \<open>getXForm\<close> of \<open>djvUI\<close> is a parameter of the state.
  \<^item> \<open>ViewSystem\<close> models \<open>src/lib/djvViewApp/IViewSystem.cpp\<close>: the three maps of
    the system as association lists (\<open>AList.update\<close>, \<open>AList.delete\<close>), the MDI
    canvas as its children and the widgets' positions and sizes, \<open>_openWidget\<close>,
    \<open>_closeWidget\<close> and the close callback each widget gets; \<open>VS_step\<close> adds the
    user's moves, resizes and close presses, and \<open>VS_reachable\<close> opens only fresh
    widgets, as the callers do.
  \<^item> \<open>FFmpeg\<close> models \<open>src/lib/djvAV/FFmpeg.cpp\<close>: the time base, the sample-format
    conversions, the log callback (level filter, \<open>cStringLength\<close> truncation) and the
    plugin's logger set-up.
  \<^item> \<open>DPX\<close> models \<open>src/lib/djvAV/DPXWrite.cpp\<close>: the negotiated image type and
    layout, the writer's creation with a copy of the options, and \<open>_write\<close> as the
    trace of the calls it makes on the file handle.
  \<^item> \<open>IOSystem\<close>: the plugin registry (\<open>AV::IO::System\<close>, not under
    \<open>src/\<close>, modelled from the spec): entries with a name, extensions and the
    plugin's state (\<open>PluginState\<close>, a PPM or JPEG plugin), \<open>register\<close> refusing an
    extension already claimed (compared in lower case), \<open>resolve\<close> by the extension
    of a path, and \<open>getOptions\<close>/\<open>setOptions\<close> by plugin name dispatching to the PPM
    and JPEG models.
  \<^item> \<open>AVSettings\<close> models \<open>src/lib/djvUI/AVSettings.cpp\<close>: \<open>AV::load\<close>,
    \<open>AV::save\<close> and \<open>AV::_init\<close> over the AV system's five settings and the
    registry; the setting types are parameters, each with a JSON codec (\<open>Json.codec\<close>).
  \<^item> \<open>FileActions\<close> models \<open>src/lib/djvViewLib/FileSystem.cpp\<close>: the file
    actions with their shortcuts, the click observers (open through the file browser,
    close, exit through the confirmation dialog), the menu and \<open>setCurrentMedia\<close>,
    with \<open>FS_step\<close> as the event step.
  \<^item> \<open>ImageViewOptions\<close> models the rest of \<open>ImageView.cpp\<close>: \<open>GridOptions\<close>
    with \<open>operator ==\<close> and its JSON conversion, and the rendering-only members
    (image options, grid options, background colour, annotations, OCIO configuration)
    with their setters and the input colour space \<open>_paintEvent\<close> chooses.
  \<^item> \<open>DisplayProfile\<close> models \<open>src/lib/djvViewLib/djvViewDisplayProfile.cpp\<close>:
    equality and the \<open>QStringList\<close> stream operators, over per-type stream
    conversions (\<open>stream_conv\<close>) for the field types declared outside \<open>src/\<close>.
  \<^item> \<open>SceneLight\<close> models \<open>src/lib/djvScene/LightInline.h\<close>: the light classes
    as a record of the base members and a datatype of the subclasses, with every
    getter, setter and \<open>getClassName\<close>; a setter call dispatches on the dynamic class.
  \<^item> \<open>Sequence\<close>: sequence resolution (not under \<open>src/\<close>, modelled from the
    spec): the frame token of a representative path, zero-padded frame paths, the
    frame-range loop \<open>resolve_frames\<close> (a \<open>function\<close> whose termination is proved
    with the measure \<open>l + 1 - f\<close>) failing with \<open>MissingFrame\<close> at the first missing
    frame, and single assets as one-element lists.
  \<^item> \<open>ImageViewPaint\<close> models \<open>ImageView::_paintEvent\<close>, where the two image-view
    theories meet: the calls made on the renderer as a trace (\<open>RenderCall\<close>), run
    against the renderer's transform stack by \<open>render_exec\<close>.

  \<^bold>\<open>What is proved.\<close>
  \<^item> PPM (claims C1--C11): the ASCII writer and reader are inverse for 8- and 16-bit
    samples up to \<open>2^31\<close> of them (C1); one scanline of ASCII output fits the size
    \<open>getScanlineByteCount\<close> reserves whenever that size does not wrap (C2), with its
    result on unsupported depths (C10); the 16-bit writer's output and count in terms of
    the buffer's byte pairs (C11, the spec's example as witness); a truncated file
    raises (C5) and
    out-of-range samples wrap (C9); the reader's loop, with its \<open>int\<close> counter
    against a \<open>size_t\<close> size, terminates for every size and reads exactly
    \<open>size\<close> samples up to \<open>2^31\<close>, but only \<open>2^31\<close> above (C6, a finding); the
    options' JSON round trip (C3), the copy between plugins (C4), atomicity of
    \<open>setOptions\<close> on well-formed objects (C7), and every error path of
    \<open>fromJSON\<close> (C8).  A negative width wraps the 64-bit size (lemma
    \<open>getScanlineByteCount_negative_width\<close>), and the label extraction reads only the
    first word (lemma \<open>fromJSON_PPM_Options_first_word\<close>).
  \<^item> JPEG (C12, C13): the settings' JSON round trip for every 32-bit quality, and a
    quality without digits silently becoming 0, or staying unchanged when the string is
    blank (an out-of-range one is clamped, lemma
    \<open>JPEG_quality_clamped\<close>).
  \<^item> Popup placement (C14--C18): the requested placement is kept when it fits, a
    fitting placement is returned whenever one exists, the point overload always
    returns (it never reads \<open>rbegin()\<close> of an empty map), otherwise a placement of
    maximal clipped area is chosen (for the button overload: lemma
    \<open>getPopup_button_largest_area\<close>), and the two overloads break ties
    differently: on equal areas the point overload returns the last placement tried,
    the button overload the requested one (C18, a finding: line 131 overwrites equal
    areas).
  \<^item> Image view (C19--C30): zoom non-negative and overlay in step with the view in
    every reachable state (C19, by rule induction); zoom about a point keeps the point
    fixed (C20) but zoom about the centre moves the point at the centre by
    \<open>(1 - z'/z)\<close> times the widget's corner (C21, a finding); zero zoom makes zoom-about-a-point non-finite (C22);
    fill and frame fit and centre the image (C23, C24); the four-point bounding-box
    loop equals the reference bounding box of the corners (C25); an animation's end
    reaches the target whatever ticks came before (C26) and undoes any pan made
    meanwhile (C27); without a lock, a layout before any image clears the first-layout
    flag, so an image set afterwards is never filled (C28, a finding); \<open>setImageAspectRatio\<close> without image dereferences null (C29); the
    paint event keeps the renderer's transform stack balanced and draws annotations
    under the transform \<open>paintXForm\<close> describes (C30).
  \<^item> View system (C31--C34): invariant of the reachable states (C31); closing and
    reopening a widget restores its position and size (C32); opening before
    \<open>setCanvas\<close> dereferences null (C33); reopening an open name leaves the old
    widget on the canvas, recorded under no name, and its close button closes the new
    one (C34, a finding).
  \<^item> DPX (C35): the trace of writing a sequence of frames: one open per frame file in
    order, all bytes, one header per frame with the profile chosen from the colour space.
  \<^item> AV settings (C36): loading what \<open>save\<close> wrote restores the AV settings and every
    plugin's options, a refinement of the settings round trip by the codecs' round trips.
  \<^item> File actions (C37): over any sequence of events the application exits only
    after a click on Exit and a later Yes to the confirmation, and never without a
    dialog system.
  \<^item> Grid options (C38) and display profile (C39): their serializations round-trip;
    the display profile's string form does not carry the LUT pixel data, and a failed
    read leaves the fields read so far assigned (lemma
    \<open>DisplayProfile_read_partial\<close>).
  Further lemmas: the registry refuses an overlapping extension with
  \<open>DuplicateExtension\<close> and an unclaimed one does not resolve
  (\<open>NoPluginForExtension\<close>), as the spec says (\<open>registry_errors\<close>), start-up
  registration keeps registration order (\<open>register_all_order\<close>) and
  \<open>resolveByName\<close> finds a registered plugin; sequence resolution returns the frame
  paths in ascending order or the first missing frame, keeps the token width, and
  reproduces the spec's example (\<open>resolve_sequence_spec_example\<close>), and writing a
  resolved sequence with a DPX writer opens each frame path once in ascending order
  (\<open>DPX_write_resolved_sequence\<close>, in this theory: it spans the two); the FFmpeg
  log filter and truncation; getClassName tells the light classes apart, and setter
  calls never change a light's class (\<open>light_run_class\<close>).

  \<^bold>\<open>Modelling choices.\<close>
  \<open>size_t\<close> is \<open>64 word\<close> where its arithmetic can wrap (the scanline size); sample
  values are \<open>8 word\<close>/\<open>16 word\<close>, and the store of a parsed \<open>int\<close> into a sample is
  \<open>word_of_int\<close>, which keeps the value modulo the sample width as the C++
  conversion does.  The host is little-endian (the \<open>reinterpret_cast\<close> of a byte
  buffer to \<open>uint16_t*\<close>).  Reading past the end of a caller's buffer is undefined
  behaviour in C++; the model returns \<open>BufferOverrun\<close> there instead, and
  \<open>NullDeref\<close> for a dereference of an empty pointer.  No loop of
  the modelled code is unbounded: every loop of the sources is structural recursion
  over a list or a count, and the spec's frame-range loop counts up to its bound with
  a termination proof, so no fuel is needed.  The one loop whose counter can overflow,
  that of \<open>_readASCII\<close>, is modelled as written (\<open>readASCII_loop\<close>) with its
  termination proved from the 32-bit counter; signed overflow, undefined in C++, is
  taken as two's-complement wrap.  \<open>readASCII\<close> calls this loop, so the reader's
  claims (C1, C5) assume at most \<open>2^31\<close> samples, where it agrees with the
  \<open>nat\<close>-counting \<open>readASCII_tmpl\<close> (lemma \<open>readASCII_loop_small\<close>).
  \<open>setImage\<close> compares the images' \<open>std::shared_ptr\<close>s, modelled by the address
  each image record carries (\<open>image_ptr\<close>).  The view's lock starts as the view
  settings' lock, which the observer created in \<open>_init\<close> stores at once.
  NetPBM \<open>#\<close> comments, which the spec does not describe and the writer never
  emits, are not modelled in \<open>readWord\<close>.

  \<^bold>\<open>Not modelled.\<close>
  \<^item> Declarations without behaviour: \<open>Targa.h\<close>, \<open>IFFSave.h\<close>,
    \<open>djvPngPlugin.h\<close>, \<open>djvTime.h\<close>, \<open>Animation.h\<close>, \<open>Context.h\<close> and the
    application, widget and dialog headers and sources (\<open>djvViewMainWindow.h\<close>,
    \<open>djvViewViewPrefs.h\<close>, \<open>ImageObject.cpp\<close>, \<open>djvMiscPrefsWidget.cpp\<close>,
    \<open>djvApplicationInfoDialog.cpp\<close>, ...), which only build Qt or GLFW widgets.
  \<^item> What the renderer does with the calls of \<open>_paintEvent\<close> (the trace is
    modelled, the pixels are not) and the \<open>djvDebug\<close> output of the display
    profile: rendering and logging with no state of their own.
  \<^item> Members that only return a member or construct an object: the \<open>observe*\<close>
    getters and \<open>create\<close> factories of \<open>ImageView\<close> and \<open>FileSystem\<close>, the empty
    defaults of \<open>IViewSystem::getActions\<close>, \<open>getMenu\<close> and
    \<open>createSettingsWidgets\<close>, \<open>_preLayoutEvent\<close>'s minimum size, and the FFmpeg
    \<open>Plugin::create\<close> and \<open>getErrorString\<close>.
  \<^item> \<open>Core::BBox2f\<close> and \<open>FileIO::readWord\<close>/\<open>String::fromString\<close> are
    collaborators outside \<open>src/\<close>: only the operations the modelled code calls are
    defined (\<open>Geometry\<close>, \<open>DJV_Prelude\<close>), which is why those components are
    partly modelled.
  \<^item> The test drivers under \<open>src/tests/\<close>: the classes they exercise are not in
    the repository.
\<close>

text \<open>
  Across components: writing the frames of a resolved sequence with a DPX writer opens
  every frame path of the range once, in ascending frame order, with the
  representative's token width (sequence layer and codec, spec sections 4.2 and 4.4).
\<close>

lemma DPX_write_resolved_sequence:
  assumes "split_sequence p = Some (pre, digits, suf)"
    and "\<forall>n. f \<le> n \<and> n \<le> l \<longrightarrow> exists (frame_path pre (length digits) suf n)"
    and "length imgs = Suc l - f"
  shows "\<exists>paths. resolve_sequence exists p f l = Inr paths \<and>
           List.map_filter opened_file (DPX_Writer_write (DPX_Write_create opts cs) (zip paths imgs))
             = map (frame_path pre (length digits) suf) [f..<Suc l]"
proof -
  have r: "resolve_sequence exists p f l = Inr (map (frame_path pre (length digits) suf) [f..<Suc l])"
    using assms(1,2) by (simp add: resolve_sequence_def resolve_frames_all)
  show ?thesis
    using r assms(3) by (simp add: DPX_Writer_write_def DPX_Write_create_def DPX_opened_files)
qed

end
